theory Spec2Isabelle
  imports
    Main
    "HOL-Library.Word"
    "HOL-Library.Char_ord"
    "HOL-Library.List_Lexorder"
    "HOL-Library.Multiset"
begin

section \<open>Errors and sequencing\<close>

text \<open>
  Every \<^verbatim>\<open>throw\<close> of the TypeScript becomes a value \<open>Inl e\<close>. The constructors carry the
  names the specification gives to the failures; the comments give the message of the
  \<^verbatim>\<open>Error\<close> object where the source shows one. \<open>CollaboratorError\<close> stands for whatever a
  function outside the modelled files may throw.
\<close>

datatype error =
    TruncatedInputError
  | UnknownVariantError nat nat
  | InvalidAmountError
  | UncompressedKeyNotAllowedError string
      \<comment> \<open>with the message of the \<^verbatim>\<open>Error\<close> object, which the tests show\<close>
  | AddressMismatchError
      \<comment> \<open>\<^verbatim>\<open>Error('Failed to find matching multi-sig address given public-keys.')\<close>\<close>
  | NotSponsoredError
  | SignatureVerificationError nat
  | NotMultiSigError
      \<comment> \<open>\<^verbatim>\<open>Error('Transaction is not a multi-sig transaction')\<close>\<close>
  | CollaboratorError string

text \<open>
  The two messages of \<open>UncompressedKeyNotAllowedError\<close>: the first when a condition is
  constructed, the second when an origin is verified or a transaction decoded
  (transaction.test.ts, lines 286--288 and 319--323).
\<close>

definition compressedForSegwit :: string where
  "compressedForSegwit = ''Public keys must be compressed for segwit''"

definition uncompressedNotAllowed :: string where
  "uncompressedNotAllowed = ''Uncompressed keys are not allowed in this hash mode''"

definition bindE :: "'e + 'a \<Rightarrow> ('a \<Rightarrow> 'e + 'b) \<Rightarrow> 'e + 'b" where
  "bindE m f = (case m of Inl e \<Rightarrow> Inl e | Inr x \<Rightarrow> f x)"

text \<open>\<^verbatim>\<open>Array.prototype.map\<close> with a callback that may throw: the first throw ends the map.\<close>

fun mapE :: "('a \<Rightarrow> 'e + 'b) \<Rightarrow> 'a list \<Rightarrow> 'e + 'b list" where
  "mapE f [] = Inr []"
| "mapE f (x # xs) = bindE (f x) (\<lambda>y. bindE (mapE f xs) (\<lambda>ys. Inr (y # ys)))"

section \<open>Keys, hash modes and addresses\<close>

type_synonym byte = "8 word"
type_synonym bytes = "byte list"

text \<open>
  \<^verbatim>\<open>AddressHashMode\<close> of \<^verbatim>\<open>./constants\<close>, with the members the builders, the tests and the
  specification name. \<^verbatim>\<open>MultiSigHashMode\<close> is the subset that \<open>isMultiSigHashMode\<close> accepts.
\<close>

datatype AddressHashMode =
    SerializeP2PKH
  | SerializeP2SH
  | SerializeP2WPKH
  | SerializeP2WSH
  | SerializeP2SHNonSequential

text \<open>
  An address object as \<^verbatim>\<open>addressFromPublicKeys\<close> and \<^verbatim>\<open>createAddress\<close> return it. The source
  keeps \<open>hash160\<close> as the lower-case hexadecimal text of the twenty bytes; the model keeps
  the bytes, so that \<^verbatim>\<open>===\<close> on two such texts is equality of the values.
\<close>

record Address =
  addr_version :: nat
  hash160 :: bytes

text \<open>
  The functions the builders import from files that are not part of the modelled sources
  are fields of one record, passed to every function that calls them. Each may throw.
  A public key given to a builder is text (\<^verbatim>\<open>string\<close>); \<^verbatim>\<open>createStacksPublicKey\<close> turns it
  into the key's bytes.
\<close>

record key_collaborators =
  createStacksPublicKey :: "string \<Rightarrow> error + bytes"
  addressFromPublicKeys :: "nat \<Rightarrow> AddressHashMode \<Rightarrow> nat \<Rightarrow> bytes list \<Rightarrow> error + Address"
  createAddress :: "string \<Rightarrow> error + Address"
  privateKeyToPublic :: "string \<Rightarrow> error + string"

section \<open>\<^verbatim>\<open>sortPublicKeysForAddress\<close> (builders.ts, lines 737--765)\<close>

text \<open>
  \<^verbatim>\<open>publicKeys.slice().sort()\<close> sorts a copy with the default comparison of
  \<^verbatim>\<open>Array.prototype.sort\<close>: the elements are compared as strings, code unit by code unit,
  a proper prefix before its extensions. On \<open>string\<close> this is the order of
  \<open>HOL-Library.List_Lexorder\<close> over the character codes of \<open>HOL-Library.Char_ord\<close>, and
  \<open>sort\<close> is the stable insertion sort for it.
\<close>

definition sortPublicKeysForAddress ::
  "('z) key_collaborators_scheme \<Rightarrow> string list \<Rightarrow> nat \<Rightarrow> AddressHashMode \<Rightarrow> bytes
     \<Rightarrow> error + string list" where
  "sortPublicKeysForAddress c publicKeys numSigs hashMode hash =
     bindE (mapE (createStacksPublicKey c) publicKeys) (\<lambda>keys.
     bindE (addressFromPublicKeys c 0 hashMode numSigs keys) (\<lambda>a.
       let hashUnsorted = hash160 a in
       if hashUnsorted = hash then Inr publicKeys
       else
         let publicKeysSorted = sort publicKeys in
         bindE (mapE (createStacksPublicKey c) publicKeysSorted) (\<lambda>keysSorted.
         bindE (addressFromPublicKeys c 0 hashMode numSigs keysSorted) (\<lambda>a'.
           let hashSorted = hash160 a' in
           if hashSorted = hash then Inr publicKeysSorted
           else Inl AddressMismatchError))))"

text \<open>
  The hash the function compares with the target, for one ordering of the keys: what the
  specification calls the derived hash.
\<close>

definition derivedHash ::
  "('z) key_collaborators_scheme \<Rightarrow> AddressHashMode \<Rightarrow> nat \<Rightarrow> string list \<Rightarrow> error + bytes" where
  "derivedHash c hashMode numSigs publicKeys =
     bindE (mapE (createStacksPublicKey c) publicKeys) (\<lambda>keys.
     bindE (addressFromPublicKeys c 0 hashMode numSigs keys) (\<lambda>a. Inr (hash160 a)))"

subsection \<open>The same function over array objects\<close>

text \<open>
  JavaScript arrays are objects: \<^verbatim>\<open>publicKeys\<close> is a reference, \<^verbatim>\<open>slice\<close> allocates a new
  array and \<^verbatim>\<open>sort\<close> sorts the array it is called on in place and returns that same
  reference. The heap maps references to array contents; \<open>next_ref\<close> is the next
  unused reference.
\<close>

type_synonym ref = nat

record heap =
  arrays :: "ref \<Rightarrow> string list option"
  next_ref :: ref

definition contents :: "heap \<Rightarrow> ref \<Rightarrow> string list" where
  "contents h r = (case arrays h r of Some xs \<Rightarrow> xs | None \<Rightarrow> [])"

definition array_slice :: "heap \<Rightarrow> ref \<Rightarrow> ref \<times> heap" where
  "array_slice h r =
     (next_ref h,
      h\<lparr>arrays := (arrays h)(next_ref h \<mapsto> contents h r), next_ref := Suc (next_ref h)\<rparr>)"

definition array_sort :: "heap \<Rightarrow> ref \<Rightarrow> ref \<times> heap" where
  "array_sort h r = (r, h\<lparr>arrays := (arrays h)(r \<mapsto> sort (contents h r))\<rparr>)"

definition sortPublicKeysForAddress_heap ::
  "('z) key_collaborators_scheme \<Rightarrow> heap \<Rightarrow> ref \<Rightarrow> nat \<Rightarrow> AddressHashMode \<Rightarrow> bytes
     \<Rightarrow> (error + ref) \<times> heap" where
  "sortPublicKeysForAddress_heap c h publicKeys numSigs hashMode hash =
     (case bindE (mapE (createStacksPublicKey c) (contents h publicKeys))
             (addressFromPublicKeys c 0 hashMode numSigs) of
        Inl e \<Rightarrow> (Inl e, h)
      | Inr a \<Rightarrow>
          if hash160 a = hash then (Inr publicKeys, h)
          else
            let (copy, h1) = array_slice h publicKeys;
                (publicKeysSorted, h2) = array_sort h1 copy
            in (case bindE (mapE (createStacksPublicKey c) (contents h2 publicKeysSorted))
                       (addressFromPublicKeys c 0 hashMode numSigs) of
                  Inl e \<Rightarrow> (Inl e, h2)
                | Inr a' \<Rightarrow>
                    if hash160 a' = hash then (Inr publicKeysSorted, h2)
                    else (Inl AddressMismatchError, h2)))"

section \<open>The transaction data model\<close>

text \<open>
  The files that declare the transaction classes (\<^verbatim>\<open>transaction.ts\<close>, \<^verbatim>\<open>authorization.ts\<close>,
  \<^verbatim>\<open>payload.ts\<close>, \<^verbatim>\<open>postcondition-types.ts\<close>, \<^verbatim>\<open>constants.ts\<close> of the transactions package)
  are not part of the modelled sources. The types below follow section 3 of the
  specification, the field names the builders and the tests use, and the byte strings
  the tests spell out. Hashes, signatures and keys are kept as their bytes.
\<close>

datatype TransactionVersion = Mainnet | Testnet

datatype AnchorMode = OnChainOnly | OffChainOnly | Any

datatype PostConditionMode = Allow | Deny

datatype AuthType = Standard | Sponsored

datatype PubKeyEncoding = Compressed | Uncompressed

text \<open>
  An auth field of a multi-sig condition: a bare public key or a recoverable signature,
  each with the encoding (compressed or not) of the key it stands for.
\<close>

datatype TransactionAuthField =
    PublicKeyField PubKeyEncoding bytes
  | MessageSignatureField PubKeyEncoding bytes

datatype SpendingCondition =
    SingleSigSpendingCondition
      (hashMode: AddressHashMode) (signer: bytes) (nonce: nat) (fee: nat)
      (keyEncoding: PubKeyEncoding) (signature: bytes)
  | MultiSigSpendingCondition
      (hashMode: AddressHashMode) (signer: bytes) (nonce: nat) (fee: nat)
      (fields: "TransactionAuthField list") (signaturesRequired: nat)

datatype Authorization =
    StandardAuth (spendingCondition: SpendingCondition)
  | SponsoredAuth (spendingCondition: SpendingCondition)
      (sponsorSpendingCondition: SpendingCondition)

text \<open>A principal as a Clarity value: address version, hash, and a contract name.\<close>

datatype PrincipalCV =
    StandardPrincipalCV byte bytes
  | ContractPrincipalCV byte bytes bytes

datatype ClarityVersion = Clarity1 | Clarity2 | Clarity3

text \<open>
  Function arguments, and the asset of a non-fungible post-condition, are Clarity values
  that are already encoded: the model keeps their bytes.
\<close>

type_synonym ClarityValue = bytes

datatype Payload =
    TokenTransferPayload PrincipalCV nat bytes
  | SmartContractPayload bytes bytes "ClarityVersion option"
  | ContractCallPayload byte bytes bytes bytes "ClarityValue list"
  | CoinbasePayload bytes
  | CoinbasePayloadToAltRecipient bytes PrincipalCV

datatype PostConditionPrincipal =
    OriginPrincipal
  | StandardPrincipal byte bytes
  | ContractPrincipal byte bytes bytes

datatype FungibleConditionCode = Equal | Greater | GreaterEqual | Less | LessEqual

datatype NonFungibleConditionCode = Sends | DoesNotSend

record AssetInfo =
  asset_version :: byte
  asset_hash160 :: bytes
  asset_contractName :: bytes
  assetName :: bytes

datatype PostConditionWire =
    STXPostConditionWire PostConditionPrincipal FungibleConditionCode nat
  | FungiblePostConditionWire PostConditionPrincipal AssetInfo FungibleConditionCode nat
  | NonFungiblePostConditionWire PostConditionPrincipal AssetInfo ClarityValue
      NonFungibleConditionCode

text \<open>\<^verbatim>\<open>StacksNetwork\<close> of the network package, with the address versions the builders read.\<close>

record AddressVersion =
  singleSig :: nat
  multiSig :: nat

record StacksNetwork =
  net_chainId :: nat
  transactionVersion :: TransactionVersion
  peerNetworkId :: nat
  magicBytes :: string
  addressVersion :: AddressVersion

record StacksTransaction =
  version :: TransactionVersion
  chainId :: nat
  auth :: Authorization
  anchorMode :: AnchorMode
  payload :: Payload
  postConditionMode :: PostConditionMode
  postConditions :: "PostConditionWire list"

section \<open>Wire primitives\<close>

text \<open>
  Modelled from the spec: the byte-level encoders and the reader are in files that are not
  part of the modelled sources (section 4.1). Integers are big-endian and of fixed width;
  a sequence is a four-byte element count followed by the elements; reading past the end
  fails with \<open>TruncatedInputError\<close>; bytes after the decoded structure are left in the
  reader.
\<close>

fun uintBE :: "nat \<Rightarrow> nat \<Rightarrow> bytes" where
  "uintBE 0 n = []"
| "uintBE (Suc k) n = of_nat (n div 256 ^ k) # uintBE k n"

definition uintOfBytes :: "bytes \<Rightarrow> nat" where
  "uintOfBytes bs = foldl (\<lambda>a b. 256 * a + unat b) 0 bs"

record BytesReader =
  remaining :: bytes
  consumed :: nat

definition readBytes :: "nat \<Rightarrow> BytesReader \<Rightarrow> error + bytes \<times> BytesReader" where
  "readBytes n r =
     (if length (remaining r) < n then Inl TruncatedInputError
      else Inr (take n (remaining r),
                \<lparr>remaining = drop n (remaining r), consumed = consumed r + n\<rparr>))"

definition readUInt8 :: "BytesReader \<Rightarrow> error + byte \<times> BytesReader" where
  "readUInt8 r =
     (case remaining r of
        [] \<Rightarrow> Inl TruncatedInputError
      | b # bs \<Rightarrow> Inr (b, \<lparr>remaining = bs, consumed = consumed r + 1\<rparr>))"

definition readUIntBE :: "nat \<Rightarrow> BytesReader \<Rightarrow> error + nat \<times> BytesReader" where
  "readUIntBE k r = bindE (readBytes k r) (\<lambda>(bs, r'). Inr (uintOfBytes bs, r'))"

text \<open>A byte string with a length prefix of \<open>k\<close> bytes (names: one byte, code: four).\<close>

definition serializeLPBytes :: "nat \<Rightarrow> bytes \<Rightarrow> bytes" where
  "serializeLPBytes k bs = uintBE k (length bs) @ bs"

definition deserializeLPBytes :: "nat \<Rightarrow> BytesReader \<Rightarrow> error + bytes \<times> BytesReader" where
  "deserializeLPBytes k r = bindE (readUIntBE k r) (\<lambda>(n, r'). readBytes n r')"

fun readMany ::
  "(BytesReader \<Rightarrow> error + 'a \<times> BytesReader) \<Rightarrow> nat \<Rightarrow> BytesReader
     \<Rightarrow> error + 'a list \<times> BytesReader" where
  "readMany d 0 r = Inr ([], r)"
| "readMany d (Suc n) r =
     bindE (d r) (\<lambda>(x, r1). bindE (readMany d n r1) (\<lambda>(xs, r2). Inr (x # xs, r2)))"

definition serializeLPList :: "('a \<Rightarrow> bytes) \<Rightarrow> 'a list \<Rightarrow> bytes" where
  "serializeLPList f xs = uintBE 4 (length xs) @ concat (map f xs)"

definition deserializeLPList ::
  "(BytesReader \<Rightarrow> error + 'a \<times> BytesReader) \<Rightarrow> BytesReader
     \<Rightarrow> error + 'a list \<times> BytesReader" where
  "deserializeLPList d r = bindE (readUIntBE 4 r) (\<lambda>(n, r'). readMany d n r')"

text \<open>
  An encoded Clarity value delimits itself. The Clarity codec is outside the modelled
  files; \<open>cvLength bs\<close> is the number of bytes the first encoded value of \<open>bs\<close> takes, when
  \<open>bs\<close> starts with one.
\<close>

definition readClarityValue ::
  "(bytes \<Rightarrow> nat option) \<Rightarrow> BytesReader \<Rightarrow> error + ClarityValue \<times> BytesReader" where
  "readClarityValue cvLength r =
     (case cvLength (remaining r) of
        None \<Rightarrow> Inl TruncatedInputError
      | Some n \<Rightarrow> readBytes n r)"

subsection \<open>Hexadecimal text\<close>

definition hexDigit :: "nat \<Rightarrow> char" where
  "hexDigit n = ''0123456789abcdef'' ! n"

definition hexValue :: "char \<Rightarrow> nat option" where
  "hexValue ch =
     map_of [(CHR ''0'', 0), (CHR ''1'', 1), (CHR ''2'', 2), (CHR ''3'', 3), (CHR ''4'', 4),
             (CHR ''5'', 5), (CHR ''6'', 6), (CHR ''7'', 7), (CHR ''8'', 8), (CHR ''9'', 9),
             (CHR ''a'', 10), (CHR ''b'', 11), (CHR ''c'', 12), (CHR ''d'', 13),
             (CHR ''e'', 14), (CHR ''f'', 15),
             (CHR ''A'', 10), (CHR ''B'', 11), (CHR ''C'', 12), (CHR ''D'', 13),
             (CHR ''E'', 14), (CHR ''F'', 15)] ch"

definition bytesToHex :: "bytes \<Rightarrow> string" where
  "bytesToHex bs = concat (map (\<lambda>b. [hexDigit (unat b div 16), hexDigit (unat b mod 16)]) bs)"

fun parseHex :: "string \<Rightarrow> bytes option" where
  "parseHex [] = Some []"
| "parseHex [ch] = None"
| "parseHex (c1 # c2 # cs) =
     (case (hexValue c1, hexValue c2, parseHex cs) of
        (Some hi, Some lo, Some bs) \<Rightarrow> Some (of_nat (16 * hi + lo) # bs)
      | _ \<Rightarrow> None)"

definition without0x :: "string \<Rightarrow> string" where
  "without0x s = (if take 2 s = ''0x'' then drop 2 s else s)"

definition hexToBytes :: "string \<Rightarrow> error + bytes" where
  "hexToBytes s =
     (case parseHex (without0x s) of
        None \<Rightarrow> Inl (CollaboratorError ''Invalid byte sequence'')
      | Some bs \<Rightarrow> Inr bs)"

section \<open>The transaction codec\<close>

text \<open>
  Modelled from the spec: \<^verbatim>\<open>serializeTransaction\<close>, \<^verbatim>\<open>deserializeTransaction\<close> and the codecs
  of the parts are in files that are not part of the modelled sources. The layout is the
  one section 4.4 gives (version, chain id, authorization, anchor mode, post-condition
  mode, post-conditions, payload), each variant family dispatching on one tag byte. The
  layout of a single-sig condition, of the principals and of the coinbase payloads is the
  one of the byte strings in \<^verbatim>\<open>transaction.test.ts\<close>; the tag values the tests do not show
  are those of the wire format the source refers to (SIP-005). Microblock and
  tenure-change payloads are not modelled. An unknown tag fails with
  \<open>UnknownVariantError tag offset\<close>.
\<close>

subsection \<open>Tags\<close>

definition versionTag :: "TransactionVersion \<Rightarrow> byte" where
  "versionTag v = (case v of Mainnet \<Rightarrow> 0x00 | Testnet \<Rightarrow> 0x80)"

definition versionOfTag :: "byte \<Rightarrow> TransactionVersion option" where
  "versionOfTag b = map_of [(0x00, Mainnet), (0x80, Testnet)] b"

definition hashModeTag :: "AddressHashMode \<Rightarrow> byte" where
  "hashModeTag m =
     (case m of SerializeP2PKH \<Rightarrow> 0x00 | SerializeP2SH \<Rightarrow> 0x01 | SerializeP2WPKH \<Rightarrow> 0x02
      | SerializeP2WSH \<Rightarrow> 0x03 | SerializeP2SHNonSequential \<Rightarrow> 0x05)"

definition hashModeOfTag :: "byte \<Rightarrow> AddressHashMode option" where
  "hashModeOfTag b =
     map_of [(0x00, SerializeP2PKH), (0x01, SerializeP2SH), (0x02, SerializeP2WPKH),
             (0x03, SerializeP2WSH), (0x05, SerializeP2SHNonSequential)] b"

definition isSingleSigHashMode :: "AddressHashMode \<Rightarrow> bool" where
  "isSingleSigHashMode m = (m = SerializeP2PKH \<or> m = SerializeP2WPKH)"

text \<open>The segwit-style hash modes, which allow compressed keys only.\<close>

definition requiresCompressedKeys :: "AddressHashMode \<Rightarrow> bool" where
  "requiresCompressedKeys m = (m = SerializeP2WPKH \<or> m = SerializeP2WSH)"

definition authTypeTag :: "AuthType \<Rightarrow> byte" where
  "authTypeTag t = (case t of Standard \<Rightarrow> 0x04 | Sponsored \<Rightarrow> 0x05)"

definition keyEncodingTag :: "PubKeyEncoding \<Rightarrow> byte" where
  "keyEncodingTag e = (case e of Compressed \<Rightarrow> 0x00 | Uncompressed \<Rightarrow> 0x01)"

definition keyEncodingOfTag :: "byte \<Rightarrow> PubKeyEncoding option" where
  "keyEncodingOfTag b = map_of [(0x00, Compressed), (0x01, Uncompressed)] b"

definition anchorModeTag :: "AnchorMode \<Rightarrow> byte" where
  "anchorModeTag a = (case a of OnChainOnly \<Rightarrow> 0x01 | OffChainOnly \<Rightarrow> 0x02 | Any \<Rightarrow> 0x03)"

definition anchorModeOfTag :: "byte \<Rightarrow> AnchorMode option" where
  "anchorModeOfTag b = map_of [(0x01, OnChainOnly), (0x02, OffChainOnly), (0x03, Any)] b"

definition postConditionModeTag :: "PostConditionMode \<Rightarrow> byte" where
  "postConditionModeTag m = (case m of Allow \<Rightarrow> 0x01 | Deny \<Rightarrow> 0x02)"

definition postConditionModeOfTag :: "byte \<Rightarrow> PostConditionMode option" where
  "postConditionModeOfTag b = map_of [(0x01, Allow), (0x02, Deny)] b"

definition clarityVersionTag :: "ClarityVersion \<Rightarrow> byte" where
  "clarityVersionTag v = (case v of Clarity1 \<Rightarrow> 0x01 | Clarity2 \<Rightarrow> 0x02 | Clarity3 \<Rightarrow> 0x03)"

definition clarityVersionOfTag :: "byte \<Rightarrow> ClarityVersion option" where
  "clarityVersionOfTag b = map_of [(0x01, Clarity1), (0x02, Clarity2), (0x03, Clarity3)] b"

definition fungibleCodeTag :: "FungibleConditionCode \<Rightarrow> byte" where
  "fungibleCodeTag c =
     (case c of Equal \<Rightarrow> 0x01 | Greater \<Rightarrow> 0x02 | GreaterEqual \<Rightarrow> 0x03 | Less \<Rightarrow> 0x04
      | LessEqual \<Rightarrow> 0x05)"

definition fungibleCodeOfTag :: "byte \<Rightarrow> FungibleConditionCode option" where
  "fungibleCodeOfTag b =
     map_of [(0x01, Equal), (0x02, Greater), (0x03, GreaterEqual), (0x04, Less),
             (0x05, LessEqual)] b"

definition nonFungibleCodeTag :: "NonFungibleConditionCode \<Rightarrow> byte" where
  "nonFungibleCodeTag c = (case c of Sends \<Rightarrow> 0x10 | DoesNotSend \<Rightarrow> 0x11)"

definition nonFungibleCodeOfTag :: "byte \<Rightarrow> NonFungibleConditionCode option" where
  "nonFungibleCodeOfTag b = map_of [(0x10, Sends), (0x11, DoesNotSend)] b"

definition unknownVariant :: "byte \<Rightarrow> BytesReader \<Rightarrow> error + 'a" where
  "unknownVariant tag r = Inl (UnknownVariantError (unat tag) (consumed r))"

text \<open>Reads one tag byte and looks it up; the offset reported is the one of the tag.\<close>

definition readTag :: "(byte \<Rightarrow> 'a option) \<Rightarrow> BytesReader \<Rightarrow> error + 'a \<times> BytesReader" where
  "readTag ofTag r =
     bindE (readUInt8 r) (\<lambda>(b, r1).
       case ofTag b of None \<Rightarrow> unknownVariant b r | Some x \<Rightarrow> Inr (x, r1))"

subsection \<open>Authorization\<close>

definition serializeAuthField :: "TransactionAuthField \<Rightarrow> bytes" where
  "serializeAuthField f =
     (case f of
        PublicKeyField Compressed k \<Rightarrow> 0x00 # k
      | PublicKeyField Uncompressed k \<Rightarrow> 0x01 # k
      | MessageSignatureField Compressed s \<Rightarrow> 0x02 # s
      | MessageSignatureField Uncompressed s \<Rightarrow> 0x03 # s)"

definition deserializeAuthField ::
  "BytesReader \<Rightarrow> error + TransactionAuthField \<times> BytesReader" where
  "deserializeAuthField r =
     bindE (readUInt8 r) (\<lambda>(t, r1).
       if t = 0x00 then bindE (readBytes 33 r1) (\<lambda>(k, r2). Inr (PublicKeyField Compressed k, r2))
       else if t = 0x01 then
         bindE (readBytes 65 r1) (\<lambda>(k, r2). Inr (PublicKeyField Uncompressed k, r2))
       else if t = 0x02 then
         bindE (readBytes 65 r1) (\<lambda>(s, r2). Inr (MessageSignatureField Compressed s, r2))
       else if t = 0x03 then
         bindE (readBytes 65 r1) (\<lambda>(s, r2). Inr (MessageSignatureField Uncompressed s, r2))
       else unknownVariant t r)"

definition fieldEncoding :: "TransactionAuthField \<Rightarrow> PubKeyEncoding" where
  "fieldEncoding f = (case f of PublicKeyField e k \<Rightarrow> e | MessageSignatureField e s \<Rightarrow> e)"

definition isSignatureField :: "TransactionAuthField \<Rightarrow> bool" where
  "isSignatureField f = (case f of PublicKeyField e k \<Rightarrow> False | MessageSignatureField e s \<Rightarrow> True)"

definition haveUncompressed :: "TransactionAuthField list \<Rightarrow> bool" where
  "haveUncompressed fs = (Uncompressed \<in> set (map fieldEncoding fs))"

definition serializeSpendingCondition :: "SpendingCondition \<Rightarrow> bytes" where
  "serializeSpendingCondition sc =
     (case sc of
        SingleSigSpendingCondition m s n f e sig \<Rightarrow>
          hashModeTag m # s @ uintBE 8 n @ uintBE 8 f @ keyEncodingTag e # sig
      | MultiSigSpendingCondition m s n f fs req \<Rightarrow>
          hashModeTag m # s @ uintBE 8 n @ uintBE 8 f
            @ serializeLPList serializeAuthField fs @ uintBE 2 req)"

text \<open>
  The test on uncompressed keys (transaction.test.ts, lines 319--323) shows that decoding
  a multi-sig condition whose hash mode is the segwit one and whose fields hold an
  uncompressed key fails with the same error as verification.
\<close>

definition deserializeSpendingCondition ::
  "BytesReader \<Rightarrow> error + SpendingCondition \<times> BytesReader" where
  "deserializeSpendingCondition r =
     bindE (readTag hashModeOfTag r) (\<lambda>(m, r1).
     bindE (readBytes 20 r1) (\<lambda>(s, r2).
     bindE (readUIntBE 8 r2) (\<lambda>(n, r3).
     bindE (readUIntBE 8 r3) (\<lambda>(f, r4).
       if isSingleSigHashMode m then
         bindE (readTag keyEncodingOfTag r4) (\<lambda>(e, r5).
         bindE (readBytes 65 r5) (\<lambda>(sig, r6).
           Inr (SingleSigSpendingCondition m s n f e sig, r6)))
       else
         bindE (deserializeLPList deserializeAuthField r4) (\<lambda>(fs, r5).
         bindE (readUIntBE 2 r5) (\<lambda>(req, r6).
           if haveUncompressed fs \<and> requiresCompressedKeys m
           then Inl (UncompressedKeyNotAllowedError uncompressedNotAllowed)
           else Inr (MultiSigSpendingCondition m s n f fs req, r6)))))))"

definition serializeAuthorization :: "Authorization \<Rightarrow> bytes" where
  "serializeAuthorization a =
     (case a of
        StandardAuth sc \<Rightarrow> authTypeTag Standard # serializeSpendingCondition sc
      | SponsoredAuth sc sponsor \<Rightarrow>
          authTypeTag Sponsored # serializeSpendingCondition sc
            @ serializeSpendingCondition sponsor)"

definition deserializeAuthorization ::
  "BytesReader \<Rightarrow> error + Authorization \<times> BytesReader" where
  "deserializeAuthorization r =
     bindE (readUInt8 r) (\<lambda>(t, r1).
       if t = 0x04 then
         bindE (deserializeSpendingCondition r1) (\<lambda>(sc, r2). Inr (StandardAuth sc, r2))
       else if t = 0x05 then
         bindE (deserializeSpendingCondition r1) (\<lambda>(sc, r2).
         bindE (deserializeSpendingCondition r2) (\<lambda>(sponsor, r3).
           Inr (SponsoredAuth sc sponsor, r3)))
       else unknownVariant t r)"

subsection \<open>Payloads\<close>

definition serializePrincipalCV :: "PrincipalCV \<Rightarrow> bytes" where
  "serializePrincipalCV p =
     (case p of
        StandardPrincipalCV v h \<Rightarrow> 0x05 # v # h
      | ContractPrincipalCV v h name \<Rightarrow> 0x06 # v # h @ serializeLPBytes 1 name)"

definition deserializePrincipalCV :: "BytesReader \<Rightarrow> error + PrincipalCV \<times> BytesReader" where
  "deserializePrincipalCV r =
     bindE (readUInt8 r) (\<lambda>(t, r1).
       if t = 0x05 then
         bindE (readUInt8 r1) (\<lambda>(v, r2).
         bindE (readBytes 20 r2) (\<lambda>(h, r3). Inr (StandardPrincipalCV v h, r3)))
       else if t = 0x06 then
         bindE (readUInt8 r1) (\<lambda>(v, r2).
         bindE (readBytes 20 r2) (\<lambda>(h, r3).
         bindE (deserializeLPBytes 1 r3) (\<lambda>(name, r4).
           Inr (ContractPrincipalCV v h name, r4))))
       else unknownVariant t r)"

text \<open>A memo takes 34 bytes on the wire, padded with zero bytes, which decoding removes.\<close>

definition serializeMemo :: "bytes \<Rightarrow> bytes" where
  "serializeMemo m = m @ replicate (34 - length m) 0"

definition deserializeMemo :: "BytesReader \<Rightarrow> error + bytes \<times> BytesReader" where
  "deserializeMemo r =
     bindE (readBytes 34 r) (\<lambda>(bs, r1). Inr (rev (dropWhile (\<lambda>b. b = 0) (rev bs)), r1))"

definition serializePayload :: "Payload \<Rightarrow> bytes" where
  "serializePayload p =
     (case p of
        TokenTransferPayload recipient amount memo \<Rightarrow>
          0x00 # serializePrincipalCV recipient @ uintBE 8 amount @ serializeMemo memo
      | SmartContractPayload name code None \<Rightarrow>
          0x01 # serializeLPBytes 1 name @ serializeLPBytes 4 code
      | SmartContractPayload name code (Some cv) \<Rightarrow>
          0x06 # clarityVersionTag cv # serializeLPBytes 1 name @ serializeLPBytes 4 code
      | ContractCallPayload v h name fn args \<Rightarrow>
          0x02 # v # h @ serializeLPBytes 1 name @ serializeLPBytes 1 fn
            @ serializeLPList (\<lambda>a. a) args
      | CoinbasePayload bs \<Rightarrow> 0x04 # bs
      | CoinbasePayloadToAltRecipient bs recipient \<Rightarrow> 0x05 # bs @ serializePrincipalCV recipient)"

definition deserializePayload ::
  "(bytes \<Rightarrow> nat option) \<Rightarrow> BytesReader \<Rightarrow> error + Payload \<times> BytesReader" where
  "deserializePayload cvLength r =
     bindE (readUInt8 r) (\<lambda>(t, r1).
       if t = 0x00 then
         bindE (deserializePrincipalCV r1) (\<lambda>(recipient, r2).
         bindE (readUIntBE 8 r2) (\<lambda>(amount, r3).
         bindE (deserializeMemo r3) (\<lambda>(memo, r4).
           Inr (TokenTransferPayload recipient amount memo, r4))))
       else if t = 0x01 then
         bindE (deserializeLPBytes 1 r1) (\<lambda>(name, r2).
         bindE (deserializeLPBytes 4 r2) (\<lambda>(code, r3).
           Inr (SmartContractPayload name code None, r3)))
       else if t = 0x06 then
         bindE (readTag clarityVersionOfTag r1) (\<lambda>(cv, r2).
         bindE (deserializeLPBytes 1 r2) (\<lambda>(name, r3).
         bindE (deserializeLPBytes 4 r3) (\<lambda>(code, r4).
           Inr (SmartContractPayload name code (Some cv), r4))))
       else if t = 0x02 then
         bindE (readUInt8 r1) (\<lambda>(v, r2).
         bindE (readBytes 20 r2) (\<lambda>(h, r3).
         bindE (deserializeLPBytes 1 r3) (\<lambda>(name, r4).
         bindE (deserializeLPBytes 1 r4) (\<lambda>(fn, r5).
         bindE (deserializeLPList (readClarityValue cvLength) r5) (\<lambda>(args, r6).
           Inr (ContractCallPayload v h name fn args, r6))))))
       else if t = 0x04 then
         bindE (readBytes 32 r1) (\<lambda>(bs, r2). Inr (CoinbasePayload bs, r2))
       else if t = 0x05 then
         bindE (readBytes 32 r1) (\<lambda>(bs, r2).
         bindE (deserializePrincipalCV r2) (\<lambda>(recipient, r3).
           Inr (CoinbasePayloadToAltRecipient bs recipient, r3)))
       else unknownVariant t r)"

subsection \<open>Post-conditions\<close>

definition serializePostConditionPrincipal :: "PostConditionPrincipal \<Rightarrow> bytes" where
  "serializePostConditionPrincipal p =
     (case p of
        OriginPrincipal \<Rightarrow> [0x01]
      | StandardPrincipal v h \<Rightarrow> 0x02 # v # h
      | ContractPrincipal v h name \<Rightarrow> 0x03 # v # h @ serializeLPBytes 1 name)"

definition deserializePostConditionPrincipal ::
  "BytesReader \<Rightarrow> error + PostConditionPrincipal \<times> BytesReader" where
  "deserializePostConditionPrincipal r =
     bindE (readUInt8 r) (\<lambda>(t, r1).
       if t = 0x01 then Inr (OriginPrincipal, r1)
       else if t = 0x02 then
         bindE (readUInt8 r1) (\<lambda>(v, r2).
         bindE (readBytes 20 r2) (\<lambda>(h, r3). Inr (StandardPrincipal v h, r3)))
       else if t = 0x03 then
         bindE (readUInt8 r1) (\<lambda>(v, r2).
         bindE (readBytes 20 r2) (\<lambda>(h, r3).
         bindE (deserializeLPBytes 1 r3) (\<lambda>(name, r4).
           Inr (ContractPrincipal v h name, r4))))
       else unknownVariant t r)"

definition serializeAssetInfo :: "AssetInfo \<Rightarrow> bytes" where
  "serializeAssetInfo a =
     asset_version a # asset_hash160 a @ serializeLPBytes 1 (asset_contractName a)
       @ serializeLPBytes 1 (assetName a)"

definition deserializeAssetInfo :: "BytesReader \<Rightarrow> error + AssetInfo \<times> BytesReader" where
  "deserializeAssetInfo r =
     bindE (readUInt8 r) (\<lambda>(v, r1).
     bindE (readBytes 20 r1) (\<lambda>(h, r2).
     bindE (deserializeLPBytes 1 r2) (\<lambda>(cn, r3).
     bindE (deserializeLPBytes 1 r3) (\<lambda>(an, r4).
       Inr (\<lparr>asset_version = v, asset_hash160 = h, asset_contractName = cn, assetName = an\<rparr>,
            r4)))))"

definition serializePostCondition :: "PostConditionWire \<Rightarrow> bytes" where
  "serializePostCondition pc =
     (case pc of
        STXPostConditionWire p code amount \<Rightarrow>
          0x00 # serializePostConditionPrincipal p @ fungibleCodeTag code # uintBE 8 amount
      | FungiblePostConditionWire p a code amount \<Rightarrow>
          0x01 # serializePostConditionPrincipal p @ serializeAssetInfo a
            @ fungibleCodeTag code # uintBE 8 amount
      | NonFungiblePostConditionWire p a asset code \<Rightarrow>
          0x02 # serializePostConditionPrincipal p @ serializeAssetInfo a @ asset
            @ [nonFungibleCodeTag code])"

definition deserializePostCondition ::
  "(bytes \<Rightarrow> nat option) \<Rightarrow> BytesReader \<Rightarrow> error + PostConditionWire \<times> BytesReader" where
  "deserializePostCondition cvLength r =
     bindE (readUInt8 r) (\<lambda>(t, r1).
       if t = 0x00 then
         bindE (deserializePostConditionPrincipal r1) (\<lambda>(p, r2).
         bindE (readTag fungibleCodeOfTag r2) (\<lambda>(code, r3).
         bindE (readUIntBE 8 r3) (\<lambda>(amount, r4).
           Inr (STXPostConditionWire p code amount, r4))))
       else if t = 0x01 then
         bindE (deserializePostConditionPrincipal r1) (\<lambda>(p, r2).
         bindE (deserializeAssetInfo r2) (\<lambda>(a, r3).
         bindE (readTag fungibleCodeOfTag r3) (\<lambda>(code, r4).
         bindE (readUIntBE 8 r4) (\<lambda>(amount, r5).
           Inr (FungiblePostConditionWire p a code amount, r5)))))
       else if t = 0x02 then
         bindE (deserializePostConditionPrincipal r1) (\<lambda>(p, r2).
         bindE (deserializeAssetInfo r2) (\<lambda>(a, r3).
         bindE (readClarityValue cvLength r3) (\<lambda>(asset, r4).
         bindE (readTag nonFungibleCodeOfTag r4) (\<lambda>(code, r5).
           Inr (NonFungiblePostConditionWire p a asset code, r5)))))
       else unknownVariant t r)"

subsection \<open>The envelope\<close>

definition serializeBytes :: "StacksTransaction \<Rightarrow> bytes" where
  "serializeBytes tx =
     versionTag (version tx) # uintBE 4 (chainId tx)
       @ serializeAuthorization (auth tx)
       @ anchorModeTag (anchorMode tx) # postConditionModeTag (postConditionMode tx)
       # serializeLPList serializePostCondition (postConditions tx)
       @ serializePayload (payload tx)"

text \<open>\<^verbatim>\<open>transaction.serialize()\<close>: the bytes as hexadecimal text, without a prefix.\<close>

definition serialize :: "StacksTransaction \<Rightarrow> string" where
  "serialize tx = bytesToHex (serializeBytes tx)"

definition deserializeFromReader ::
  "(bytes \<Rightarrow> nat option) \<Rightarrow> BytesReader \<Rightarrow> error + StacksTransaction \<times> BytesReader" where
  "deserializeFromReader cvLength r =
     bindE (readTag versionOfTag r) (\<lambda>(v, r1).
     bindE (readUIntBE 4 r1) (\<lambda>(cid, r2).
     bindE (deserializeAuthorization r2) (\<lambda>(a, r3).
     bindE (readTag anchorModeOfTag r3) (\<lambda>(am, r4).
     bindE (readTag postConditionModeOfTag r4) (\<lambda>(pcm, r5).
     bindE (deserializeLPList (deserializePostCondition cvLength) r5) (\<lambda>(pcs, r6).
     bindE (deserializePayload cvLength r6) (\<lambda>(p, r7).
       Inr (\<lparr>version = v, chainId = cid, auth = a, anchorMode = am, payload = p,
             postConditionMode = pcm, postConditions = pcs\<rparr>, r7))))))))"

text \<open>
  \<^verbatim>\<open>deserializeTransaction\<close> takes a reader, bytes, or hexadecimal text with or without the
  prefix \<^verbatim>\<open>0x\<close> (transaction.test.ts, lines 95--103).
\<close>

datatype TransactionInput = FromReader BytesReader | FromBytes bytes | FromHex string

definition deserializeTransaction ::
  "(bytes \<Rightarrow> nat option) \<Rightarrow> TransactionInput \<Rightarrow> error + StacksTransaction" where
  "deserializeTransaction cvLength input =
     bindE (case input of
              FromReader r \<Rightarrow> Inr r
            | FromBytes bs \<Rightarrow> Inr \<lparr>remaining = bs, consumed = 0\<rparr>
            | FromHex s \<Rightarrow> bindE (hexToBytes s) (\<lambda>bs. Inr \<lparr>remaining = bs, consumed = 0\<rparr>))
       (\<lambda>r. bindE (deserializeFromReader cvLength r) (\<lambda>(tx, r'). Inr tx))"

section \<open>Structurally valid envelopes\<close>

text \<open>
  What the codec can represent: a hash has 20 bytes, a signature 65, a compressed key 33
  and an uncompressed one 65; numbers fit their width (chain id 4 bytes, fee, nonce and
  amounts 8, the required signatures 2, a count 4); a name fits a one-byte length and a
  contract body a four-byte one; a memo has at most 34 bytes and does not end in the
  padding byte; a coinbase buffer has 32 bytes; the hash mode of a condition is of its
  kind; an encoded Clarity value is one the external codec delimits. The compression rule
  is kept apart from the sizes.
\<close>

definition validAuthField :: "TransactionAuthField \<Rightarrow> bool" where
  "validAuthField f =
     (case f of
        PublicKeyField e k \<Rightarrow> length k = (if e = Compressed then 33 else 65)
      | MessageSignatureField e s \<Rightarrow> length s = 65)"

definition wellSized :: "SpendingCondition \<Rightarrow> bool" where
  "wellSized sc =
     (case sc of
        SingleSigSpendingCondition m s n f e sig \<Rightarrow>
          isSingleSigHashMode m \<and> length s = 20 \<and> n < 2 ^ 64 \<and> f < 2 ^ 64 \<and> length sig = 65
      | MultiSigSpendingCondition m s n f fs req \<Rightarrow>
          \<not> isSingleSigHashMode m \<and> length s = 20 \<and> n < 2 ^ 64 \<and> f < 2 ^ 64 \<and>
          list_all validAuthField fs \<and> length fs < 2 ^ 32 \<and> req < 2 ^ 16)"

definition compressionRule :: "SpendingCondition \<Rightarrow> bool" where
  "compressionRule sc =
     (case sc of
        SingleSigSpendingCondition m s n f e sig \<Rightarrow> True
      | MultiSigSpendingCondition m s n f fs req \<Rightarrow>
          \<not> (haveUncompressed fs \<and> requiresCompressedKeys m))"

definition validSpendingCondition :: "SpendingCondition \<Rightarrow> bool" where
  "validSpendingCondition sc = (wellSized sc \<and> compressionRule sc)"

definition validAuthorization :: "Authorization \<Rightarrow> bool" where
  "validAuthorization a =
     (case a of
        StandardAuth sc \<Rightarrow> validSpendingCondition sc
      | SponsoredAuth sc sp \<Rightarrow> validSpendingCondition sc \<and> validSpendingCondition sp)"

definition validClarityValue :: "(bytes \<Rightarrow> nat option) \<Rightarrow> ClarityValue \<Rightarrow> bool" where
  "validClarityValue cvLen v = (\<forall>rest. cvLen (v @ rest) = Some (length v))"

definition validPrincipalCV :: "PrincipalCV \<Rightarrow> bool" where
  "validPrincipalCV p =
     (case p of
        StandardPrincipalCV v h \<Rightarrow> length h = 20
      | ContractPrincipalCV v h name \<Rightarrow> length h = 20 \<and> length name < 256)"

definition validMemo :: "bytes \<Rightarrow> bool" where
  "validMemo m = (length m \<le> 34 \<and> (m = [] \<or> last m \<noteq> 0))"

definition validPayload :: "(bytes \<Rightarrow> nat option) \<Rightarrow> Payload \<Rightarrow> bool" where
  "validPayload cvLen p =
     (case p of
        TokenTransferPayload recipient amount memo \<Rightarrow>
          validPrincipalCV recipient \<and> amount < 2 ^ 64 \<and> validMemo memo
      | SmartContractPayload name code cv \<Rightarrow> length name < 256 \<and> length code < 2 ^ 32
      | ContractCallPayload v h name fn args \<Rightarrow>
          length h = 20 \<and> length name < 256 \<and> length fn < 256 \<and>
          list_all (validClarityValue cvLen) args \<and> length args < 2 ^ 32
      | CoinbasePayload bs \<Rightarrow> length bs = 32
      | CoinbasePayloadToAltRecipient bs recipient \<Rightarrow>
          length bs = 32 \<and> validPrincipalCV recipient)"

definition validPostConditionPrincipal :: "PostConditionPrincipal \<Rightarrow> bool" where
  "validPostConditionPrincipal p =
     (case p of
        OriginPrincipal \<Rightarrow> True
      | StandardPrincipal v h \<Rightarrow> length h = 20
      | ContractPrincipal v h name \<Rightarrow> length h = 20 \<and> length name < 256)"

definition validAssetInfo :: "AssetInfo \<Rightarrow> bool" where
  "validAssetInfo a =
     (length (asset_hash160 a) = 20 \<and> length (asset_contractName a) < 256 \<and>
      length (assetName a) < 256)"

definition validPostCondition :: "(bytes \<Rightarrow> nat option) \<Rightarrow> PostConditionWire \<Rightarrow> bool" where
  "validPostCondition cvLen pc =
     (case pc of
        STXPostConditionWire p code amount \<Rightarrow> validPostConditionPrincipal p \<and> amount < 2 ^ 64
      | FungiblePostConditionWire p a code amount \<Rightarrow>
          validPostConditionPrincipal p \<and> validAssetInfo a \<and> amount < 2 ^ 64
      | NonFungiblePostConditionWire p a asset code \<Rightarrow>
          validPostConditionPrincipal p \<and> validAssetInfo a \<and> validClarityValue cvLen asset)"

definition validTransaction :: "(bytes \<Rightarrow> nat option) \<Rightarrow> StacksTransaction \<Rightarrow> bool" where
  "validTransaction cvLen tx =
     (chainId tx < 2 ^ 32 \<and> validAuthorization (auth tx) \<and>
      list_all (validPostCondition cvLen) (postConditions tx) \<and>
      length (postConditions tx) < 2 ^ 32 \<and>
      validPayload cvLen (payload tx))"

section \<open>Networks and collaborators\<close>

text \<open>
  The network profiles of \<^verbatim>\<open>constants.ts\<close> (network package). The file in the modelled
  sources predates the field \<^verbatim>\<open>addressVersion\<close> that the builders read; its values here are
  the c32 address versions of the two networks.
\<close>

definition STACKS_MAINNET :: StacksNetwork where
  "STACKS_MAINNET = \<lparr>net_chainId = 0x00000001, transactionVersion = Mainnet,
     peerNetworkId = 0x17000000, magicBytes = ''X2'',
     addressVersion = \<lparr>singleSig = 22, multiSig = 20\<rparr>\<rparr>"

definition STACKS_TESTNET :: StacksNetwork where
  "STACKS_TESTNET = \<lparr>net_chainId = 0x80000000, transactionVersion = Testnet,
     peerNetworkId = 0xff000000, magicBytes = ''T2'',
     addressVersion = \<lparr>singleSig = 26, multiSig = 21\<rparr>\<rparr>"

definition DEFAULT_CHAIN_ID :: nat where
  "DEFAULT_CHAIN_ID = 0x00000001"

definition PRIVATE_KEY_COMPRESSED_LENGTH :: nat where
  "PRIVATE_KEY_COMPRESSED_LENGTH = 33"

text \<open>\<^verbatim>\<open>network?: StacksNetworkName | StacksNetwork\<close>\<close>

datatype NetworkParam = NetworkName string | NetworkObject StacksNetwork

text \<open>\<^verbatim>\<open>recipient: string | PrincipalCV\<close>\<close>

datatype RecipientParam = RecipientAddress string | RecipientPrincipal PrincipalCV

type_synonym ApiOpts = string

type_synonym ClarityAbi = string

text \<open>\<^verbatim>\<open>validateWithAbi?: boolean | ClarityAbi\<close>\<close>

datatype AbiParam = AbiFlag bool | AbiObject ClarityAbi

text \<open>A post-condition as the caller writes it (transaction.test.ts, lines 71--76).\<close>

record PostCondition =
  pc_type :: string
  pc_address :: string
  pc_condition :: string
  pc_amount :: nat

text \<open>
  The calls a builder awaits, in the order it makes them: each is recorded with its
  arguments before its result is known.
\<close>

datatype call =
    EstimateFee StacksTransaction ApiOpts
  | GetNonce string ApiOpts
  | GetAbi string string ApiOpts

record collaborators = key_collaborators +
  cvLength :: "bytes \<Rightarrow> nat option"
  sigHashOf :: "bytes \<Rightarrow> bytes"
  signWithKey :: "string \<Rightarrow> bytes \<Rightarrow> error + bytes"
  recoverPublicKey :: "bytes \<Rightarrow> PubKeyEncoding \<Rightarrow> bytes \<Rightarrow> error + bytes"
  estimateFee :: "StacksTransaction \<Rightarrow> ApiOpts \<Rightarrow> error + nat"
  getNonce :: "string \<Rightarrow> ApiOpts \<Rightarrow> error + nat"
  getAbi :: "string \<Rightarrow> string \<Rightarrow> ApiOpts \<Rightarrow> error + ClarityAbi"
  c32address :: "nat \<Rightarrow> bytes \<Rightarrow> error + string"
  networkFromName :: "string \<Rightarrow> error + StacksNetwork"
  defaultApiFromNetwork :: "NetworkParam \<Rightarrow> ApiOpts option \<Rightarrow> ApiOpts"
  createTokenTransferPayload :: "RecipientParam \<Rightarrow> nat \<Rightarrow> string \<Rightarrow> error + Payload"
  createSmartContractPayload :: "string \<Rightarrow> string \<Rightarrow> ClarityVersion \<Rightarrow> error + Payload"
  createContractCallPayload ::
    "string \<Rightarrow> string \<Rightarrow> string \<Rightarrow> ClarityValue list \<Rightarrow> error + Payload"
  validateContractCall :: "Payload \<Rightarrow> ClarityAbi \<Rightarrow> error + unit"
  postConditionToWire :: "PostCondition \<Rightarrow> error + PostConditionWire"
  placeholderSponsor :: SpendingCondition

text \<open>\<^verbatim>\<open>networkFrom\<close>: a network object is itself, a name is looked up.\<close>

definition networkFrom :: "collaborators \<Rightarrow> NetworkParam \<Rightarrow> error + StacksNetwork" where
  "networkFrom c n = (case n of NetworkObject net \<Rightarrow> Inr net | NetworkName s \<Rightarrow> networkFromName c s)"

section \<open>Authorization and the transaction object\<close>

text \<open>
  Modelled from the spec: \<^verbatim>\<open>authorization.ts\<close>, \<^verbatim>\<open>keys.ts\<close> and \<^verbatim>\<open>transaction.ts\<close> are not part of
  the modelled sources. Section 4.2: the signer hash of a condition is the hash derived
  from its keys in the order given; a segwit-style hash mode rejects an uncompressed key
  when the condition is constructed. A compressed public key has 33 bytes, an uncompressed
  one 65. A new condition has no signature yet.
\<close>

definition publicKeyIsCompressed :: "bytes \<Rightarrow> bool" where
  "publicKeyIsCompressed k = (length k = 33)"

definition publicKeyEncoding :: "bytes \<Rightarrow> PubKeyEncoding" where
  "publicKeyEncoding k = (if publicKeyIsCompressed k then Compressed else Uncompressed)"

definition emptyMessageSignature :: bytes where
  "emptyMessageSignature = replicate 65 0"

definition createSingleSigSpendingCondition ::
  "('z) key_collaborators_scheme \<Rightarrow> AddressHashMode \<Rightarrow> string \<Rightarrow> nat \<Rightarrow> nat
     \<Rightarrow> error + SpendingCondition" where
  "createSingleSigSpendingCondition c mode pubKey nonce' fee' =
     bindE (createStacksPublicKey c pubKey) (\<lambda>key.
       if requiresCompressedKeys mode \<and> \<not> publicKeyIsCompressed key
       then Inl (UncompressedKeyNotAllowedError compressedForSegwit)
       else
         bindE (addressFromPublicKeys c 0 mode 1 [key]) (\<lambda>a.
           Inr (SingleSigSpendingCondition mode (hash160 a) nonce' fee'
                  (publicKeyEncoding key) emptyMessageSignature)))"

definition createMultiSigSpendingCondition ::
  "('z) key_collaborators_scheme \<Rightarrow> AddressHashMode \<Rightarrow> nat \<Rightarrow> string list \<Rightarrow> nat \<Rightarrow> nat
     \<Rightarrow> error + SpendingCondition" where
  "createMultiSigSpendingCondition c mode numSigs pubKeys nonce' fee' =
     bindE (mapE (createStacksPublicKey c) pubKeys) (\<lambda>keys.
       if requiresCompressedKeys mode \<and> \<not> list_all publicKeyIsCompressed keys
       then Inl (UncompressedKeyNotAllowedError compressedForSegwit)
       else
         bindE (addressFromPublicKeys c 0 mode numSigs keys) (\<lambda>a.
           Inr (MultiSigSpendingCondition mode (hash160 a) nonce' fee' [] numSigs)))"

definition isSingleSig :: "SpendingCondition \<Rightarrow> bool" where
  "isSingleSig sc =
     (case sc of SingleSigSpendingCondition m s n f e sig \<Rightarrow> True
      | MultiSigSpendingCondition m s n f fs req \<Rightarrow> False)"

definition createStandardAuth :: "SpendingCondition \<Rightarrow> Authorization" where
  "createStandardAuth sc = StandardAuth sc"

text \<open>
  A sponsored authorization is created before the sponsor is known; until
  \<^verbatim>\<open>setSponsor\<close> the sponsor's place holds a placeholder condition.
\<close>

definition createSponsoredAuth ::
  "collaborators \<Rightarrow> SpendingCondition \<Rightarrow> SpendingCondition option \<Rightarrow> Authorization" where
  "createSponsoredAuth c sc sponsor =
     SponsoredAuth sc (case sponsor of None \<Rightarrow> placeholderSponsor c | Some s \<Rightarrow> s)"

definition authType :: "Authorization \<Rightarrow> AuthType" where
  "authType a = (case a of StandardAuth sc \<Rightarrow> Standard | SponsoredAuth sc sp \<Rightarrow> Sponsored)"

text \<open>
  The constructor: the tests build transactions without the optional arguments and read
  back no post-conditions, the mode \<open>Deny\<close>, the anchor mode \<open>Any\<close> and the default chain id
  (transaction.test.ts, lines 79--84, 105--115, 245, 264--266).
\<close>

definition new_StacksTransaction ::
  "TransactionVersion \<Rightarrow> Authorization \<Rightarrow> Payload \<Rightarrow> PostConditionWire list option
     \<Rightarrow> PostConditionMode option \<Rightarrow> AnchorMode option \<Rightarrow> nat option \<Rightarrow> StacksTransaction" where
  "new_StacksTransaction v a p pcs pcm am cid =
     \<lparr>version = v,
      chainId = (case cid of None \<Rightarrow> DEFAULT_CHAIN_ID | Some n \<Rightarrow> n),
      auth = a,
      anchorMode = (case am of None \<Rightarrow> Any | Some m \<Rightarrow> m),
      payload = p,
      postConditionMode = (case pcm of None \<Rightarrow> Deny | Some m \<Rightarrow> m),
      postConditions = (case pcs of None \<Rightarrow> [] | Some l \<Rightarrow> l)\<rparr>"

definition withFee :: "nat \<Rightarrow> SpendingCondition \<Rightarrow> SpendingCondition" where
  "withFee amount sc =
     (case sc of
        SingleSigSpendingCondition m s n f e sig \<Rightarrow> SingleSigSpendingCondition m s n amount e sig
      | MultiSigSpendingCondition m s n f fs req \<Rightarrow> MultiSigSpendingCondition m s n amount fs req)"

definition withNonce :: "nat \<Rightarrow> SpendingCondition \<Rightarrow> SpendingCondition" where
  "withNonce k sc =
     (case sc of
        SingleSigSpendingCondition m s n f e sig \<Rightarrow> SingleSigSpendingCondition m s k f e sig
      | MultiSigSpendingCondition m s n f fs req \<Rightarrow> MultiSigSpendingCondition m s k f fs req)"

text \<open>
  Section 3: \<^verbatim>\<open>setFee\<close> and \<^verbatim>\<open>setNonce\<close> rewrite the fee and the nonce of the active spending
  condition. The fee is paid by the sponsor when there is one (glossary: the sponsor pays
  the fee on behalf of the origin), so the fee of a sponsored authorization is the
  sponsor condition's; the nonce is the origin's.
\<close>

definition feeCondition :: "Authorization \<Rightarrow> SpendingCondition" where
  "feeCondition a = (case a of StandardAuth sc \<Rightarrow> sc | SponsoredAuth sc sp \<Rightarrow> sp)"

definition setFee :: "StacksTransaction \<Rightarrow> nat \<Rightarrow> StacksTransaction" where
  "setFee tx amount =
     tx\<lparr>auth := (case auth tx of
                   StandardAuth sc \<Rightarrow> StandardAuth (withFee amount sc)
                 | SponsoredAuth sc sp \<Rightarrow> SponsoredAuth sc (withFee amount sp))\<rparr>"

definition setNonce :: "StacksTransaction \<Rightarrow> nat \<Rightarrow> StacksTransaction" where
  "setNonce tx k =
     tx\<lparr>auth := (case auth tx of
                   StandardAuth sc \<Rightarrow> StandardAuth (withNonce k sc)
                 | SponsoredAuth sc sp \<Rightarrow> SponsoredAuth (withNonce k sc) sp)\<rparr>"

definition setOrigin :: "StacksTransaction \<Rightarrow> SpendingCondition \<Rightarrow> StacksTransaction" where
  "setOrigin tx sc' =
     tx\<lparr>auth := (case auth tx of
                   StandardAuth sc \<Rightarrow> StandardAuth sc'
                 | SponsoredAuth sc sp \<Rightarrow> SponsoredAuth sc' sp)\<rparr>"

section \<open>The signer\<close>

text \<open>
  Modelled from the spec: \<^verbatim>\<open>signer.ts\<close> is not part of the modelled sources. Section 4.3:
  \<^verbatim>\<open>signOrigin\<close> computes the signature hash over the serialized envelope as it stands, signs
  it, and appends the signature as a signature field (for a single-sig condition it fills
  the one signature slot); \<^verbatim>\<open>appendOrigin\<close> appends a bare public key and is an error on a
  single-sig condition. A private key is hexadecimal text; it stands for a compressed
  public key when it has \<open>PRIVATE_KEY_COMPRESSED_LENGTH\<close> bytes. The hash and the signature
  are cryptographic collaborators.
\<close>

definition privateKeyEncoding :: "string \<Rightarrow> PubKeyEncoding" where
  "privateKeyEncoding k =
     (if length k = 2 * PRIVATE_KEY_COMPRESSED_LENGTH then Compressed else Uncompressed)"

definition signOrigin ::
  "collaborators \<Rightarrow> StacksTransaction \<Rightarrow> string \<Rightarrow> error + StacksTransaction" where
  "signOrigin c tx privateKey =
     bindE (signWithKey c privateKey (sigHashOf c (serializeBytes tx))) (\<lambda>sig.
       case spendingCondition (auth tx) of
         SingleSigSpendingCondition m s n f e old \<Rightarrow>
           Inr (setOrigin tx (SingleSigSpendingCondition m s n f e sig))
       | MultiSigSpendingCondition m s n f fs req \<Rightarrow>
           Inr (setOrigin tx (MultiSigSpendingCondition m s n f
                  (fs @ [MessageSignatureField (privateKeyEncoding privateKey) sig]) req)))"

definition appendOrigin :: "StacksTransaction \<Rightarrow> bytes \<Rightarrow> error + StacksTransaction" where
  "appendOrigin tx publicKey =
     (case spendingCondition (auth tx) of
        SingleSigSpendingCondition m s n f e sig \<Rightarrow> Inl NotMultiSigError
      | MultiSigSpendingCondition m s n f fs req \<Rightarrow>
          Inr (setOrigin tx (MultiSigSpendingCondition m s n f
                 (fs @ [PublicKeyField (publicKeyEncoding publicKey) publicKey]) req)))"

text \<open>
  \<^verbatim>\<open>verifyOrigin\<close> (section 4.3) goes through the fields in their order: a signature field
  yields the key recovered from it and from the signature hash of the envelope with the
  fields before it, a public-key field yields its key; a key that is uncompressed under a
  hash mode that requires compressed keys is an error; the condition needs at least the
  required number of signatures; at the end the hash derived from the keys is compared with
  the signer hash. \<open>SignatureVerificationError i\<close> names the field that failed (the number
  of fields for the final comparison).
\<close>

fun recoverKeys ::
  "collaborators \<Rightarrow> AddressHashMode \<Rightarrow> (TransactionAuthField list \<Rightarrow> bytes)
     \<Rightarrow> TransactionAuthField list \<Rightarrow> TransactionAuthField list \<Rightarrow> error + bytes list" where
  "recoverKeys c m preImage before [] = Inr []"
| "recoverKeys c m preImage before (f # fs) =
     bindE (case f of
              PublicKeyField e k \<Rightarrow> Inr k
            | MessageSignatureField e s \<Rightarrow>
                (case recoverPublicKey c (sigHashOf c (preImage before)) e s of
                   Inl err \<Rightarrow> Inl (SignatureVerificationError (length before))
                 | Inr k \<Rightarrow> Inr k)) (\<lambda>key.
       if fieldEncoding f = Uncompressed \<and> requiresCompressedKeys m
       then Inl (UncompressedKeyNotAllowedError uncompressedNotAllowed)
       else bindE (recoverKeys c m preImage (before @ [f]) fs) (\<lambda>keys. Inr (key # keys)))"

definition verifyOrigin :: "collaborators \<Rightarrow> StacksTransaction \<Rightarrow> error + unit" where
  "verifyOrigin c tx =
     (case spendingCondition (auth tx) of
        SingleSigSpendingCondition m s n f e sig \<Rightarrow>
          bindE (case recoverPublicKey c
                        (sigHashOf c (serializeBytes (setOrigin tx
                           (SingleSigSpendingCondition m s n f e emptyMessageSignature)))) e sig of
                   Inl err \<Rightarrow> Inl (SignatureVerificationError 0)
                 | Inr k \<Rightarrow> Inr k) (\<lambda>key.
            if e = Uncompressed \<and> requiresCompressedKeys m
            then Inl (UncompressedKeyNotAllowedError uncompressedNotAllowed)
            else bindE (addressFromPublicKeys c 0 m 1 [key]) (\<lambda>a.
                   if hash160 a = s then Inr () else Inl (SignatureVerificationError 0)))
      | MultiSigSpendingCondition m s n f fs req \<Rightarrow>
          bindE (recoverKeys c m
                   (\<lambda>before. serializeBytes (setOrigin tx
                      (MultiSigSpendingCondition m s n f before req))) [] fs) (\<lambda>keys.
            if length (filter isSignatureField fs) < req
            then Inl (SignatureVerificationError (length fs))
            else bindE (addressFromPublicKeys c 0 m req keys) (\<lambda>a.
                   if hash160 a = s then Inr ()
                   else Inl (SignatureVerificationError (length fs)))))"

section \<open>The builders (builders.ts)\<close>

subsection \<open>Awaited calls\<close>

text \<open>
  An \<^verbatim>\<open>async\<close> builder yields the list of the collaborator calls it awaited and either the
  error it threw or its result.
\<close>

type_synonym 'a io = "call list \<times> (error + 'a)"

definition returnIO :: "'a \<Rightarrow> 'a io" where
  "returnIO x = ([], Inr x)"

definition liftE :: "error + 'a \<Rightarrow> 'a io" where
  "liftE r = ([], r)"

definition bindIO :: "'a io \<Rightarrow> ('a \<Rightarrow> 'b io) \<Rightarrow> 'b io" where
  "bindIO m f =
     (case m of
        (log, Inl e) \<Rightarrow> (log, Inl e)
      | (log, Inr x) \<Rightarrow> (case f x of (log', r) \<Rightarrow> (log @ log', r)))"

definition await_estimateFee :: "collaborators \<Rightarrow> StacksTransaction \<Rightarrow> ApiOpts \<Rightarrow> nat io" where
  "await_estimateFee c tx api = ([EstimateFee tx api], estimateFee c tx api)"

definition await_getNonce :: "collaborators \<Rightarrow> string \<Rightarrow> ApiOpts \<Rightarrow> nat io" where
  "await_getNonce c a api = ([GetNonce a api], getNonce c a api)"

definition await_getAbi :: "collaborators \<Rightarrow> string \<Rightarrow> string \<Rightarrow> ApiOpts \<Rightarrow> ClarityAbi io" where
  "await_getAbi c a n api = ([GetAbi a n api], getAbi c a n api)"

subsection \<open>Options\<close>

text \<open>
  An optional property is an \<open>option\<close>: \<open>None\<close> is a property the caller left out. The
  alternative between \<^verbatim>\<open>publicKey\<close> and the multi-sig properties (\<^verbatim>\<open>'publicKey' in options\<close>),
  and between \<^verbatim>\<open>senderKey\<close> and \<^verbatim>\<open>signerKeys\<close>, is a datatype. Fees, nonces and amounts are
  natural numbers.
\<close>

record UnsignedMultiSigOptions =
  numSignatures :: nat
  publicKeys :: "string list"
  address :: "string option"
  useNonSequentialMultiSig :: "bool option"

record SignedMultiSigOptions = UnsignedMultiSigOptions +
  signerKeys :: "string list"

datatype UnsignedSigner = PublicKey string | UnsignedMultiSig UnsignedMultiSigOptions

datatype SignedSigner = SenderKey string | SignedMultiSig SignedMultiSigOptions

record 'k TxOptions =
  opt_fee :: "nat option"
  opt_nonce :: "nat option"
  opt_network :: "NetworkParam option"
  opt_sponsored :: "bool option"
  opt_api :: "ApiOpts option"
  signerOptions :: 'k

record 'k TokenTransferOptions = "'k TxOptions" +
  recipient :: RecipientParam
  amount :: nat
  opt_memo :: "string option"

record 'k ContractDeployOptions = "'k TxOptions" +
  opt_clarityVersion :: "ClarityVersion option"
  deploy_contractName :: string
  codeBody :: string
  deploy_postConditionMode :: "PostConditionMode option"
  deploy_postConditions :: "PostConditionWire list option"

record 'k ContractCallOptions = "'k TxOptions" +
  contractAddress :: string
  call_contractName :: string
  functionName :: string
  functionArgs :: "ClarityValue list"
  call_postConditionMode :: "PostConditionMode option"
  call_postConditions :: "PostCondition list option"
  opt_validateWithAbi :: "AbiParam option"

text \<open>\<^verbatim>\<open>{ publicKey, ...omit(txOptions, 'senderKey') }\<close> and \<^verbatim>\<open>omit(txOptions, 'signerKeys')\<close>\<close>

definition transferWithSigner :: "'a TokenTransferOptions \<Rightarrow> 'b \<Rightarrow> 'b TokenTransferOptions" where
  "transferWithSigner opts k =
     \<lparr>opt_fee = opt_fee opts, opt_nonce = opt_nonce opts, opt_network = opt_network opts,
      opt_sponsored = opt_sponsored opts, opt_api = opt_api opts, signerOptions = k,
      recipient = recipient opts, amount = amount opts, opt_memo = opt_memo opts\<rparr>"

definition deployWithSigner :: "'a ContractDeployOptions \<Rightarrow> 'b \<Rightarrow> 'b ContractDeployOptions" where
  "deployWithSigner opts k =
     \<lparr>opt_fee = opt_fee opts, opt_nonce = opt_nonce opts, opt_network = opt_network opts,
      opt_sponsored = opt_sponsored opts, opt_api = opt_api opts, signerOptions = k,
      opt_clarityVersion = opt_clarityVersion opts,
      deploy_contractName = deploy_contractName opts, codeBody = codeBody opts,
      deploy_postConditionMode = deploy_postConditionMode opts,
      deploy_postConditions = deploy_postConditions opts\<rparr>"

definition callWithSigner :: "'a ContractCallOptions \<Rightarrow> 'b \<Rightarrow> 'b ContractCallOptions" where
  "callWithSigner opts k =
     \<lparr>opt_fee = opt_fee opts, opt_nonce = opt_nonce opts, opt_network = opt_network opts,
      opt_sponsored = opt_sponsored opts, opt_api = opt_api opts, signerOptions = k,
      contractAddress = contractAddress opts, call_contractName = call_contractName opts,
      functionName = functionName opts, functionArgs = functionArgs opts,
      call_postConditionMode = call_postConditionMode opts,
      call_postConditions = call_postConditions opts,
      opt_validateWithAbi = opt_validateWithAbi opts\<rparr>"

text \<open>Truthiness of an optional string (the empty string is falsy) and of an optional flag.\<close>

definition truthyString :: "string option \<Rightarrow> bool" where
  "truthyString a = (case a of None \<Rightarrow> False | Some s \<Rightarrow> s \<noteq> [])"

definition truthyFlag :: "bool option \<Rightarrow> bool" where
  "truthyFlag b = (b = Some True)"

definition truthyNetwork :: "NetworkParam \<Rightarrow> bool" where
  "truthyNetwork n = (case n of NetworkName s \<Rightarrow> s \<noteq> [] | NetworkObject net \<Rightarrow> True)"

subsection \<open>The parts the three unsigned builders share word for word\<close>

text \<open>
  Lines 133--165, 339--371 and 496--528: the spending condition, single-sig when the
  options hold \<^verbatim>\<open>publicKey\<close>, multi-sig otherwise.
\<close>

definition originSpendingCondition ::
  "collaborators \<Rightarrow> UnsignedSigner \<Rightarrow> nat \<Rightarrow> nat \<Rightarrow> error + SpendingCondition" where
  "originSpendingCondition c k options_nonce options_fee =
     (case k of
        PublicKey publicKey \<Rightarrow>
          createSingleSigSpendingCondition c SerializeP2PKH publicKey options_nonce options_fee
      | UnsignedMultiSig ms \<Rightarrow>
          let mode = (if truthyFlag (useNonSequentialMultiSig ms)
                      then SerializeP2SHNonSequential else SerializeP2SH)
          in
          bindE (if truthyString (address ms)
                 then bindE (createAddress c (case address ms of Some s \<Rightarrow> s | None \<Rightarrow> []))
                        (\<lambda>a. sortPublicKeysForAddress c (publicKeys ms) (numSignatures ms) mode
                               (hash160 a))
                 else Inr (publicKeys ms))
            (\<lambda>pks. createMultiSigSpendingCondition c mode (numSignatures ms) pks
                     options_nonce options_fee))"

text \<open>Lines 181--191, 395--405 and 549--559: the fee estimate and the nonce lookup.\<close>

definition estimateFeeAndNonce ::
  "collaborators \<Rightarrow> nat option \<Rightarrow> nat option \<Rightarrow> StacksNetwork \<Rightarrow> ApiOpts \<Rightarrow> StacksTransaction
     \<Rightarrow> StacksTransaction io" where
  "estimateFeeAndNonce c txOptions_fee txOptions_nonce network api transaction =
     bindIO (if txOptions_fee = None
             then bindIO (await_estimateFee c transaction api)
                    (\<lambda>fee. returnIO (setFee transaction fee))
             else returnIO transaction)
       (\<lambda>transaction.
          if txOptions_nonce = None
          then
            let addressVersion = singleSig (addressVersion network) in
            bindIO (liftE (c32address c addressVersion
                             (signer (spendingCondition (auth transaction)))))
              (\<lambda>address.
            bindIO (await_getNonce c address api)
              (\<lambda>txNonce. returnIO (setNonce transaction txNonce)))
          else returnIO transaction)"

subsection \<open>\<^verbatim>\<open>makeUnsignedSTXTokenTransfer\<close> (lines 115--194)\<close>

definition makeUnsignedSTXTokenTransfer ::
  "collaborators \<Rightarrow> UnsignedSigner TokenTransferOptions \<Rightarrow> StacksTransaction io" where
  "makeUnsignedSTXTokenTransfer c txOptions =
     (let options_fee = (case opt_fee txOptions of None \<Rightarrow> 0 | Some f \<Rightarrow> f);
          options_nonce = (case opt_nonce txOptions of None \<Rightarrow> 0 | Some n \<Rightarrow> n);
          options_network =
            (case opt_network txOptions of None \<Rightarrow> NetworkObject STACKS_MAINNET | Some n \<Rightarrow> n);
          options_memo = (case opt_memo txOptions of None \<Rightarrow> [] | Some m \<Rightarrow> m);
          options_sponsored = (case opt_sponsored txOptions of None \<Rightarrow> False | Some b \<Rightarrow> b);
          options_api = defaultApiFromNetwork c options_network (opt_api txOptions)
      in
      bindIO (liftE (createTokenTransferPayload c (recipient txOptions) (amount txOptions)
                       options_memo)) (\<lambda>payload.
      bindIO (liftE (networkFrom c options_network)) (\<lambda>network.
      bindIO (liftE (originSpendingCondition c (signerOptions txOptions)
                       options_nonce options_fee)) (\<lambda>spendingCondition.
        let authorization =
              (if options_sponsored then createSponsoredAuth c spendingCondition None
               else createStandardAuth spendingCondition);
            transaction =
              new_StacksTransaction (transactionVersion network) authorization payload
                None None (Some Any) (Some (net_chainId network))
        in estimateFeeAndNonce c (opt_fee txOptions) (opt_nonce txOptions) network
             options_api transaction))))"

subsection \<open>\<^verbatim>\<open>makeUnsignedContractDeploy\<close> (lines 316--408)\<close>

definition makeUnsignedContractDeploy ::
  "collaborators \<Rightarrow> UnsignedSigner ContractDeployOptions \<Rightarrow> StacksTransaction io" where
  "makeUnsignedContractDeploy c txOptions =
     (let options_fee = (case opt_fee txOptions of None \<Rightarrow> 0 | Some f \<Rightarrow> f);
          options_nonce = (case opt_nonce txOptions of None \<Rightarrow> 0 | Some n \<Rightarrow> n);
          options_network =
            (case opt_network txOptions of None \<Rightarrow> NetworkObject STACKS_MAINNET | Some n \<Rightarrow> n);
          options_postConditionMode =
            (case deploy_postConditionMode txOptions of None \<Rightarrow> Deny | Some m \<Rightarrow> m);
          options_sponsored = (case opt_sponsored txOptions of None \<Rightarrow> False | Some b \<Rightarrow> b);
          options_clarityVersion =
            (case opt_clarityVersion txOptions of None \<Rightarrow> Clarity2 | Some v \<Rightarrow> v);
          options_api = defaultApiFromNetwork c options_network (opt_api txOptions)
      in
      bindIO (liftE (createSmartContractPayload c (deploy_contractName txOptions)
                       (codeBody txOptions) options_clarityVersion)) (\<lambda>payload.
      bindIO (liftE (networkFrom c options_network)) (\<lambda>network.
      bindIO (liftE (originSpendingCondition c (signerOptions txOptions)
                       options_nonce options_fee)) (\<lambda>spendingCondition.
        let authorization =
              (if options_sponsored then createSponsoredAuth c spendingCondition None
               else createStandardAuth spendingCondition);
            lpPostConditions =
              (case deploy_postConditions txOptions of None \<Rightarrow> [] | Some pcs \<Rightarrow> pcs);
            transaction =
              new_StacksTransaction (transactionVersion network) authorization payload
                (Some lpPostConditions) (Some options_postConditionMode) (Some Any)
                (Some (net_chainId network))
        in estimateFeeAndNonce c (opt_fee txOptions) (opt_nonce txOptions) network
             options_api transaction))))"

subsection \<open>\<^verbatim>\<open>makeUnsignedContractCall\<close> (lines 458--562)\<close>

text \<open>Lines 479--492: the optional validation of the call against the contract's ABI.\<close>

definition validateWithAbiStep ::
  "collaborators \<Rightarrow> AbiParam option \<Rightarrow> NetworkParam \<Rightarrow> string \<Rightarrow> string \<Rightarrow> ApiOpts \<Rightarrow> Payload
     \<Rightarrow> unit io" where
  "validateWithAbiStep c validate options_network addr name options_api payload' =
     (case validate of
        None \<Rightarrow> returnIO ()
      | Some (AbiFlag False) \<Rightarrow> returnIO ()
      | Some (AbiFlag True) \<Rightarrow>
          if truthyNetwork options_network
          then bindIO (await_getAbi c addr name options_api)
                 (\<lambda>abi. liftE (validateContractCall c payload' abi))
          else liftE (Inl (CollaboratorError
                 ''Network option must be provided in order to validate with ABI''))
      | Some (AbiObject abi) \<Rightarrow> liftE (validateContractCall c payload' abi))"

definition makeUnsignedContractCall ::
  "collaborators \<Rightarrow> UnsignedSigner ContractCallOptions \<Rightarrow> StacksTransaction io" where
  "makeUnsignedContractCall c txOptions =
     (let options_fee = (case opt_fee txOptions of None \<Rightarrow> 0 | Some f \<Rightarrow> f);
          options_nonce = (case opt_nonce txOptions of None \<Rightarrow> 0 | Some n \<Rightarrow> n);
          options_network =
            (case opt_network txOptions of None \<Rightarrow> NetworkObject STACKS_MAINNET | Some n \<Rightarrow> n);
          options_postConditionMode =
            (case call_postConditionMode txOptions of None \<Rightarrow> Deny | Some m \<Rightarrow> m);
          options_sponsored = (case opt_sponsored txOptions of None \<Rightarrow> False | Some b \<Rightarrow> b);
          options_api = defaultApiFromNetwork c options_network (opt_api txOptions)
      in
      bindIO (liftE (createContractCallPayload c (contractAddress txOptions)
                       (call_contractName txOptions) (functionName txOptions)
                       (functionArgs txOptions))) (\<lambda>payload.
      bindIO (validateWithAbiStep c (opt_validateWithAbi txOptions) options_network
                (contractAddress txOptions) (call_contractName txOptions) options_api payload)
        (\<lambda>_.
      bindIO (liftE (networkFrom c options_network)) (\<lambda>network.
      bindIO (liftE (originSpendingCondition c (signerOptions txOptions)
                       options_nonce options_fee)) (\<lambda>spendingCondition.
        let authorization =
              (if options_sponsored then createSponsoredAuth c spendingCondition None
               else createStandardAuth spendingCondition)
        in
        bindIO (liftE (mapE (postConditionToWire c)
                         (case call_postConditions txOptions of None \<Rightarrow> [] | Some pcs \<Rightarrow> pcs)))
          (\<lambda>lpPostConditions.
        let transaction =
              new_StacksTransaction (transactionVersion network) authorization payload
                (Some lpPostConditions) (Some options_postConditionMode) (Some Any)
                (Some (net_chainId network))
        in estimateFeeAndNonce c (opt_fee txOptions) (opt_nonce txOptions) network
             options_api transaction))))))"

subsection \<open>\<^verbatim>\<open>mutatingSignAppendMultiSig\<close> (lines 700--734)\<close>

text \<open>
  \<^verbatim>\<open>signerKeys.find(key => privateKeyToPublic(key) === publicKey)\<close>: the first signer key
  whose public key is the given one, or \<^verbatim>\<open>undefined\<close>; deriving a public key may throw.
\<close>

fun findSignerKey :: "collaborators \<Rightarrow> string \<Rightarrow> string list \<Rightarrow> error + string option" where
  "findSignerKey c publicKey [] = Inr None"
| "findSignerKey c publicKey (key # keys) =
     bindE (privateKeyToPublic c key) (\<lambda>p.
       if p = publicKey then Inr (Some key) else findSignerKey c publicKey keys)"

text \<open>
  The loop over \<^verbatim>\<open>pubs\<close>. \<^verbatim>\<open>if (signerKey)\<close> is false for \<^verbatim>\<open>undefined\<close> and for the empty
  string.
\<close>

fun signAppendEach ::
  "collaborators \<Rightarrow> string list \<Rightarrow> string list \<Rightarrow> StacksTransaction
     \<Rightarrow> error + StacksTransaction" where
  "signAppendEach c keys [] tx = Inr tx"
| "signAppendEach c keys (publicKey # pubs) tx =
     bindE (findSignerKey c publicKey keys) (\<lambda>signerKey.
     bindE (if truthyString signerKey
            then signOrigin c tx (case signerKey of Some k \<Rightarrow> k | None \<Rightarrow> [])
            else bindE (createStacksPublicKey c publicKey) (appendOrigin tx))
       (signAppendEach c keys pubs))"

text \<open>
  \<^verbatim>\<open>const pubs = address ? sortPublicKeysForAddress(...) : publicKeys\<close> (lines 713--720):
  the order in which the loop goes through the public keys.
\<close>

definition signingOrder ::
  "collaborators \<Rightarrow> StacksTransaction \<Rightarrow> string list \<Rightarrow> string option \<Rightarrow> error + string list" where
  "signingOrder c transaction pks addr =
     (if truthyString addr
      then bindE (createAddress c (case addr of Some s \<Rightarrow> s | None \<Rightarrow> []))
             (\<lambda>a. sortPublicKeysForAddress c pks
                    (signaturesRequired (spendingCondition (auth transaction)))
                    (hashMode (spendingCondition (auth transaction)))
                    (hash160 a))
      else Inr pks)"

definition mutatingSignAppendMultiSig ::
  "collaborators \<Rightarrow> StacksTransaction \<Rightarrow> string list \<Rightarrow> string list \<Rightarrow> string option
     \<Rightarrow> error + StacksTransaction" where
  "mutatingSignAppendMultiSig c transaction pks keys addr =
     (if isSingleSig (spendingCondition (auth transaction)) then Inl NotMultiSigError
      else
        bindE (signingOrder c transaction pks addr)
          (\<lambda>pubs. signAppendEach c keys pubs transaction))"

subsection \<open>The signed builders (lines 205--233, 286--314, 573--601)\<close>

definition makeSTXTokenTransfer ::
  "collaborators \<Rightarrow> SignedSigner TokenTransferOptions \<Rightarrow> StacksTransaction io" where
  "makeSTXTokenTransfer c txOptions =
     (case signerOptions txOptions of
        SenderKey senderKey \<Rightarrow>
          bindIO (liftE (privateKeyToPublic c senderKey)) (\<lambda>publicKey.
          bindIO (makeUnsignedSTXTokenTransfer c
                    (transferWithSigner txOptions (PublicKey publicKey))) (\<lambda>transaction.
            liftE (signOrigin c transaction senderKey)))
      | SignedMultiSig ms \<Rightarrow>
          bindIO (makeUnsignedSTXTokenTransfer c
                    (transferWithSigner txOptions
                       (UnsignedMultiSig (UnsignedMultiSigOptions.truncate ms))))
            (\<lambda>transaction.
               liftE (mutatingSignAppendMultiSig c transaction (publicKeys ms) (signerKeys ms)
                        (address ms))))"

definition makeContractDeploy ::
  "collaborators \<Rightarrow> SignedSigner ContractDeployOptions \<Rightarrow> StacksTransaction io" where
  "makeContractDeploy c txOptions =
     (case signerOptions txOptions of
        SenderKey senderKey \<Rightarrow>
          bindIO (liftE (privateKeyToPublic c senderKey)) (\<lambda>publicKey.
          bindIO (makeUnsignedContractDeploy c
                    (deployWithSigner txOptions (PublicKey publicKey))) (\<lambda>transaction.
            liftE (signOrigin c transaction senderKey)))
      | SignedMultiSig ms \<Rightarrow>
          bindIO (makeUnsignedContractDeploy c
                    (deployWithSigner txOptions
                       (UnsignedMultiSig (UnsignedMultiSigOptions.truncate ms))))
            (\<lambda>transaction.
               liftE (mutatingSignAppendMultiSig c transaction (publicKeys ms) (signerKeys ms)
                        (address ms))))"

definition makeContractCall ::
  "collaborators \<Rightarrow> SignedSigner ContractCallOptions \<Rightarrow> StacksTransaction io" where
  "makeContractCall c txOptions =
     (case signerOptions txOptions of
        SenderKey senderKey \<Rightarrow>
          bindIO (liftE (privateKeyToPublic c senderKey)) (\<lambda>publicKey.
          bindIO (makeUnsignedContractCall c
                    (callWithSigner txOptions (PublicKey publicKey))) (\<lambda>transaction.
            liftE (signOrigin c transaction senderKey)))
      | SignedMultiSig ms \<Rightarrow>
          bindIO (makeUnsignedContractCall c
                    (callWithSigner txOptions
                       (UnsignedMultiSig (UnsignedMultiSigOptions.truncate ms))))
            (\<lambda>transaction.
               liftE (mutatingSignAppendMultiSig c transaction (publicKeys ms) (signerKeys ms)
                        (address ms))))"

section \<open>What the claims say, as predicates\<close>

text \<open>
  The defaults of section 4.5 and the conditional estimation, for the outcome \<open>(log, tx)\<close>
  of an unsigned builder on the options \<open>opts\<close>; \<open>pcm\<close> is the post-condition mode the
  caller gave, if the builder has such an option.
\<close>

definition defaultNetwork :: "('k, 'z) TxOptions_scheme \<Rightarrow> NetworkParam" where
  "defaultNetwork opts =
     (case opt_network opts of None \<Rightarrow> NetworkObject STACKS_MAINNET | Some n \<Rightarrow> n)"

definition honoursDefaults ::
  "collaborators \<Rightarrow> (UnsignedSigner, 'z) TxOptions_scheme \<Rightarrow> PostConditionMode option
     \<Rightarrow> call list \<Rightarrow> StacksTransaction \<Rightarrow> bool" where
  "honoursDefaults c opts pcm log tx \<longleftrightarrow>
     (\<exists>net. networkFrom c (defaultNetwork opts) = Inr net \<and>
            version tx = transactionVersion net \<and> chainId tx = net_chainId net) \<and>
     anchorMode tx = Any \<and>
     postConditionMode tx = (case pcm of None \<Rightarrow> Deny | Some m \<Rightarrow> m) \<and>
     authType (auth tx) = (if opt_sponsored opts = Some True then Sponsored else Standard) \<and>
     (case signerOptions opts of
        PublicKey pk \<Rightarrow>
          isSingleSig (spendingCondition (auth tx)) \<and>
          hashMode (spendingCondition (auth tx)) = SerializeP2PKH
      | UnsignedMultiSig ms \<Rightarrow>
          \<not> isSingleSig (spendingCondition (auth tx)) \<and>
          signaturesRequired (spendingCondition (auth tx)) = numSignatures ms \<and>
          hashMode (spendingCondition (auth tx)) =
            (if useNonSequentialMultiSig ms = Some True then SerializeP2SHNonSequential
             else SerializeP2SH)) \<and>
     (\<forall>t a. EstimateFee t a \<in> set log \<longrightarrow>
        fee (spendingCondition (auth t)) = 0 \<and>
        nonce (spendingCondition (auth t)) = (case opt_nonce opts of None \<Rightarrow> 0 | Some n \<Rightarrow> n)) \<and>
     (\<forall>f. opt_fee opts = Some f \<longrightarrow> fee (spendingCondition (auth tx)) = f) \<and>
     (\<forall>n. opt_nonce opts = Some n \<longrightarrow> nonce (spendingCondition (auth tx)) = n) \<and>
     ((\<exists>t a. EstimateFee t a \<in> set log) \<longleftrightarrow> opt_fee opts = None) \<and>
     ((\<exists>ad a. GetNonce ad a \<in> set log) \<longleftrightarrow> opt_nonce opts = None)"

text \<open>Whatever the outcome, a collaborator is asked only for what the caller left out.\<close>

definition asksOnlyWhenOmitted :: "('k, 'z) TxOptions_scheme \<Rightarrow> call list \<Rightarrow> bool" where
  "asksOnlyWhenOmitted opts log \<longleftrightarrow>
     ((\<exists>t a. EstimateFee t a \<in> set log) \<longrightarrow> opt_fee opts = None) \<and>
     ((\<exists>ad a. GetNonce ad a \<in> set log) \<longrightarrow> opt_nonce opts = None)"

text \<open>
  Every address a builder passes to the nonce lookup is the c32 address of the network's
  single-sig version and the signer hash of the spending condition it built; for multi-sig
  options that condition is multi-sig and its signer is a hash derived under its
  multi-sig hash mode.
\<close>

definition nonceLookupUsesSingleSigVersion ::
  "collaborators \<Rightarrow> (UnsignedSigner, 'z) TxOptions_scheme \<Rightarrow> call list \<Rightarrow> bool" where
  "nonceLookupUsesSingleSigVersion c opts log \<longleftrightarrow>
     (\<forall>ad api. GetNonce ad api \<in> set log \<longrightarrow>
        opt_nonce opts = None \<and>
        (\<exists>net sc.
           networkFrom c (defaultNetwork opts) = Inr net \<and>
           originSpendingCondition c (signerOptions opts)
             (case opt_nonce opts of None \<Rightarrow> 0 | Some n \<Rightarrow> n)
             (case opt_fee opts of None \<Rightarrow> 0 | Some f \<Rightarrow> f) = Inr sc \<and>
           c32address c (singleSig (addressVersion net)) (signer sc) = Inr ad \<and>
           (case signerOptions opts of
              PublicKey pk \<Rightarrow> isSingleSig sc
            | UnsignedMultiSig ms \<Rightarrow>
                \<not> isSingleSig sc \<and>
                hashMode sc \<in> {SerializeP2SH, SerializeP2SHNonSequential} \<and>
                (\<exists>keys a. addressFromPublicKeys c 0 (hashMode sc) (numSignatures ms) keys = Inr a \<and>
                          signer sc = hash160 a))))"

text \<open>
  What one public key contributes in \<^verbatim>\<open>mutatingSignAppendMultiSig\<close>: a signature field when
  some signer key has it as its public key, the bare public key otherwise.
\<close>

definition hasSignerKey :: "collaborators \<Rightarrow> string list \<Rightarrow> string \<Rightarrow> bool" where
  "hasSignerKey c keys publicKey \<longleftrightarrow> (\<exists>k \<in> set keys. privateKeyToPublic c k = Inr publicKey)"


section \<open>Concrete collaborators for the worked examples\<close>

text \<open>
  Stand-ins that can be evaluated: a key is the bytes of its text, the ``hash'' of a key
  list is the signature count followed by the keys in their order (so it depends on the
  order, as a real hash does), and a private key \<open>k\<close> has the public key \<open>p\<close> followed
  by \<open>k\<close>. The empty text is neither a key nor a private key. The stand-in for a
  signature is the private key's text, padded to 65 bytes; the fee estimate is 180 and
  the nonce 7.
\<close>

definition demo_keys :: key_collaborators where
  "demo_keys = \<lparr>
     createStacksPublicKey =
       (\<lambda>s. if s = [] then Inl (CollaboratorError ''bad key'')
            else Inr (map (\<lambda>ch. of_nat (of_char ch)) s)),
     addressFromPublicKeys =
       (\<lambda>v m n ks. if ks = [] then Inl (CollaboratorError ''Invalid number of public keys'')
            else Inr \<lparr>addr_version = v, hash160 = of_nat n # concat ks\<rparr>),
     createAddress =
       (\<lambda>s. Inr \<lparr>addr_version = 22, hash160 = map (\<lambda>ch. of_nat (of_char ch)) s\<rparr>),
     privateKeyToPublic =
       (\<lambda>k. if k = [] then Inl (CollaboratorError ''bad private key'') else Inr (''p'' @ k))\<rparr>"

definition demo_heap :: heap where
  "demo_heap = \<lparr>arrays = (\<lambda>_. None)(0 \<mapsto> [''b'', ''a'']), next_ref = 1\<rparr>"

definition demo :: collaborators where
  "demo = \<lparr>
     createStacksPublicKey = createStacksPublicKey demo_keys,
     addressFromPublicKeys = addressFromPublicKeys demo_keys,
     createAddress = createAddress demo_keys,
     privateKeyToPublic = privateKeyToPublic demo_keys,
     cvLength = (\<lambda>bs. case bs of [] \<Rightarrow> None | b # rest \<Rightarrow> Some (Suc (unat b))),
     sigHashOf = (\<lambda>bs. take 32 (bs @ replicate 32 0)),
     signWithKey =
       (\<lambda>k h. if k = [] then Inl (CollaboratorError ''bad private key'')
              else Inr (take 65 (map (\<lambda>ch. of_nat (of_char ch)) k @ replicate 65 0))),
     recoverPublicKey = (\<lambda>h e s. Inr (take 33 (drop 1 s))),
     estimateFee = (\<lambda>tx api. Inr 180),
     getNonce = (\<lambda>a api. Inr 7),
     getAbi = (\<lambda>a n api. Inr ''abi''),
     c32address = (\<lambda>v h. Inr [char_of v, char_of (length h)]),
     networkFromName =
       (\<lambda>s. if s = ''mainnet'' then Inr STACKS_MAINNET
            else if s = ''testnet'' then Inr STACKS_TESTNET
            else Inl (CollaboratorError ''Unknown network name'')),
     defaultApiFromNetwork = (\<lambda>n a. case a of Some u \<Rightarrow> u | None \<Rightarrow> ''https://api.example''),
     createTokenTransferPayload =
       (\<lambda>r a m. Inr (TokenTransferPayload
          (case r of RecipientPrincipal p \<Rightarrow> p
           | RecipientAddress s \<Rightarrow> StandardPrincipalCV 22 (replicate 20 0))
          a (map (\<lambda>ch. of_nat (of_char ch)) m))),
     createSmartContractPayload =
       (\<lambda>n b v. Inr (SmartContractPayload (map (\<lambda>ch. of_nat (of_char ch)) n)
                       (map (\<lambda>ch. of_nat (of_char ch)) b) (Some v))),
     createContractCallPayload =
       (\<lambda>a n f args. Inr (ContractCallPayload 22 (replicate 20 0)
                            (map (\<lambda>ch. of_nat (of_char ch)) n)
                            (map (\<lambda>ch. of_nat (of_char ch)) f) args)),
     validateContractCall = (\<lambda>p abi. Inr ()),
     postConditionToWire =
       (\<lambda>pc. Inr (STXPostConditionWire OriginPrincipal GreaterEqual (pc_amount pc))),
     placeholderSponsor =
       SingleSigSpendingCondition SerializeP2PKH (replicate 20 0) 0 0 Compressed
         (replicate 65 0)\<rparr>"


text \<open>Options for the worked examples: a 2-of-3 transfer, a sponsored deploy, a call.\<close>

definition demo_multisig :: UnsignedMultiSigOptions where
  "demo_multisig = \<lparr>numSignatures = 2, publicKeys = [''pk2'', ''pk1'', ''pk3''],
     address = None, useNonSequentialMultiSig = None\<rparr>"

definition demo_transfer :: "UnsignedSigner TokenTransferOptions" where
  "demo_transfer = \<lparr>opt_fee = None, opt_nonce = None, opt_network = None, opt_sponsored = None,
     opt_api = None, signerOptions = UnsignedMultiSig demo_multisig,
     recipient = RecipientAddress ''SP3FGQ8Z7JY9BWYZ5WM53E0M9NK7WHJF0691NZ159'',
     amount = 2500000, opt_memo = None\<rparr>"

definition demo_deploy :: "UnsignedSigner ContractDeployOptions" where
  "demo_deploy = \<lparr>opt_fee = Some 300, opt_nonce = None,
     opt_network = Some (NetworkName ''testnet''), opt_sponsored = Some True, opt_api = None,
     signerOptions = PublicKey ''pk1'', opt_clarityVersion = None, deploy_contractName = ''c'',
     codeBody = ''(ok)'', deploy_postConditionMode = Some Allow, deploy_postConditions = None\<rparr>"

definition demo_call :: "UnsignedSigner ContractCallOptions" where
  "demo_call = \<lparr>opt_fee = None, opt_nonce = Some 9, opt_network = None, opt_sponsored = None,
     opt_api = Some ''http://node'', signerOptions = PublicKey ''pk1'', contractAddress = ''SP'',
     call_contractName = ''c'', functionName = ''f'', functionArgs = [],
     call_postConditionMode = None, call_postConditions = None,
     opt_validateWithAbi = Some (AbiFlag True)\<rparr>"

text \<open>Two signer keys, of which \<open>zz\<close> belongs to none of the three public keys.\<close>

definition demo_signed_transfer :: "SignedSigner TokenTransferOptions" where
  "demo_signed_transfer =
     transferWithSigner demo_transfer
       (SignedMultiSig \<lparr>numSignatures = 2, publicKeys = [''pk2'', ''pk1'', ''pk3''],
          address = None, useNonSequentialMultiSig = None, signerKeys = [''k1'', ''zz'']\<rparr>)"

definition demo_multisig_tx :: StacksTransaction where
  "demo_multisig_tx =
     \<lparr>version = Mainnet, chainId = 1,
      auth = StandardAuth (MultiSigSpendingCondition SerializeP2SH
               [2, 112, 107, 50, 112, 107, 49, 112, 107, 51] 7 180 [] 2),
      anchorMode = Any,
      payload = TokenTransferPayload (StandardPrincipalCV 22 (replicate 20 0)) 2500000 [],
      postConditionMode = Deny, postConditions = []\<rparr>"

text \<open>
  Envelopes for the codec: a signed single-sig transfer with one post-condition and the
  memo \<open>memo\<close>, a 2-of-3 multi-sig transfer that nobody has signed yet, and one whose hash
  mode was set to the segwit one after it was built from uncompressed keys and signed.
\<close>

definition demo_signed_tx :: StacksTransaction where
  "demo_signed_tx =
     \<lparr>version = Mainnet, chainId = 1,
      auth = StandardAuth (SingleSigSpendingCondition SerializeP2PKH (replicate 20 17) 0 0
               Compressed (replicate 65 34)),
      anchorMode = Any,
      payload = TokenTransferPayload (StandardPrincipalCV 22 (replicate 20 0)) 2500000
                  [109, 101, 109, 111],
      postConditionMode = Deny,
      postConditions = [STXPostConditionWire (StandardPrincipal 22 (replicate 20 0))
                          GreaterEqual 0]\<rparr>"

definition demo_envelope :: StacksTransaction where
  "demo_envelope =
     \<lparr>version = Mainnet, chainId = 1,
      auth = StandardAuth (MultiSigSpendingCondition SerializeP2SH (replicate 20 17) 0 0 [] 2),
      anchorMode = Any,
      payload = TokenTransferPayload (StandardPrincipalCV 22 (replicate 20 0)) 2500000
                  [109, 101, 109, 111],
      postConditionMode = Deny, postConditions = []\<rparr>"

definition demo_segwit_tx :: StacksTransaction where
  "demo_segwit_tx =
     \<lparr>version = Mainnet, chainId = 1,
      auth = StandardAuth (MultiSigSpendingCondition SerializeP2WSH (replicate 20 17) 0 0
               [MessageSignatureField Uncompressed (replicate 65 1),
                MessageSignatureField Uncompressed (replicate 65 2),
                PublicKeyField Uncompressed (replicate 65 3)] 2),
      anchorMode = Any,
      payload = TokenTransferPayload (StandardPrincipalCV 22 (replicate 20 0)) 2500000
                  [109, 101, 109, 111],
      postConditionMode = Deny, postConditions = []\<rparr>"



definition callName :: "call \<Rightarrow> string" where
  "callName x =
     (case x of EstimateFee t a \<Rightarrow> ''estimateFee'' | GetNonce ad a \<Rightarrow> ''getNonce''
      | GetAbi ad n a \<Rightarrow> ''getAbi'')"

section \<open>Auxiliary notions for the proofs\<close>

text \<open>A log without a fee estimate or a nonce lookup: only ABI fetches, if anything.\<close>

definition noFeeNonceCalls :: "call list \<Rightarrow> bool" where
  "noFeeNonceCalls log \<longleftrightarrow> (\<forall>x \<in> set log. \<exists>a n api. x = GetAbi a n api)"


text \<open>
  An unsigned builder that gets past the construction of the envelope \<open>tx0\<close> runs the
  fee-and-nonce part on it; \<open>pre\<close> is what it awaited before.
\<close>

definition reachesTail ::
  "collaborators \<Rightarrow> (UnsignedSigner, 'z) TxOptions_scheme \<Rightarrow> PostConditionMode option \<Rightarrow> bool \<Rightarrow> call list \<Rightarrow> error + StacksTransaction \<Rightarrow> bool" where
  "reachesTail c opts pcm noPcs log r \<longleftrightarrow>
     (\<exists>net sc tx0 pre log'.
        networkFrom c (defaultNetwork opts) = Inr net \<and>
        originSpendingCondition c (signerOptions opts)
          (case opt_nonce opts of None \<Rightarrow> 0 | Some n \<Rightarrow> n)
          (case opt_fee opts of None \<Rightarrow> 0 | Some f \<Rightarrow> f) = Inr sc \<and>
        version tx0 = transactionVersion net \<and> chainId tx0 = net_chainId net \<and>
        anchorMode tx0 = Any \<and> postConditionMode tx0 = (case pcm of None \<Rightarrow> Deny | Some m \<Rightarrow> m) \<and>
        (noPcs \<longrightarrow> postConditions tx0 = []) \<and>
        spendingCondition (auth tx0) = sc \<and>
        authType (auth tx0) = (if opt_sponsored opts = Some True then Sponsored else Standard) \<and>
        estimateFeeAndNonce c (opt_fee opts) (opt_nonce opts) net
          (defaultApiFromNetwork c (defaultNetwork opts) (opt_api opts)) tx0 = (log', r) \<and>
        noFeeNonceCalls pre \<and> log = pre @ log')"


text \<open>
  Every signature field of a multi-sig origin is one a key can be recovered from, each with
  the signature hash of the envelope holding the fields before it.
\<close>

fun recoverable ::
  "collaborators \<Rightarrow> (TransactionAuthField list \<Rightarrow> bytes)
     \<Rightarrow> TransactionAuthField list \<Rightarrow> TransactionAuthField list \<Rightarrow> bool" where
  "recoverable c preImage before [] = True"
| "recoverable c preImage before (f # fs) =
     ((case f of
         PublicKeyField e k \<Rightarrow> True
       | MessageSignatureField e s \<Rightarrow>
           (case recoverPublicKey c (sigHashOf c (preImage before)) e s of
              Inl err \<Rightarrow> False | Inr k \<Rightarrow> True))
      \<and> recoverable c preImage (before @ [f]) fs)"

definition signaturesRecoverable :: "collaborators \<Rightarrow> StacksTransaction \<Rightarrow> bool" where
  "signaturesRecoverable c tx =
     (case spendingCondition (auth tx) of
        SingleSigSpendingCondition m s n f e sig \<Rightarrow> False
      | MultiSigSpendingCondition m s n f fs req \<Rightarrow>
          recoverable c
            (\<lambda>before. serializeBytes (setOrigin tx (MultiSigSpendingCondition m s n f before req)))
            [] fs)"

section \<open>Properties\<close>

lemma bindE_simps [simp]:
  "bindE (Inl e) f = Inl e"
  "bindE (Inr x) f = f x"
  by (simp_all add: bindE_def)

subsection \<open>Reconciliation of a multi-sig address\<close>

text \<open>
  The reference-level function computes, on the contents of the caller's array, what the
  value-level function computes.
\<close>

lemma heap_refines_value:
  assumes "arrays h pks = Some xs" "pks < next_ref h"
  shows "map_sum id (contents (snd (sortPublicKeysForAddress_heap c h pks numSigs mode hash)))
           (fst (sortPublicKeysForAddress_heap c h pks numSigs mode hash))
         = sortPublicKeysForAddress c xs numSigs mode hash"
  using assms
  by (auto simp: sortPublicKeysForAddress_heap_def sortPublicKeysForAddress_def contents_def
      array_slice_def array_sort_def bindE_def Let_def split: sum.splits)

text \<open>
  Claim C2. \<^verbatim>\<open>sortPublicKeysForAddress\<close> first derives the address hash from the keys in the
  order supplied and returns them unchanged when it equals the target; otherwise it derives
  the hash of the lexicographically sorted keys and returns the sorted list when that one
  equals the target; when both hashes were derived and neither equals the target it fails
  with the address mismatch error. This holds for every key list, signature count, hash
  mode and target hash, and for every behaviour of the hashing collaborators.
\<close>

theorem sortPublicKeysForAddress_two_attempts:
  "(derivedHash c mode numSigs pks = Inr hash \<longrightarrow>
      sortPublicKeysForAddress c pks numSigs mode hash = Inr pks) \<and>
   (\<forall>h1. derivedHash c mode numSigs pks = Inr h1 \<and> h1 \<noteq> hash \<and>
         derivedHash c mode numSigs (sort pks) = Inr hash \<longrightarrow>
      sortPublicKeysForAddress c pks numSigs mode hash = Inr (sort pks)) \<and>
   (\<forall>h1 h2. derivedHash c mode numSigs pks = Inr h1 \<and> h1 \<noteq> hash \<and>
         derivedHash c mode numSigs (sort pks) = Inr h2 \<and> h2 \<noteq> hash \<longrightarrow>
      sortPublicKeysForAddress c pks numSigs mode hash = Inl AddressMismatchError)"
  by (auto simp: sortPublicKeysForAddress_def derivedHash_def bindE_def Let_def split: sum.splits)

theorem sortPublicKeysForAddress_two_attempts_witness:
  "derivedHash demo_keys SerializeP2SH 2 [''b'', ''a''] = Inr [2, 98, 97] \<and>
   derivedHash demo_keys SerializeP2SH 2 (sort [''b'', ''a'']) = Inr [2, 97, 98] \<and>
   sortPublicKeysForAddress demo_keys [''b'', ''a''] 2 SerializeP2SH [2, 98, 97] = Inr [''b'', ''a''] \<and>
   sortPublicKeysForAddress demo_keys [''b'', ''a''] 2 SerializeP2SH [2, 97, 98] = Inr [''a'', ''b''] \<and>
   sortPublicKeysForAddress demo_keys [''b'', ''a''] 2 SerializeP2SH [2, 99] = Inl AddressMismatchError"
proof -
  have u: "derivedHash demo_keys SerializeP2SH 2 [''b'', ''a''] = Inr [2, 98, 97]"
    and s: "derivedHash demo_keys SerializeP2SH 2 (sort [''b'', ''a'']) = Inr [2, 97, 98]"
    by (simp_all add: derivedHash_def demo_keys_def)
  have ne: "[2, 98, 97] \<noteq> ([2, 97, 98] :: bytes)" "[2, 98, 97] \<noteq> ([2, 99] :: bytes)"
    "[2, 97, 98] \<noteq> ([2, 99] :: bytes)"
    by simp_all
  note t = sortPublicKeysForAddress_two_attempts
    [of demo_keys SerializeP2SH 2 "[''b'', ''a'']"]
  from t [of "[2, 98, 97]"] u
  have 1: "sortPublicKeysForAddress demo_keys [''b'', ''a''] 2 SerializeP2SH [2, 98, 97]
      = Inr [''b'', ''a'']"
    by blast
  from t [of "[2, 97, 98]"] u s ne
  have 2: "sortPublicKeysForAddress demo_keys [''b'', ''a''] 2 SerializeP2SH [2, 97, 98]
      = Inr (sort [''b'', ''a''])"
    by blast
  from t [of "[2, 99]"] u s ne
  have 3: "sortPublicKeysForAddress demo_keys [''b'', ''a''] 2 SerializeP2SH [2, 99]
      = Inl AddressMismatchError"
    by blast
  from 1 2 3 u s show ?thesis by simp
qed

text \<open>
  Claim C8. Whenever \<^verbatim>\<open>sortPublicKeysForAddress\<close> returns, the array it returns is either the
  caller's array itself, with its contents as they were, or a new array that holds the
  caller's keys sorted; in both cases its contents are a permutation of the caller's keys.
  The caller's array, and every other array that existed before the call, holds after the
  call what it held before.
\<close>

theorem sortPublicKeysForAddress_heap_permutation:
  assumes "arrays h pks = Some xs" and "pks < next_ref h"
    and "sortPublicKeysForAddress_heap c h pks numSigs mode hash = (Inr r, h')"
  shows "arrays h' pks = Some xs \<and>
         (\<forall>a < next_ref h. arrays h' a = arrays h a) \<and>
         ((r = pks \<and> contents h' r = xs) \<or>
          (r \<noteq> pks \<and> contents h' r = sort xs \<and> sorted (contents h' r))) \<and>
         mset (contents h' r) = mset xs"
  using assms
  by (auto simp: sortPublicKeysForAddress_heap_def contents_def
      array_slice_def array_sort_def bindE_def Let_def split: sum.splits if_splits)

theorem sortPublicKeysForAddress_heap_permutation_witness:
  "arrays demo_heap 0 = Some [''b'', ''a''] \<and> 0 < next_ref demo_heap \<and>
   fst (sortPublicKeysForAddress_heap demo_keys demo_heap 0 2 SerializeP2SH [2, 97, 98]) = Inr 1 \<and>
   arrays (snd (sortPublicKeysForAddress_heap demo_keys demo_heap 0 2 SerializeP2SH [2, 97, 98])) 0
     = Some [''b'', ''a''] \<and>
   contents (snd (sortPublicKeysForAddress_heap demo_keys demo_heap 0 2 SerializeP2SH [2, 97, 98])) 1
     = [''a'', ''b'']"
proof -
  have a: "arrays demo_heap 0 = Some [''b'', ''a'']" and b: "0 < next_ref demo_heap"
    by (simp_all add: demo_heap_def)
  have r: "fst (sortPublicKeysForAddress_heap demo_keys demo_heap 0 2 SerializeP2SH [2, 97, 98])
      = Inr 1"
    by (simp add: sortPublicKeysForAddress_heap_def demo_keys_def demo_heap_def contents_def
        array_slice_def array_sort_def)
  then have e: "sortPublicKeysForAddress_heap demo_keys demo_heap 0 2 SerializeP2SH [2, 97, 98]
      = (Inr 1, snd (sortPublicKeysForAddress_heap demo_keys demo_heap 0 2 SerializeP2SH [2, 97, 98]))"
    by (metis prod.collapse)
  from sortPublicKeysForAddress_heap_permutation [OF a b e] a b r show ?thesis
    by simp
qed

subsection \<open>The awaited calls\<close>


lemma bindE_Inr_iff: "bindE m f = Inr y \<longleftrightarrow> (\<exists>x. m = Inr x \<and> f x = Inr y)"
  by (cases m) simp_all

lemma bindIO_simps [simp]:
  "bindIO (log, Inl e) f = (log, Inl e)"
  "bindIO (log, Inr x) f = (log @ fst (f x), snd (f x))"
  "bindIO (returnIO x) f = f x"
  by (simp_all add: bindIO_def returnIO_def split: prod.splits)

lemma bindIO_liftE [simp]:
  "bindIO (liftE (Inl e)) f = ([], Inl e)"
  "bindIO (liftE (Inr x)) f = f x"
  by (simp_all add: liftE_def)

lemma bindIO_Inr_iff:
  "bindIO m f = (log, Inr y) \<longleftrightarrow>
     (\<exists>l1 x l2. m = (l1, Inr x) \<and> f x = (l2, Inr y) \<and> log = l1 @ l2)"
  by (cases m; cases "snd m") (auto simp: bindIO_def split: prod.splits)

lemma bindIO_log:
  "bindIO m f = (log, r) \<Longrightarrow>
     (\<exists>e. m = (log, Inl e) \<and> r = Inl e) \<or> (\<exists>l1 x l2. m = (l1, Inr x) \<and> f x = (l2, r) \<and> log = l1 @ l2)"
  by (cases m; cases "snd m") (auto simp: bindIO_def split: prod.splits)

lemma liftE_eq [simp]: "liftE r = (log, r') \<longleftrightarrow> log = [] \<and> r = r'"
  by (auto simp: liftE_def)

lemma returnIO_eq [simp]: "returnIO x = (log, r) \<longleftrightarrow> log = [] \<and> r = Inr x"
  by (auto simp: returnIO_def)


lemma estimateFeeAndNonce_Inr:
  assumes "estimateFeeAndNonce c f n net api tx = (log, Inr tx')"
  shows "\<exists>tx1.
      (case f of Some x \<Rightarrow> tx1 = tx | None \<Rightarrow> \<exists>est. estimateFee c tx api = Inr est \<and> tx1 = setFee tx est) \<and>
      (case n of Some x \<Rightarrow> tx' = tx1 
       | None \<Rightarrow> \<exists>ad k. c32address c (singleSig (addressVersion net)) (signer (spendingCondition (auth tx1))) = Inr ad \<and>
            getNonce c ad api = Inr k \<and> tx' = setNonce tx1 k) \<and>
      log = (if f = None then [EstimateFee tx api] else []) @
            (if n = None then [GetNonce (case c32address c (singleSig (addressVersion net)) (signer (spendingCondition (auth tx1))) of Inr ad \<Rightarrow> ad | Inl e \<Rightarrow> []) api] else [])"
  using assms
  by (cases f; cases n)
     (auto simp: estimateFeeAndNonce_def bindIO_Inr_iff await_estimateFee_def await_getNonce_def Let_def)

lemma estimateFeeAndNonce_log:
  assumes "estimateFeeAndNonce c f n net api tx = (log, r)"
  shows "(\<forall>t a. EstimateFee t a \<in> set log \<longrightarrow> f = None \<and> t = tx \<and> a = api) \<and>
         (\<forall>ad a. GetNonce ad a \<in> set log \<longrightarrow> n = None \<and> a = api \<and>
            (\<exists>tx1. (tx1 = tx \<or> (\<exists>est. tx1 = setFee tx est)) \<and>
               c32address c (singleSig (addressVersion net)) (signer (spendingCondition (auth tx1))) = Inr ad))"
  using assms
  apply (cases f; cases n)
     apply (auto simp: estimateFeeAndNonce_def await_estimateFee_def await_getNonce_def Let_def
      dest!: bindIO_log)
  done

subsection \<open>Fee, nonce and origin updates\<close>

lemma withFee_sel [simp]:
  "fee (withFee a sc) = a" "nonce (withFee a sc) = nonce sc" "signer (withFee a sc) = signer sc"
  "hashMode (withFee a sc) = hashMode sc" "isSingleSig (withFee a sc) = isSingleSig sc"
  by (cases sc, simp_all add: withFee_def isSingleSig_def)+

lemma withFee_multi [simp]:
  "\<not> isSingleSig sc \<Longrightarrow> signaturesRequired (withFee a sc) = signaturesRequired sc"
  "\<not> isSingleSig sc \<Longrightarrow> SpendingCondition.fields (withFee a sc) = SpendingCondition.fields sc"
  by (cases sc, simp_all add: withFee_def isSingleSig_def)+

lemma withNonce_sel [simp]:
  "nonce (withNonce a sc) = a" "fee (withNonce a sc) = fee sc" "signer (withNonce a sc) = signer sc"
  "hashMode (withNonce a sc) = hashMode sc" "isSingleSig (withNonce a sc) = isSingleSig sc"
  by (cases sc, simp_all add: withNonce_def isSingleSig_def)+

lemma withNonce_multi [simp]:
  "\<not> isSingleSig sc \<Longrightarrow> signaturesRequired (withNonce a sc) = signaturesRequired sc"
  "\<not> isSingleSig sc \<Longrightarrow> SpendingCondition.fields (withNonce a sc) = SpendingCondition.fields sc"
  by (cases sc, simp_all add: withNonce_def isSingleSig_def)+

lemma setFee_frame [simp]:
  "version (setFee tx a) = version tx" "chainId (setFee tx a) = chainId tx"
  "anchorMode (setFee tx a) = anchorMode tx" "payload (setFee tx a) = payload tx"
  "postConditionMode (setFee tx a) = postConditionMode tx"
  "postConditions (setFee tx a) = postConditions tx"
  "authType (auth (setFee tx a)) = authType (auth tx)"
  by (simp_all add: setFee_def authType_def split: Authorization.splits)

lemma setNonce_frame [simp]:
  "version (setNonce tx a) = version tx" "chainId (setNonce tx a) = chainId tx"
  "anchorMode (setNonce tx a) = anchorMode tx" "payload (setNonce tx a) = payload tx"
  "postConditionMode (setNonce tx a) = postConditionMode tx"
  "postConditions (setNonce tx a) = postConditions tx"
  "authType (auth (setNonce tx a)) = authType (auth tx)"
  by (simp_all add: setNonce_def authType_def split: Authorization.splits)

lemma setFee_origin:
  "spendingCondition (auth (setFee tx a)) =
     (case auth tx of StandardAuth sc \<Rightarrow> withFee a sc | SponsoredAuth sc sp \<Rightarrow> sc)"
  by (simp add: setFee_def split: Authorization.splits)

lemma setNonce_origin:
  "spendingCondition (auth (setNonce tx a)) = withNonce a (spendingCondition (auth tx))"
  by (simp add: setNonce_def split: Authorization.splits)

lemma setFee_origin_sel [simp]:
  "signer (spendingCondition (auth (setFee tx a))) = signer (spendingCondition (auth tx))"
  "nonce (spendingCondition (auth (setFee tx a))) = nonce (spendingCondition (auth tx))"
  "hashMode (spendingCondition (auth (setFee tx a))) = hashMode (spendingCondition (auth tx))"
  "isSingleSig (spendingCondition (auth (setFee tx a))) = isSingleSig (spendingCondition (auth tx))"
  by (simp_all add: setFee_origin split: Authorization.splits)

lemma setFee_origin_multi [simp]:
  "\<not> isSingleSig (spendingCondition (auth tx)) \<Longrightarrow>
     signaturesRequired (spendingCondition (auth (setFee tx a))) = signaturesRequired (spendingCondition (auth tx))"
  "\<not> isSingleSig (spendingCondition (auth tx)) \<Longrightarrow>
     SpendingCondition.fields (spendingCondition (auth (setFee tx a))) = SpendingCondition.fields (spendingCondition (auth tx))"
  by (auto simp: setFee_origin split: Authorization.splits)

lemma setNonce_origin_sel [simp]:
  "signer (spendingCondition (auth (setNonce tx a))) = signer (spendingCondition (auth tx))"
  "fee (spendingCondition (auth (setNonce tx a))) = fee (spendingCondition (auth tx))"
  "nonce (spendingCondition (auth (setNonce tx a))) = a"
  "hashMode (spendingCondition (auth (setNonce tx a))) = hashMode (spendingCondition (auth tx))"
  "isSingleSig (spendingCondition (auth (setNonce tx a))) = isSingleSig (spendingCondition (auth tx))"
  by (simp_all add: setNonce_origin)

lemma setNonce_origin_multi [simp]:
  "\<not> isSingleSig (spendingCondition (auth tx)) \<Longrightarrow>
     signaturesRequired (spendingCondition (auth (setNonce tx a))) = signaturesRequired (spendingCondition (auth tx))"
  "\<not> isSingleSig (spendingCondition (auth tx)) \<Longrightarrow>
     SpendingCondition.fields (spendingCondition (auth (setNonce tx a))) = SpendingCondition.fields (spendingCondition (auth tx))"
  by (simp_all add: setNonce_origin)

lemma setFee_fee_standard:
  "authType (auth tx) = Standard \<Longrightarrow> fee (spendingCondition (auth (setFee tx a))) = a"
  "authType (auth tx) = Sponsored \<Longrightarrow> fee (spendingCondition (auth (setFee tx a))) = fee (spendingCondition (auth tx))"
  by (simp_all add: setFee_origin authType_def split: Authorization.splits)


lemma createMultiSig_Inr:
  assumes "createMultiSigSpendingCondition c m k pks n0 f0 = Inr sc"
  shows "\<exists>keys a. mapE (createStacksPublicKey c) pks = Inr keys \<and>
            addressFromPublicKeys c 0 m k keys = Inr a \<and>
            sc = MultiSigSpendingCondition m (hash160 a) n0 f0 [] k"
  using assms
  by (auto simp: createMultiSigSpendingCondition_def bindE_Inr_iff split: if_splits)

lemma createSingleSig_Inr:
  assumes "createSingleSigSpendingCondition c m pk n0 f0 = Inr sc"
  shows "\<exists>h e. sc = SingleSigSpendingCondition m h n0 f0 e emptyMessageSignature"
  using assms
  by (auto simp: createSingleSigSpendingCondition_def bindE_Inr_iff split: if_splits)

lemma originSpendingCondition_Inr:
  assumes "originSpendingCondition c k n0 f0 = Inr sc"
  shows "fee sc = f0 \<and> nonce sc = n0 \<and>
     (case k of
        PublicKey pk \<Rightarrow> isSingleSig sc \<and> hashMode sc = SerializeP2PKH
      | UnsignedMultiSig ms \<Rightarrow>
          \<not> isSingleSig sc \<and> signaturesRequired sc = numSignatures ms \<and> SpendingCondition.fields sc = [] \<and>
          hashMode sc = (if useNonSequentialMultiSig ms = Some True then SerializeP2SHNonSequential else SerializeP2SH) \<and>
          hashMode sc \<in> {SerializeP2SH, SerializeP2SHNonSequential} \<and>
          (\<exists>keys a. addressFromPublicKeys c 0 (hashMode sc) (numSignatures ms) keys = Inr a \<and>
                    signer sc = hash160 a))"
proof (cases k)
  case (PublicKey pk)
  with assms obtain h e where "sc = SingleSigSpendingCondition SerializeP2PKH h n0 f0 e emptyMessageSignature"
    by (auto simp: originSpendingCondition_def dest: createSingleSig_Inr)
  with PublicKey show ?thesis by (simp add: isSingleSig_def)
next
  case (UnsignedMultiSig ms)
  let ?m = "if useNonSequentialMultiSig ms = Some True then SerializeP2SHNonSequential else SerializeP2SH"
  from assms UnsignedMultiSig obtain pks where
    "createMultiSigSpendingCondition c ?m (numSignatures ms) pks n0 f0 = Inr sc"
    by (auto simp: originSpendingCondition_def Let_def truthyFlag_def bindE_Inr_iff)
  from createMultiSig_Inr [OF this] obtain keys a where
    sc: "sc = MultiSigSpendingCondition ?m (hash160 a) n0 f0 [] (numSignatures ms)"
    and a: "addressFromPublicKeys c 0 ?m (numSignatures ms) keys = Inr a"
    by blast
  have "hashMode sc = ?m" by (simp add: sc)
  with a have "\<exists>keys a'. addressFromPublicKeys c 0 (hashMode sc) (numSignatures ms) keys = Inr a' \<and>
                    signer sc = hash160 a'"
    using sc by (intro exI [of _ keys] exI [of _ a]) simp
  then show ?thesis using sc UnsignedMultiSig
    by (simp add: isSingleSig_def)
qed

lemma new_StacksTransaction_sel [simp]:
  "version (new_StacksTransaction v a p pcs pcm am cid) = v"
  "chainId (new_StacksTransaction v a p pcs pcm am (Some n)) = n"
  "auth (new_StacksTransaction v a p pcs pcm am cid) = a"
  "anchorMode (new_StacksTransaction v a p pcs pcm (Some m) cid) = m"
  "payload (new_StacksTransaction v a p pcs pcm am cid) = p"
  "postConditionMode (new_StacksTransaction v a p pcs None am cid) = Deny"
  "postConditionMode (new_StacksTransaction v a p pcs (Some pm) am cid) = pm"
  "postConditions (new_StacksTransaction v a p None pcm am cid) = []"
  "postConditions (new_StacksTransaction v a p (Some l) pcm am cid) = l"
  by (simp_all add: new_StacksTransaction_def)

lemma auth_choice [simp]:
  "spendingCondition (if b then createSponsoredAuth c sc None else createStandardAuth sc) = sc"
  "authType (if b then createSponsoredAuth c sc None else createStandardAuth sc) = (if b then Sponsored else Standard)"
  by (simp_all add: createSponsoredAuth_def createStandardAuth_def authType_def)


lemma noFeeNonceCalls_simps [simp]: "noFeeNonceCalls []" "noFeeNonceCalls [GetAbi a n api]"
  by (simp_all add: noFeeNonceCalls_def)

lemma sponsored_flag: "(case x of None \<Rightarrow> False | Some b \<Rightarrow> b) = (x = Some True)"
  by (cases x) auto

lemma reachesTailI:
  assumes "networkFrom c (defaultNetwork opts) = Inr net"
    and "originSpendingCondition c (signerOptions opts)
          (case opt_nonce opts of None \<Rightarrow> 0 | Some n \<Rightarrow> n)
          (case opt_fee opts of None \<Rightarrow> 0 | Some f \<Rightarrow> f) = Inr sc"
    and "estimateFeeAndNonce c (opt_fee opts) (opt_nonce opts) net
          (defaultApiFromNetwork c (defaultNetwork opts) (opt_api opts))
          (new_StacksTransaction (transactionVersion net)
            (if opt_sponsored opts = Some True then createSponsoredAuth c sc None else createStandardAuth sc)
            p pcs pcm' (Some Any) (Some (net_chainId net))) = (log', r)"
    and "noFeeNonceCalls pre" "log = pre @ log'"
    and "(case pcm' of None \<Rightarrow> Deny | Some m \<Rightarrow> m) = (case pcm of None \<Rightarrow> Deny | Some m \<Rightarrow> m)"
    and "noPcs \<longrightarrow> pcs = None"
  shows "reachesTail c opts pcm noPcs log r"
  unfolding reachesTail_def
  apply (rule exI [of _ net], rule exI [of _ sc])
  apply (rule exI [of _ "new_StacksTransaction (transactionVersion net)
            (if opt_sponsored opts = Some True then createSponsoredAuth c sc None else createStandardAuth sc)
            p pcs pcm' (Some Any) (Some (net_chainId net))"])
  apply (rule exI [of _ pre], rule exI [of _ log'])
  using assms
  apply (simp add: new_StacksTransaction_def split del: if_split)
  done

lemma transfer_reaches:
  assumes a: "makeUnsignedSTXTokenTransfer c opts = (log, r)"
  shows "(noFeeNonceCalls log \<and> (\<exists>e. r = Inl e)) \<or> reachesTail c opts None True log r"
proof (cases "createTokenTransferPayload c (recipient opts) (amount opts)
                (case opt_memo opts of None \<Rightarrow> [] | Some m \<Rightarrow> m)")
  case Inl
  with a show ?thesis by (auto simp: makeUnsignedSTXTokenTransfer_def Let_def)
next
  case p: (Inr p)
  show ?thesis
  proof (cases "networkFrom c (defaultNetwork opts)")
    case Inl
    with a p show ?thesis
      by (auto simp: makeUnsignedSTXTokenTransfer_def Let_def defaultNetwork_def)
  next
    case n: (Inr net)
    show ?thesis
    proof (cases "originSpendingCondition c (signerOptions opts)
          (case opt_nonce opts of None \<Rightarrow> 0 | Some n \<Rightarrow> n)
          (case opt_fee opts of None \<Rightarrow> 0 | Some f \<Rightarrow> f)")
      case Inl
      with a p n show ?thesis
        by (auto simp: makeUnsignedSTXTokenTransfer_def Let_def defaultNetwork_def)
    next
      case s: (Inr sc)
      from a p n s have "reachesTail c opts None True log r"
        by (intro reachesTailI [OF n s, where pre = "[]" and pcs = None and pcm' = None])
           (simp_all add: makeUnsignedSTXTokenTransfer_def Let_def defaultNetwork_def sponsored_flag)
      then show ?thesis ..
    qed
  qed
qed

lemma deploy_reaches:
  assumes a: "makeUnsignedContractDeploy c opts = (log, r)"
  shows "(noFeeNonceCalls log \<and> (\<exists>e. r = Inl e)) \<or>
         reachesTail c opts (deploy_postConditionMode opts) False log r"
proof (cases "createSmartContractPayload c (deploy_contractName opts) (codeBody opts)
                (case opt_clarityVersion opts of None \<Rightarrow> Clarity2 | Some v \<Rightarrow> v)")
  case Inl
  with a show ?thesis by (auto simp: makeUnsignedContractDeploy_def Let_def)
next
  case p: (Inr p)
  show ?thesis
  proof (cases "networkFrom c (defaultNetwork opts)")
    case Inl
    with a p show ?thesis
      by (auto simp: makeUnsignedContractDeploy_def Let_def defaultNetwork_def)
  next
    case n: (Inr net)
    show ?thesis
    proof (cases "originSpendingCondition c (signerOptions opts)
          (case opt_nonce opts of None \<Rightarrow> 0 | Some n \<Rightarrow> n)
          (case opt_fee opts of None \<Rightarrow> 0 | Some f \<Rightarrow> f)")
      case Inl
      with a p n show ?thesis
        by (auto simp: makeUnsignedContractDeploy_def Let_def defaultNetwork_def)
    next
      case s: (Inr sc)
      from a p n s have "reachesTail c opts (deploy_postConditionMode opts) False log r"
        by (intro reachesTailI [OF n s, where pre = "[]"
              and pcs = "Some (case deploy_postConditions opts of None \<Rightarrow> [] | Some pcs \<Rightarrow> pcs)"
              and pcm' = "Some (case deploy_postConditionMode opts of None \<Rightarrow> Deny | Some m \<Rightarrow> m)"])
           (simp_all add: makeUnsignedContractDeploy_def Let_def defaultNetwork_def sponsored_flag)
      then show ?thesis ..
    qed
  qed
qed

lemma abiStep_log:
  "validateWithAbiStep c v n a nm api p = (pre, r) \<Longrightarrow> noFeeNonceCalls pre"
  by (auto simp: validateWithAbiStep_def await_getAbi_def bindIO_def liftE_def returnIO_def
      split: option.splits AbiParam.splits bool.splits if_splits sum.splits)

lemma call_reaches:
  assumes a: "makeUnsignedContractCall c opts = (log, r)"
  shows "(noFeeNonceCalls log \<and> (\<exists>e. r = Inl e)) \<or>
         reachesTail c opts (call_postConditionMode opts) False log r"
proof (cases "createContractCallPayload c (contractAddress opts) (call_contractName opts)
                (functionName opts) (functionArgs opts)")
  case Inl
  with a show ?thesis by (auto simp: makeUnsignedContractCall_def Let_def)
next
  case p: (Inr p)
  obtain pre ra where abi: "validateWithAbiStep c (opt_validateWithAbi opts) (defaultNetwork opts)
      (contractAddress opts) (call_contractName opts)
      (defaultApiFromNetwork c (defaultNetwork opts) (opt_api opts)) p = (pre, ra)"
    by (cases "validateWithAbiStep c (opt_validateWithAbi opts) (defaultNetwork opts)
      (contractAddress opts) (call_contractName opts)
      (defaultApiFromNetwork c (defaultNetwork opts) (opt_api opts)) p")
  note pre = abiStep_log [OF abi]
  from a p have a': "bindIO (validateWithAbiStep c (opt_validateWithAbi opts) (defaultNetwork opts)
      (contractAddress opts) (call_contractName opts)
      (defaultApiFromNetwork c (defaultNetwork opts) (opt_api opts)) p) (\<lambda>_.
      bindIO (liftE (networkFrom c (defaultNetwork opts))) (\<lambda>network.
      bindIO (liftE (originSpendingCondition c (signerOptions opts)
                       (case opt_nonce opts of None \<Rightarrow> 0 | Some n \<Rightarrow> n)
                       (case opt_fee opts of None \<Rightarrow> 0 | Some f \<Rightarrow> f))) (\<lambda>spendingCondition.
        bindIO (liftE (mapE (postConditionToWire c)
                         (case call_postConditions opts of None \<Rightarrow> [] | Some pcs \<Rightarrow> pcs)))
          (\<lambda>lpPostConditions.
         estimateFeeAndNonce c (opt_fee opts) (opt_nonce opts) network
             (defaultApiFromNetwork c (defaultNetwork opts) (opt_api opts))
             (new_StacksTransaction (transactionVersion network)
                (if opt_sponsored opts = Some True then createSponsoredAuth c spendingCondition None
                 else createStandardAuth spendingCondition) p
                (Some lpPostConditions)
                (Some (case call_postConditionMode opts of None \<Rightarrow> Deny | Some m \<Rightarrow> m)) (Some Any)
                (Some (net_chainId network))))))) = (log, r)"
    by (simp add: makeUnsignedContractCall_def Let_def defaultNetwork_def sponsored_flag
        split del: if_split)
  show ?thesis
  proof (cases ra)
    case (Inl e)
    with a' abi pre show ?thesis by auto
  next
    case u: (Inr u)
    show ?thesis
    proof (cases "networkFrom c (defaultNetwork opts)")
      case Inl
      with a' abi u pre show ?thesis by auto
    next
      case n: (Inr net)
      show ?thesis
      proof (cases "originSpendingCondition c (signerOptions opts)
          (case opt_nonce opts of None \<Rightarrow> 0 | Some n \<Rightarrow> n)
          (case opt_fee opts of None \<Rightarrow> 0 | Some f \<Rightarrow> f)")
        case Inl
        with a' abi u n pre show ?thesis by auto
      next
        case s: (Inr sc)
        show ?thesis
        proof (cases "mapE (postConditionToWire c)
                         (case call_postConditions opts of None \<Rightarrow> [] | Some pcs \<Rightarrow> pcs)")
          case Inl
          with a' abi u n s pre show ?thesis by auto
        next
          case w: (Inr pcs)
          obtain log' where t: "estimateFeeAndNonce c (opt_fee opts) (opt_nonce opts) net
             (defaultApiFromNetwork c (defaultNetwork opts) (opt_api opts))
             (new_StacksTransaction (transactionVersion net)
                (if opt_sponsored opts = Some True then createSponsoredAuth c sc None
                 else createStandardAuth sc) p
                (Some pcs)
                (Some (case call_postConditionMode opts of None \<Rightarrow> Deny | Some m \<Rightarrow> m)) (Some Any)
                (Some (net_chainId net))) = (log', r)" and l: "log = pre @ log'"
            using a' abi u n s w by (auto simp: prod_eq_iff)
          have "reachesTail c opts (call_postConditionMode opts) False log r"
            by (rule reachesTailI [OF n s t pre l]) simp_all
          then show ?thesis ..
        qed
      qed
    qed
  qed
qed

lemma in_set_noFeeNonce [simp]:
  "noFeeNonceCalls pre \<Longrightarrow> EstimateFee t a \<notin> set pre"
  "noFeeNonceCalls pre \<Longrightarrow> GetNonce ad a \<notin> set pre"
  by (auto simp: noFeeNonceCalls_def)

lemma tail_frame:
  assumes "estimateFeeAndNonce c f n net api tx = (log, Inr tx')"
  shows "version tx' = version tx \<and> chainId tx' = chainId tx \<and> anchorMode tx' = anchorMode tx \<and>
     payload tx' = payload tx \<and> postConditionMode tx' = postConditionMode tx \<and>
     postConditions tx' = postConditions tx \<and> authType (auth tx') = authType (auth tx) \<and>
     isSingleSig (spendingCondition (auth tx')) = isSingleSig (spendingCondition (auth tx)) \<and>
     hashMode (spendingCondition (auth tx')) = hashMode (spendingCondition (auth tx)) \<and>
     signer (spendingCondition (auth tx')) = signer (spendingCondition (auth tx)) \<and>
     (\<not> isSingleSig (spendingCondition (auth tx)) \<longrightarrow>
        signaturesRequired (spendingCondition (auth tx')) = signaturesRequired (spendingCondition (auth tx)) \<and>
        SpendingCondition.fields (spendingCondition (auth tx')) = SpendingCondition.fields (spendingCondition (auth tx))) \<and>
     (f \<noteq> None \<longrightarrow> fee (spendingCondition (auth tx')) = fee (spendingCondition (auth tx))) \<and>
     (n \<noteq> None \<longrightarrow> nonce (spendingCondition (auth tx')) = nonce (spendingCondition (auth tx)))"
  using assms
  by (cases f; cases n)
     (auto simp: estimateFeeAndNonce_def bindIO_Inr_iff await_estimateFee_def await_getNonce_def Let_def)

lemma tail_calls:
  assumes "estimateFeeAndNonce c f n net api tx = (log, Inr tx')"
  shows "((\<exists>t a. EstimateFee t a \<in> set log) \<longleftrightarrow> f = None) \<and>
         ((\<exists>ad a. GetNonce ad a \<in> set log) \<longleftrightarrow> n = None) \<and>
         (\<forall>t a. EstimateFee t a \<in> set log \<longrightarrow> t = tx)"
  using assms
  by (cases f; cases n)
     (auto simp: estimateFeeAndNonce_def bindIO_Inr_iff await_estimateFee_def await_getNonce_def Let_def)

lemma reachesTail_honours:
  assumes "reachesTail c opts pcm b log (Inr tx)"
  shows "honoursDefaults c opts pcm log tx"
proof -
  from assms obtain net sc tx0 pre log' where
    n: "networkFrom c (defaultNetwork opts) = Inr net"
    and s: "originSpendingCondition c (signerOptions opts)
          (case opt_nonce opts of None \<Rightarrow> 0 | Some n \<Rightarrow> n)
          (case opt_fee opts of None \<Rightarrow> 0 | Some f \<Rightarrow> f) = Inr sc"
    and f: "version tx0 = transactionVersion net" "chainId tx0 = net_chainId net"
        "anchorMode tx0 = Any" "postConditionMode tx0 = (case pcm of None \<Rightarrow> Deny | Some m \<Rightarrow> m)"
        "b \<longrightarrow> postConditions tx0 = []"
        "spendingCondition (auth tx0) = sc"
        "authType (auth tx0) = (if opt_sponsored opts = Some True then Sponsored else Standard)"
    and t: "estimateFeeAndNonce c (opt_fee opts) (opt_nonce opts) net
          (defaultApiFromNetwork c (defaultNetwork opts) (opt_api opts)) tx0 = (log', Inr tx)"
    and p: "noFeeNonceCalls pre" "log = pre @ log'"
    unfolding reachesTail_def by (elim exE conjE) (rule that, assumption+)
  note o = originSpendingCondition_Inr [OF s]
  note fr = tail_frame [OF t, unfolded f]
  note ca = tail_calls [OF t]
  have net: "\<exists>net. networkFrom c (defaultNetwork opts) = Inr net \<and>
            version tx = transactionVersion net \<and> chainId tx = net_chainId net"
    using n fr by auto
  have disp: "(case signerOptions opts of
        PublicKey pk \<Rightarrow>
          isSingleSig (spendingCondition (auth tx)) \<and>
          hashMode (spendingCondition (auth tx)) = SerializeP2PKH
      | UnsignedMultiSig ms \<Rightarrow>
          \<not> isSingleSig (spendingCondition (auth tx)) \<and>
          signaturesRequired (spendingCondition (auth tx)) = numSignatures ms \<and>
          hashMode (spendingCondition (auth tx)) =
            (if useNonSequentialMultiSig ms = Some True then SerializeP2SHNonSequential
             else SerializeP2SH))"
    using o fr by (cases "signerOptions opts") simp_all
  have est0: "\<forall>t a. EstimateFee t a \<in> set log \<longrightarrow>
        fee (spendingCondition (auth t)) = 0 \<and>
        nonce (spendingCondition (auth t)) = (case opt_nonce opts of None \<Rightarrow> 0 | Some n \<Rightarrow> n)"
  proof (intro allI impI)
    fix t a assume "EstimateFee t a \<in> set log"
    with p have "EstimateFee t a \<in> set log'" by auto
    with ca have "opt_fee opts = None" "t = tx0" by blast+
    with o f show "fee (spendingCondition (auth t)) = 0 \<and>
        nonce (spendingCondition (auth t)) = (case opt_nonce opts of None \<Rightarrow> 0 | Some n \<Rightarrow> n)"
      by simp
  qed
  have fee: "\<forall>x. opt_fee opts = Some x \<longrightarrow> fee (spendingCondition (auth tx)) = x"
    using o fr by simp
  have nonce: "\<forall>x. opt_nonce opts = Some x \<longrightarrow> nonce (spendingCondition (auth tx)) = x"
    using o fr by simp
  have calls: "((\<exists>t a. EstimateFee t a \<in> set log) \<longleftrightarrow> opt_fee opts = None)"
      "((\<exists>ad a. GetNonce ad a \<in> set log) \<longleftrightarrow> opt_nonce opts = None)"
    using p ca by auto
  have rest: "anchorMode tx = Any" "postConditionMode tx = (case pcm of None \<Rightarrow> Deny | Some m \<Rightarrow> m)"
     "authType (auth tx) = (if opt_sponsored opts = Some True then Sponsored else Standard)"
    using fr by simp_all
  show ?thesis
    unfolding honoursDefaults_def
    using net rest disp fee nonce calls est0
    by blast
qed

subsection \<open>Signing and appending\<close>

lemma setOrigin_frame [simp]:
  "version (setOrigin tx sc) = version tx" "chainId (setOrigin tx sc) = chainId tx"
  "anchorMode (setOrigin tx sc) = anchorMode tx" "payload (setOrigin tx sc) = payload tx"
  "postConditionMode (setOrigin tx sc) = postConditionMode tx"
  "postConditions (setOrigin tx sc) = postConditions tx"
  "authType (auth (setOrigin tx sc)) = authType (auth tx)"
  "spendingCondition (auth (setOrigin tx sc)) = sc"
  by (simp_all add: setOrigin_def authType_def split: Authorization.splits)

lemma signOrigin_frame:
  assumes "signOrigin c tx k = Inr tx'"
  shows "version tx' = version tx \<and> chainId tx' = chainId tx \<and> anchorMode tx' = anchorMode tx \<and>
         payload tx' = payload tx \<and> postConditionMode tx' = postConditionMode tx \<and>
         postConditions tx' = postConditions tx \<and> authType (auth tx') = authType (auth tx) \<and>
         isSingleSig (spendingCondition (auth tx')) = isSingleSig (spendingCondition (auth tx))"
  using assms
  by (auto simp: signOrigin_def bindE_Inr_iff isSingleSig_def split: SpendingCondition.splits)


lemma appendOrigin_frame:
  assumes "appendOrigin tx key = Inr tx'"
  shows "version tx' = version tx \<and> chainId tx' = chainId tx \<and> anchorMode tx' = anchorMode tx \<and>
         payload tx' = payload tx \<and> postConditionMode tx' = postConditionMode tx \<and>
         postConditions tx' = postConditions tx \<and> authType (auth tx') = authType (auth tx)"
  using assms
  by (auto simp: appendOrigin_def split: SpendingCondition.splits)



lemma signAppendEach_frame:
  "signAppendEach c keys pubs tx = Inr tx' \<Longrightarrow> postConditions tx' = postConditions tx"
proof (induction pubs arbitrary: tx)
  case Nil
  then show ?case by simp
next
  case (Cons p pubs)
  from Cons.prems obtain r tx1 where
    "(if truthyString r then signOrigin c tx (case r of Some k \<Rightarrow> k | None \<Rightarrow> [])
      else bindE (createStacksPublicKey c p) (appendOrigin tx)) = Inr tx1"
    and rest: "signAppendEach c keys pubs tx1 = Inr tx'"
    by (auto simp: bindE_Inr_iff)
  then have "postConditions tx1 = postConditions tx"
    by (auto simp: bindE_Inr_iff dest: signOrigin_frame appendOrigin_frame split: if_splits)
  with Cons.IH [OF rest] show ?case by simp
qed





lemma early_nonce:
  "noFeeNonceCalls log \<Longrightarrow> nonceLookupUsesSingleSigVersion c opts log"
  "noFeeNonceCalls log \<Longrightarrow> asksOnlyWhenOmitted opts log"
  by (auto simp: nonceLookupUsesSingleSigVersion_def asksOnlyWhenOmitted_def noFeeNonceCalls_def)

lemma reachesTail_asks:
  assumes "reachesTail c opts pcm b log r"
  shows "asksOnlyWhenOmitted opts log"
proof -
  from assms obtain net tx0 pre log' where
    t: "estimateFeeAndNonce c (opt_fee opts) (opt_nonce opts) net
          (defaultApiFromNetwork c (defaultNetwork opts) (opt_api opts)) tx0 = (log', r)"
    and p: "noFeeNonceCalls pre" "log = pre @ log'"
    unfolding reachesTail_def by (elim exE conjE) (rule that, assumption+)
  from estimateFeeAndNonce_log [OF t] p show ?thesis
    unfolding asksOnlyWhenOmitted_def by (auto simp: noFeeNonceCalls_def)
qed

lemma reachesTail_nonce:
  assumes "reachesTail c opts pcm b log r"
  shows "nonceLookupUsesSingleSigVersion c opts log"
proof -
  from assms obtain net sc tx0 pre log' where
    n: "networkFrom c (defaultNetwork opts) = Inr net"
    and s: "originSpendingCondition c (signerOptions opts)
          (case opt_nonce opts of None \<Rightarrow> 0 | Some n \<Rightarrow> n)
          (case opt_fee opts of None \<Rightarrow> 0 | Some f \<Rightarrow> f) = Inr sc"
    and f: "spendingCondition (auth tx0) = sc"
    and t: "estimateFeeAndNonce c (opt_fee opts) (opt_nonce opts) net
          (defaultApiFromNetwork c (defaultNetwork opts) (opt_api opts)) tx0 = (log', r)"
    and p: "noFeeNonceCalls pre" "log = pre @ log'"
    unfolding reachesTail_def by (elim exE conjE) (rule that, assumption+)
  note o = originSpendingCondition_Inr [OF s]
  have shape: "(case signerOptions opts of
              PublicKey pk \<Rightarrow> isSingleSig sc
            | UnsignedMultiSig ms \<Rightarrow>
                \<not> isSingleSig sc \<and>
                hashMode sc \<in> {SerializeP2SH, SerializeP2SHNonSequential} \<and>
                (\<exists>keys a. addressFromPublicKeys c 0 (hashMode sc) (numSignatures ms) keys = Inr a \<and>
                          signer sc = hash160 a))"
  proof (cases "signerOptions opts")
    case (PublicKey pk)
    with o show ?thesis by simp
  next
    case m: (UnsignedMultiSig ms)
    from o have a: "\<not> isSingleSig sc \<and>
                hashMode sc \<in> {SerializeP2SH, SerializeP2SHNonSequential} \<and>
                (\<exists>keys a. addressFromPublicKeys c 0 (hashMode sc) (numSignatures ms) keys = Inr a \<and>
                          signer sc = hash160 a)"
      unfolding m UnsignedSigner.case by blast
    show ?thesis unfolding m UnsignedSigner.case by (rule a)
  qed
  show ?thesis
    unfolding nonceLookupUsesSingleSigVersion_def
  proof (intro allI impI)
    fix ad api assume "GetNonce ad api \<in> set log"
    with p have "GetNonce ad api \<in> set log'" by auto
    with estimateFeeAndNonce_log [OF t] obtain tx1 where
      "opt_nonce opts = None" "tx1 = tx0 \<or> (\<exists>est. tx1 = setFee tx0 est)"
      "c32address c (singleSig (addressVersion net)) (signer (spendingCondition (auth tx1))) = Inr ad"
      by blast
    then have "opt_nonce opts = None"
      "c32address c (singleSig (addressVersion net)) (signer sc) = Inr ad"
      using f by auto
    with n s shape show "opt_nonce opts = None \<and>
        (\<exists>net sc.
           networkFrom c (defaultNetwork opts) = Inr net \<and>
           originSpendingCondition c (signerOptions opts)
             (case opt_nonce opts of None \<Rightarrow> 0 | Some n \<Rightarrow> n)
             (case opt_fee opts of None \<Rightarrow> 0 | Some f \<Rightarrow> f) = Inr sc \<and>
           c32address c (singleSig (addressVersion net)) (signer sc) = Inr ad \<and>
           (case signerOptions opts of
              PublicKey pk \<Rightarrow> isSingleSig sc
            | UnsignedMultiSig ms \<Rightarrow>
                \<not> isSingleSig sc \<and>
                hashMode sc \<in> {SerializeP2SH, SerializeP2SHNonSequential} \<and>
                (\<exists>keys a. addressFromPublicKeys c 0 (hashMode sc) (numSignatures ms) keys = Inr a \<and>
                          signer sc = hash160 a)))"
      by blast
  qed
qed

lemma reachesTail_postConditions:
  assumes "reachesTail c opts pcm True log (Inr tx)"
  shows "postConditions tx = []"
proof -
  from assms obtain net tx0 log' where
    f: "postConditions tx0 = []"
    and t: "estimateFeeAndNonce c (opt_fee opts) (opt_nonce opts) net
          (defaultApiFromNetwork c (defaultNetwork opts) (opt_api opts)) tx0 = (log', Inr tx)"
    unfolding reachesTail_def by (elim exE conjE) (rule that, simp, assumption)
  from tail_frame [OF t] f show ?thesis by simp
qed


lemma mutatingSignAppendMultiSig_frame:
  "mutatingSignAppendMultiSig c tx pks keys addr = Inr tx' \<Longrightarrow> postConditions tx' = postConditions tx"
  by (auto simp: mutatingSignAppendMultiSig_def bindE_Inr_iff dest: signAppendEach_frame split: if_splits)

lemma transferWithSigner_sel [simp]:
  "opt_fee (transferWithSigner opts k) = opt_fee opts"
  "opt_nonce (transferWithSigner opts k) = opt_nonce opts"
  "signerOptions (transferWithSigner opts k) = k"
  by (simp_all add: transferWithSigner_def)


lemmas demo_simps = demo_def demo_keys_def demo_transfer_def demo_multisig_def demo_deploy_def
  demo_call_def demo_signed_transfer_def demo_multisig_tx_def
  makeUnsignedSTXTokenTransfer_def makeUnsignedContractDeploy_def makeUnsignedContractCall_def
  makeSTXTokenTransfer_def transferWithSigner_def
  originSpendingCondition_def estimateFeeAndNonce_def createMultiSigSpendingCondition_def
  createSingleSigSpendingCondition_def networkFrom_def new_StacksTransaction_def
  await_estimateFee_def await_getNonce_def await_getAbi_def validateWithAbiStep_def
  truthyFlag_def truthyString_def truthyNetwork_def requiresCompressedKeys_def
  createStandardAuth_def createSponsoredAuth_def setFee_def setNonce_def withFee_def withNonce_def
  STACKS_MAINNET_def STACKS_TESTNET_def publicKeyEncoding_def publicKeyIsCompressed_def
  emptyMessageSignature_def Let_def bindIO_def returnIO_def liftE_def callName_def
  mutatingSignAppendMultiSig_def signingOrder_def isSingleSig_def signOrigin_def appendOrigin_def
  setOrigin_def privateKeyEncoding_def PRIVATE_KEY_COMPRESSED_LENGTH_def isSignatureField_def
  hasSignerKey_def UnsignedMultiSigOptions.truncate_def


subsection \<open>The builders\<close>

text \<open>
  Claim C6. Each of the three transaction builders applies the defaults of section 4.5 to
  the options the caller left out: fee 0 and nonce 0 in the spending condition it builds
  (the envelope handed to the fee estimator carries them), the mainnet profile for the
  network, the anchor mode \<open>Any\<close>, the post-condition mode \<open>Deny\<close>, and a standard (not
  sponsored) authorization. It builds a single-sig condition when the options hold one
  public key and a multi-sig condition with the given threshold when they hold a key set.
  When it returns, it has asked for a fee estimate if and only if the caller gave no fee,
  and for the nonce if and only if the caller gave no nonce; and whether it returns or
  throws, it asks a collaborator only for what the caller left out.
\<close>

theorem builders_apply_defaults_and_estimate_conditionally:
  "(makeUnsignedSTXTokenTransfer c o1 = (log1, r1) \<longrightarrow>
      asksOnlyWhenOmitted o1 log1 \<and>
      (\<forall>tx. r1 = Inr tx \<longrightarrow> honoursDefaults c o1 None log1 tx)) \<and>
   (makeUnsignedContractDeploy c o2 = (log2, r2) \<longrightarrow>
      asksOnlyWhenOmitted o2 log2 \<and>
      (\<forall>tx. r2 = Inr tx \<longrightarrow> honoursDefaults c o2 (deploy_postConditionMode o2) log2 tx)) \<and>
   (makeUnsignedContractCall c o3 = (log3, r3) \<longrightarrow>
      asksOnlyWhenOmitted o3 log3 \<and>
      (\<forall>tx. r3 = Inr tx \<longrightarrow> honoursDefaults c o3 (call_postConditionMode o3) log3 tx))"
  using transfer_reaches [of c o1 log1 r1] deploy_reaches [of c o2 log2 r2]
    call_reaches [of c o3 log3 r3]
  by (auto dest: reachesTail_honours reachesTail_asks early_nonce(2))


theorem builders_apply_defaults_and_estimate_conditionally_witness:
  "(\<exists>log tx. makeUnsignedSTXTokenTransfer demo demo_transfer = (log, Inr tx) \<and>
       map callName log = [''estimateFee'', ''getNonce''] \<and>
       honoursDefaults demo demo_transfer None log tx) \<and>
   (\<exists>log tx. makeUnsignedContractDeploy demo demo_deploy = (log, Inr tx) \<and>
       map callName log = [''getNonce''] \<and>
       honoursDefaults demo demo_deploy (Some Allow) log tx) \<and>
   (\<exists>log tx. makeUnsignedContractCall demo demo_call = (log, Inr tx) \<and>
       map callName log = [''getAbi'', ''estimateFee''] \<and>
       honoursDefaults demo demo_call None log tx)"
proof -
  have "\<exists>log tx. makeUnsignedSTXTokenTransfer demo demo_transfer = (log, Inr tx) \<and>
       map callName log = [''estimateFee'', ''getNonce'']"
    by (simp add: demo_simps)
  then obtain log1 tx1 where 1: "makeUnsignedSTXTokenTransfer demo demo_transfer = (log1, Inr tx1)"
    "map callName log1 = [''estimateFee'', ''getNonce'']"
    by (elim exE conjE) (rule that, assumption+)
  have "\<exists>log tx. makeUnsignedContractDeploy demo demo_deploy = (log, Inr tx) \<and>
       map callName log = [''getNonce'']"
    by (simp add: demo_simps)
  then obtain log2 tx2 where 2: "makeUnsignedContractDeploy demo demo_deploy = (log2, Inr tx2)"
    "map callName log2 = [''getNonce'']"
    by (elim exE conjE) (rule that, assumption+)
  have "\<exists>log tx. makeUnsignedContractCall demo demo_call = (log, Inr tx) \<and>
       map callName log = [''getAbi'', ''estimateFee'']"
    by (simp add: demo_simps)
  then obtain log3 tx3 where 3: "makeUnsignedContractCall demo demo_call = (log3, Inr tx3)"
    "map callName log3 = [''getAbi'', ''estimateFee'']"
    by (elim exE conjE) (rule that, assumption+)
  have d: "deploy_postConditionMode demo_deploy = Some Allow"
    "call_postConditionMode demo_call = None"
    by (simp_all add: demo_deploy_def demo_call_def)
  from builders_apply_defaults_and_estimate_conditionally
    [of demo demo_transfer log1 "Inr tx1" demo_deploy log2 "Inr tx2" demo_call log3 "Inr tx3"]
    1 2 3 d
  show ?thesis by simp
qed


text \<open>
  Claim C7. Whenever \<^verbatim>\<open>makeUnsignedSTXTokenTransfer\<close> or \<^verbatim>\<open>makeSTXTokenTransfer\<close> returns a
  transaction, its list of post-conditions is empty, whatever the options and whatever the
  collaborators do.
\<close>

theorem token_transfer_has_no_post_conditions:
  "(makeUnsignedSTXTokenTransfer c opts = (log, Inr tx) \<longrightarrow> postConditions tx = []) \<and>
   (makeSTXTokenTransfer c opts' = (log', Inr tx') \<longrightarrow> postConditions tx' = [])"
proof (intro conjI impI)
  show u: "postConditions tx = []" if "makeUnsignedSTXTokenTransfer c opts = (log, Inr tx)"
    for opts log tx
    using transfer_reaches [OF that] by (auto dest: reachesTail_postConditions)
  assume a: "makeSTXTokenTransfer c opts' = (log', Inr tx')"
  show "postConditions tx' = []"
  proof (cases "signerOptions opts'")
    case (SenderKey k)
    with a obtain pk l t where
      "makeUnsignedSTXTokenTransfer c (transferWithSigner opts' (PublicKey pk)) = (l, Inr t)"
      "signOrigin c t k = Inr tx'"
      by (auto simp: makeSTXTokenTransfer_def bindIO_Inr_iff)
    with u signOrigin_frame show ?thesis by metis
  next
    case (SignedMultiSig ms)
    with a obtain l t where
      "makeUnsignedSTXTokenTransfer c (transferWithSigner opts'
          (UnsignedMultiSig (UnsignedMultiSigOptions.truncate ms))) = (l, Inr t)"
      "mutatingSignAppendMultiSig c t (publicKeys ms) (signerKeys ms) (address ms) = Inr tx'"
      by (auto simp: makeSTXTokenTransfer_def bindIO_Inr_iff)
    with u mutatingSignAppendMultiSig_frame show ?thesis by metis
  qed
qed

theorem token_transfer_has_no_post_conditions_witness:
  "(\<exists>log tx. makeUnsignedSTXTokenTransfer demo demo_transfer = (log, Inr tx) \<and>
       postConditions tx = []) \<and>
   (\<exists>log tx. makeSTXTokenTransfer demo demo_signed_transfer = (log, Inr tx) \<and>
       postConditions tx = [])"
proof -
  have "\<exists>log tx. makeUnsignedSTXTokenTransfer demo demo_transfer = (log, Inr tx)"
    by (simp add: demo_simps)
  then obtain log1 tx1 where 1: "makeUnsignedSTXTokenTransfer demo demo_transfer = (log1, Inr tx1)"
    by blast
  have "\<exists>log tx. makeSTXTokenTransfer demo demo_signed_transfer = (log, Inr tx)"
    by (simp add: demo_simps)
  then obtain log2 tx2 where 2: "makeSTXTokenTransfer demo demo_signed_transfer = (log2, Inr tx2)"
    by blast
  from token_transfer_has_no_post_conditions
    [of demo demo_transfer log1 tx1 demo_signed_transfer log2 tx2] 1 2
  show ?thesis by simp
qed




text \<open>
  Claim C10. In every unsigned builder, every address passed to the nonce lookup (which
  happens only when the caller gave no nonce) is the c32 address formed from the
  single-sig address version of the network and the signer hash of the spending condition
  the builder built; this is so also for multi-sig options, where that condition is
  multi-sig and its signer hash was derived under a multi-sig hash mode.
\<close>

theorem nonce_lookup_uses_single_sig_version:
  "(makeUnsignedSTXTokenTransfer c o1 = (log1, r1) \<longrightarrow> nonceLookupUsesSingleSigVersion c o1 log1) \<and>
   (makeUnsignedContractDeploy c o2 = (log2, r2) \<longrightarrow> nonceLookupUsesSingleSigVersion c o2 log2) \<and>
   (makeUnsignedContractCall c o3 = (log3, r3) \<longrightarrow> nonceLookupUsesSingleSigVersion c o3 log3)"
  using transfer_reaches [of c o1 log1 r1] deploy_reaches [of c o2 log2 r2]
    call_reaches [of c o3 log3 r3]
  by (auto dest: reachesTail_nonce early_nonce(1))


theorem nonce_lookup_uses_single_sig_version_witness:
  "(\<exists>log tx. makeUnsignedSTXTokenTransfer demo demo_transfer = (log, Inr tx) \<and>
       \<not> isSingleSig (spendingCondition (auth tx)) \<and>
       singleSig (addressVersion STACKS_MAINNET) = 22 \<and>
       GetNonce [char_of (22 :: nat), char_of (10 :: nat)] ''https://api.example'' \<in> set log \<and>
       nonceLookupUsesSingleSigVersion demo demo_transfer log) \<and>
   (\<exists>log tx. makeUnsignedContractDeploy demo demo_deploy = (log, Inr tx) \<and>
       GetNonce [char_of (26 :: nat), char_of (4 :: nat)] ''https://api.example'' \<in> set log \<and>
       nonceLookupUsesSingleSigVersion demo demo_deploy log) \<and>
   (\<exists>log tx. makeUnsignedContractCall demo demo_call = (log, Inr tx) \<and>
       nonceLookupUsesSingleSigVersion demo demo_call log)"
proof -
  have "\<exists>log tx. makeUnsignedSTXTokenTransfer demo demo_transfer = (log, Inr tx) \<and>
       \<not> isSingleSig (spendingCondition (auth tx)) \<and>
       singleSig (addressVersion STACKS_MAINNET) = 22 \<and>
       GetNonce [char_of (22 :: nat), char_of (10 :: nat)] ''https://api.example'' \<in> set log"
    by (simp add: demo_simps)
  then obtain log1 tx1 where 1: "makeUnsignedSTXTokenTransfer demo demo_transfer = (log1, Inr tx1)"
    "\<not> isSingleSig (spendingCondition (auth tx1))"
    "singleSig (addressVersion STACKS_MAINNET) = 22"
    "GetNonce [char_of (22 :: nat), char_of (10 :: nat)] ''https://api.example'' \<in> set log1" by blast
  have "\<exists>log tx. makeUnsignedContractDeploy demo demo_deploy = (log, Inr tx) \<and>
       GetNonce [char_of (26 :: nat), char_of (4 :: nat)] ''https://api.example'' \<in> set log"
    by (simp add: demo_simps)
  then obtain log2 tx2 where 2: "makeUnsignedContractDeploy demo demo_deploy = (log2, Inr tx2)"
    "GetNonce [char_of (26 :: nat), char_of (4 :: nat)] ''https://api.example'' \<in> set log2" by blast
  have "\<exists>log tx. makeUnsignedContractCall demo demo_call = (log, Inr tx)"
    by (simp add: demo_simps)
  then obtain log3 tx3 where 3: "makeUnsignedContractCall demo demo_call = (log3, Inr tx3)" by blast
  from nonce_lookup_uses_single_sig_version
    [of demo demo_transfer log1 "Inr tx1" demo_deploy log2 "Inr tx2" demo_call log3 "Inr tx3"]
    1 2 3
  show ?thesis by simp
qed

subsection \<open>Wire primitives\<close>

lemma length_uintBE [simp]: "length (uintBE k n) = k"
  by (induction k) simp_all

lemma foldl_uintBE:
  "foldl (\<lambda>a b. 256 * a + unat (b :: byte)) a (uintBE k n) = a * 256 ^ k + n mod 256 ^ k"
proof (induction k arbitrary: a)
  case 0
  then show ?case by simp
next
  case (Suc k)
  let ?F = "\<lambda>a b. 256 * a + unat (b :: byte)"
  have 1: "unat (of_nat (n div 256 ^ k) :: byte) = (n div 256 ^ k) mod 256"
    by (simp add: unat_of_nat)
  have 2: "n mod 256 ^ Suc k = 256 ^ k * ((n div 256 ^ k) mod 256) + n mod 256 ^ k"
    using mod_mult2_eq [of n "256 ^ k" 256] by (simp only: power_Suc2)
  have "foldl ?F a (uintBE (Suc k) n)
      = foldl ?F (256 * a + unat (of_nat (n div 256 ^ k) :: byte)) (uintBE k n)"
    by simp
  also have "\<dots> = (256 * a + (n div 256 ^ k) mod 256) * 256 ^ k + n mod 256 ^ k"
    by (simp only: Suc.IH 1)
  also have "\<dots> = a * 256 ^ Suc k + n mod 256 ^ Suc k"
    by (simp only: 2) (simp add: algebra_simps)
  finally show ?case .
qed

lemma uintOfBytes_uintBE: "n < 256 ^ k \<Longrightarrow> uintOfBytes (uintBE k n) = n"
  by (simp add: uintOfBytes_def foldl_uintBE)

lemma readBytes_append [simp]:
  "length bs = n \<Longrightarrow>
     readBytes n \<lparr>remaining = bs @ rest, consumed = k\<rparr>
       = Inr (bs, \<lparr>remaining = rest, consumed = k + n\<rparr>)"
  by (simp add: readBytes_def)

lemma readUInt8_cons [simp]:
  "readUInt8 \<lparr>remaining = b # rest, consumed = k\<rparr>
     = Inr (b, \<lparr>remaining = rest, consumed = k + 1\<rparr>)"
  by (simp add: readUInt8_def)

lemma readUIntBE_append [simp]:
  "n < 256 ^ w \<Longrightarrow>
     readUIntBE w \<lparr>remaining = uintBE w n @ rest, consumed = k\<rparr>
       = Inr (n, \<lparr>remaining = rest, consumed = k + w\<rparr>)"
  by (simp add: readUIntBE_def uintOfBytes_uintBE)

lemma readTag_cons:
  "ofTag b = Some x \<Longrightarrow>
     readTag ofTag \<lparr>remaining = b # rest, consumed = k\<rparr>
       = Inr (x, \<lparr>remaining = rest, consumed = k + 1\<rparr>)"
  by (simp add: readTag_def)

lemma length_serializeLPBytes [simp]: "length (serializeLPBytes w bs) = w + length bs"
  by (simp add: serializeLPBytes_def)

lemma deserializeLPBytes_append [simp]:
  "length bs < 256 ^ w \<Longrightarrow>
     deserializeLPBytes w \<lparr>remaining = serializeLPBytes w bs @ rest, consumed = k\<rparr>
       = Inr (bs, \<lparr>remaining = rest, consumed = k + length (serializeLPBytes w bs)\<rparr>)"
  by (simp add: deserializeLPBytes_def serializeLPBytes_def add.assoc)

lemma readMany_concat:
  assumes "\<And>x rest k. x \<in> set xs \<Longrightarrow>
             d \<lparr>remaining = f x @ rest, consumed = k\<rparr>
               = Inr (x, \<lparr>remaining = rest, consumed = k + length (f x)\<rparr>)"
  shows "readMany d (length xs) \<lparr>remaining = concat (map f xs) @ rest, consumed = k\<rparr>
           = Inr (xs, \<lparr>remaining = rest, consumed = k + length (concat (map f xs))\<rparr>)"
  using assms
proof (induction xs arbitrary: k)
  case Nil
  then show ?case by simp
next
  case (Cons x xs)
  then show ?case by (simp add: add.assoc)
qed

lemma deserializeLPList_append:
  assumes "\<And>x rest k. x \<in> set xs \<Longrightarrow>
             d \<lparr>remaining = f x @ rest, consumed = k\<rparr>
               = Inr (x, \<lparr>remaining = rest, consumed = k + length (f x)\<rparr>)"
    and "length xs < 2 ^ 32"
  shows "deserializeLPList d \<lparr>remaining = serializeLPList f xs @ rest, consumed = k\<rparr>
           = Inr (xs, \<lparr>remaining = rest, consumed = k + length (serializeLPList f xs)\<rparr>)"
  using assms(2)
  by (simp add: deserializeLPList_def serializeLPList_def readMany_concat [OF assms(1)] add.assoc)

lemma readClarityValue_append:
  "validClarityValue cvLen v \<Longrightarrow>
     readClarityValue cvLen \<lparr>remaining = v @ rest, consumed = k\<rparr>
       = Inr (v, \<lparr>remaining = rest, consumed = k + length v\<rparr>)"
  by (simp add: readClarityValue_def validClarityValue_def)

text \<open>tags\<close>

lemma tag_round_trips [simp]:
  "versionOfTag (versionTag v) = Some v"
  "hashModeOfTag (hashModeTag m) = Some m"
  "keyEncodingOfTag (keyEncodingTag e) = Some e"
  "anchorModeOfTag (anchorModeTag a) = Some a"
  "postConditionModeOfTag (postConditionModeTag pm) = Some pm"
  "clarityVersionOfTag (clarityVersionTag cv) = Some cv"
  "fungibleCodeOfTag (fungibleCodeTag fc) = Some fc"
  "nonFungibleCodeOfTag (nonFungibleCodeTag nc) = Some nc"
  by (cases v, simp_all add: versionOfTag_def versionTag_def,
      cases m, simp_all add: hashModeOfTag_def hashModeTag_def,
      cases e, simp_all add: keyEncodingOfTag_def keyEncodingTag_def,
      cases a, simp_all add: anchorModeOfTag_def anchorModeTag_def,
      cases pm, simp_all add: postConditionModeOfTag_def postConditionModeTag_def,
      cases cv, simp_all add: clarityVersionOfTag_def clarityVersionTag_def,
      cases fc, simp_all add: fungibleCodeOfTag_def fungibleCodeTag_def,
      cases nc, simp_all add: nonFungibleCodeOfTag_def nonFungibleCodeTag_def)

subsection \<open>The parts of an envelope\<close>

text \<open>
  Each decoder, on the bytes its encoder wrote for a valid value and followed by anything,
  gives the value back and stops where the value ends.
\<close>

lemma deserializeAuthField_append:
  "validAuthField f \<Longrightarrow>
     deserializeAuthField \<lparr>remaining = serializeAuthField f @ rest, consumed = k\<rparr>
       = Inr (f, \<lparr>remaining = rest, consumed = k + length (serializeAuthField f)\<rparr>)"
  by (cases f; rename_tac e bs; case_tac e)
     (simp_all add: validAuthField_def deserializeAuthField_def serializeAuthField_def)

lemma deserializeSpendingCondition_append:
  assumes "validSpendingCondition sc"
  shows "deserializeSpendingCondition \<lparr>remaining = serializeSpendingCondition sc @ rest, consumed = k\<rparr>
       = Inr (sc, \<lparr>remaining = rest, consumed = k + length (serializeSpendingCondition sc)\<rparr>)"
proof (cases sc)
  case (SingleSigSpendingCondition m s n f e sig)
  with assms show ?thesis
    by (simp add: validSpendingCondition_def wellSized_def deserializeSpendingCondition_def
        serializeSpendingCondition_def readTag_cons)
next
  case (MultiSigSpendingCondition m s n f fs req)
  with assms have v: "\<not> isSingleSigHashMode m" "length s = 20" "n < 2 ^ 64" "f < 2 ^ 64"
    "list_all validAuthField fs" "length fs < 2 ^ 32" "req < 2 ^ 16"
    "\<not> (haveUncompressed fs \<and> requiresCompressedKeys m)"
    by (simp_all add: validSpendingCondition_def wellSized_def compressionRule_def)
  have l: "\<And>rest k. deserializeLPList deserializeAuthField
             \<lparr>remaining = serializeLPList serializeAuthField fs @ rest, consumed = k\<rparr>
           = Inr (fs, \<lparr>remaining = rest,
                consumed = k + length (serializeLPList serializeAuthField fs)\<rparr>)"
    using v(5,6) by (intro deserializeLPList_append deserializeAuthField_append)
      (simp_all add: list_all_iff)
  show ?thesis
    using v(1-4,7,8) unfolding MultiSigSpendingCondition
    by (simp add: deserializeSpendingCondition_def serializeSpendingCondition_def readTag_cons l)
qed

lemma deserializeAuthorization_append:
  assumes "validAuthorization a"
  shows "deserializeAuthorization \<lparr>remaining = serializeAuthorization a @ rest, consumed = k\<rparr>
       = Inr (a, \<lparr>remaining = rest, consumed = k + length (serializeAuthorization a)\<rparr>)"
  using assms
  by (cases a)
     (simp_all add: validAuthorization_def deserializeAuthorization_def serializeAuthorization_def
        authTypeTag_def deserializeSpendingCondition_append add.assoc)

lemma deserializePrincipalCV_append:
  "validPrincipalCV p \<Longrightarrow>
     deserializePrincipalCV \<lparr>remaining = serializePrincipalCV p @ rest, consumed = k\<rparr>
       = Inr (p, \<lparr>remaining = rest, consumed = k + length (serializePrincipalCV p)\<rparr>)"
  by (cases p)
     (simp_all add: validPrincipalCV_def deserializePrincipalCV_def serializePrincipalCV_def)

lemma length_serializeMemo: "length m \<le> 34 \<Longrightarrow> length (serializeMemo m) = 34"
  by (simp add: serializeMemo_def)

lemma strip_padding:
  "m = [] \<or> last m \<noteq> 0 \<Longrightarrow> rev (dropWhile (\<lambda>b. b = 0) (replicate n (0 :: byte) @ rev m)) = m"
proof -
  assume a: "m = [] \<or> last m \<noteq> 0"
  have "dropWhile (\<lambda>b. b = 0) (replicate n (0 :: byte) @ rev m) = dropWhile (\<lambda>b. b = 0) (rev m)"
    by (rule dropWhile_append2) simp
  moreover have "dropWhile (\<lambda>b. b = 0) (rev m) = rev m"
    using a by (cases "rev m") (auto simp: last_rev [symmetric] hd_rev)
  ultimately show ?thesis by simp
qed

lemma deserializeMemo_append:
  "validMemo m \<Longrightarrow>
     deserializeMemo \<lparr>remaining = serializeMemo m @ rest, consumed = k\<rparr>
       = Inr (m, \<lparr>remaining = rest, consumed = k + length (serializeMemo m)\<rparr>)"
  by (simp add: validMemo_def deserializeMemo_def length_serializeMemo)
     (simp add: serializeMemo_def strip_padding)

lemma deserializePayload_append:
  assumes "validPayload cvLen p"
  shows "deserializePayload cvLen \<lparr>remaining = serializePayload p @ rest, consumed = k\<rparr>
       = Inr (p, \<lparr>remaining = rest, consumed = k + length (serializePayload p)\<rparr>)"
proof (cases p)
  case (TokenTransferPayload recipient amount memo)
  with assms show ?thesis
    by (simp add: validPayload_def deserializePayload_def serializePayload_def
        deserializePrincipalCV_append deserializeMemo_append add.assoc)
next
  case (SmartContractPayload name code cv)
  with assms show ?thesis
    by (cases cv)
       (simp_all add: validPayload_def deserializePayload_def serializePayload_def readTag_cons
          add.assoc)
next
  case (ContractCallPayload v h name fn args)
  with assms have a: "list_all (validClarityValue cvLen) args" "length args < 2 ^ 32"
    by (simp_all add: validPayload_def)
  have l: "\<And>rest k. deserializeLPList (readClarityValue cvLen)
             \<lparr>remaining = serializeLPList (\<lambda>a. a) args @ rest, consumed = k\<rparr>
           = Inr (args, \<lparr>remaining = rest,
                consumed = k + length (serializeLPList (\<lambda>a. a) args)\<rparr>)"
    using a by (intro deserializeLPList_append readClarityValue_append)
      (simp_all add: list_all_iff)
  from assms show ?thesis unfolding ContractCallPayload
    by (simp add: validPayload_def deserializePayload_def serializePayload_def l add.assoc)
next
  case (CoinbasePayload bs)
  with assms show ?thesis
    by (simp add: validPayload_def deserializePayload_def serializePayload_def)
next
  case (CoinbasePayloadToAltRecipient bs recipient)
  with assms show ?thesis
    by (simp add: validPayload_def deserializePayload_def serializePayload_def
        deserializePrincipalCV_append add.assoc)
qed

lemma deserializePostConditionPrincipal_append:
  "validPostConditionPrincipal p \<Longrightarrow>
     deserializePostConditionPrincipal
       \<lparr>remaining = serializePostConditionPrincipal p @ rest, consumed = k\<rparr>
       = Inr (p, \<lparr>remaining = rest, consumed = k + length (serializePostConditionPrincipal p)\<rparr>)"
  by (cases p)
     (simp_all add: validPostConditionPrincipal_def deserializePostConditionPrincipal_def
        serializePostConditionPrincipal_def)

lemma deserializeAssetInfo_append:
  "validAssetInfo a \<Longrightarrow>
     deserializeAssetInfo \<lparr>remaining = serializeAssetInfo a @ rest, consumed = k\<rparr>
       = Inr (a, \<lparr>remaining = rest, consumed = k + length (serializeAssetInfo a)\<rparr>)"
  by (simp add: validAssetInfo_def deserializeAssetInfo_def serializeAssetInfo_def add.assoc)

lemma deserializePostCondition_append:
  assumes "validPostCondition cvLen pc"
  shows "deserializePostCondition cvLen \<lparr>remaining = serializePostCondition pc @ rest, consumed = k\<rparr>
       = Inr (pc, \<lparr>remaining = rest, consumed = k + length (serializePostCondition pc)\<rparr>)"
  using assms
  by (cases pc)
     (simp_all add: validPostCondition_def deserializePostCondition_def serializePostCondition_def
        deserializePostConditionPrincipal_append deserializeAssetInfo_append readTag_cons
        readClarityValue_append add.assoc)

lemma deserializeFromReader_append:
  assumes "validTransaction cvLen tx"
  shows "deserializeFromReader cvLen \<lparr>remaining = serializeBytes tx @ rest, consumed = k\<rparr>
       = Inr (tx, \<lparr>remaining = rest, consumed = k + length (serializeBytes tx)\<rparr>)"
proof -
  from assms have v: "chainId tx < 2 ^ 32" "validAuthorization (auth tx)"
    "list_all (validPostCondition cvLen) (postConditions tx)"
    "length (postConditions tx) < 2 ^ 32" "validPayload cvLen (payload tx)"
    by (simp_all add: validTransaction_def)
  have l: "\<And>rest k. deserializeLPList (deserializePostCondition cvLen)
             \<lparr>remaining = serializeLPList serializePostCondition (postConditions tx) @ rest,
                consumed = k\<rparr>
           = Inr (postConditions tx, \<lparr>remaining = rest,
                consumed = k + length (serializeLPList serializePostCondition (postConditions tx))\<rparr>)"
    using v(3,4) by (intro deserializeLPList_append deserializePostCondition_append)
      (simp_all add: list_all_iff)
  show ?thesis
    using v(1,2,5)
    by (simp add: deserializeFromReader_def serializeBytes_def readTag_cons l
        deserializeAuthorization_append deserializePayload_append add.assoc)
qed

subsection \<open>What a decoder has read\<close>






























subsection \<open>Hexadecimal text\<close>

lemma hexValue_hexDigit: "n < 16 \<Longrightarrow> hexValue (hexDigit n) = Some n"
proof -
  have "\<forall>n<16. hexValue (hexDigit n) = Some n"
    by (simp add: hexValue_def hexDigit_def eval_nat_numeral All_less_Suc)
  then show "n < 16 \<Longrightarrow> hexValue (hexDigit n) = Some n" by blast
qed

lemma hexDigit_not_x: "n < 16 \<Longrightarrow> hexDigit n \<noteq> CHR ''x''"
proof
  assume "n < 16" "hexDigit n = CHR ''x''"
  then have "hexValue (CHR ''x'') = Some n" using hexValue_hexDigit [of n] by simp
  then show False by (simp add: hexValue_def)
qed

lemma nibbles:
  fixes b :: byte
  shows "unat b div 16 < 16" "unat b mod 16 < 16"
    "of_nat (16 * (unat b div 16) + unat b mod 16) = b"
proof -
  have "unat b < 2 ^ LENGTH(8)" by (rule unsigned_less)
  then have "unat b < 256" by simp
  then show "unat b div 16 < 16" by arith
  show "unat b mod 16 < 16" by simp
  show "of_nat (16 * (unat b div 16) + unat b mod 16) = b" by simp
qed

lemma parseHex_bytesToHex: "parseHex (bytesToHex bs) = Some bs"
  by (induction bs) (simp_all add: bytesToHex_def hexValue_hexDigit nibbles)

lemma without0x_bytesToHex: "without0x (bytesToHex bs) = bytesToHex bs"
  by (cases bs) (simp_all add: without0x_def bytesToHex_def hexDigit_not_x nibbles)

lemma without0x_prefixed: "without0x (''0x'' @ s) = s"
  by (simp add: without0x_def)

lemma hexToBytes_bytesToHex:
  "hexToBytes (bytesToHex bs) = Inr bs" "hexToBytes (''0x'' @ bytesToHex bs) = Inr bs"
  by (simp_all only: hexToBytes_def without0x_bytesToHex without0x_prefixed parseHex_bytesToHex
      option.case)

lemma deserializeFromReader_whole:
  assumes "validTransaction cvLen tx"
  shows "deserializeFromReader cvLen \<lparr>remaining = serializeBytes tx, consumed = 0\<rparr>
           = Inr (tx, \<lparr>remaining = [], consumed = length (serializeBytes tx)\<rparr>)"
  using deserializeFromReader_append [OF assms, of "[]" 0] by simp

subsection \<open>The byte string of a test\<close>




lemmas valid_simps = validTransaction_def validAuthorization_def validSpendingCondition_def
  wellSized_def compressionRule_def validPayload_def validPrincipalCV_def validMemo_def
  validPostCondition_def validPostConditionPrincipal_def validAuthField_def
  isSingleSigHashMode_def requiresCompressedKeys_def haveUncompressed_def fieldEncoding_def

subsection \<open>The round trip\<close>



subsection \<open>Setting the fee\<close>

lemma withFee_valid:
  "validSpendingCondition sc \<Longrightarrow> newFee < 2 ^ 64 \<Longrightarrow> validSpendingCondition (withFee newFee sc)"
  by (cases sc)
     (simp_all add: validSpendingCondition_def wellSized_def compressionRule_def withFee_def)

lemma setFee_valid:
  "validTransaction cvLen tx \<Longrightarrow> newFee < 2 ^ 64 \<Longrightarrow> validTransaction cvLen (setFee tx newFee)"
  by (cases "auth tx")
     (simp_all add: validTransaction_def validAuthorization_def setFee_def withFee_valid)

lemma withFee_fee: "fee (withFee newFee sc) = newFee"
  by (cases sc) (simp_all add: withFee_def)

lemma withFee_restore: "withFee (fee sc) (withFee newFee sc) = sc"
  by (cases sc) (simp_all add: withFee_def)

lemma withFee_others:
  "hashMode (withFee newFee sc) = hashMode sc" "nonce (withFee newFee sc) = nonce sc"
  "signer (withFee newFee sc) = signer sc" "withFee 0 (withFee newFee sc) = withFee 0 sc"
  by (cases sc, simp_all add: withFee_def)+

text \<open>
  Claim C5. For a structurally valid envelope (a fully built, signed transaction is one)
  and a fee that fits eight bytes, such as 123, \<^verbatim>\<open>setFee\<close> followed by serializing and
  deserializing gives an envelope whose fee-paying condition has the new fee; version,
  chain id, authorization type, hash mode, nonce, anchor mode, post-condition mode,
  post-conditions and payload (recipient and amount) are those of before; the conditions
  are those of before but for the fee, signatures included, so that setting the old fee
  again gives the envelope of before.
\<close>

theorem setFee_changes_the_fee_only:
  assumes "validTransaction cvLen tx" and "newFee < 2 ^ 64"
  shows "\<exists>tx'. deserializeTransaction cvLen (FromBytes (serializeBytes (setFee tx newFee))) = Inr tx' \<and>
           fee (feeCondition (auth tx')) = newFee \<and>
           version tx' = version tx \<and> chainId tx' = chainId tx \<and>
           authType (auth tx') = authType (auth tx) \<and>
           hashMode (spendingCondition (auth tx')) = hashMode (spendingCondition (auth tx)) \<and>
           nonce (spendingCondition (auth tx')) = nonce (spendingCondition (auth tx)) \<and>
           anchorMode tx' = anchorMode tx \<and> postConditionMode tx' = postConditionMode tx \<and>
           postConditions tx' = postConditions tx \<and> payload tx' = payload tx \<and>
           withFee 0 (spendingCondition (auth tx')) = withFee 0 (spendingCondition (auth tx)) \<and>
           withFee 0 (feeCondition (auth tx')) = withFee 0 (feeCondition (auth tx)) \<and>
           setFee tx' (fee (feeCondition (auth tx))) = tx"
proof -
  have v: "validTransaction cvLen (setFee tx newFee)" using assms by (rule setFee_valid)
  have d: "deserializeTransaction cvLen (FromBytes (serializeBytes (setFee tx newFee)))
             = Inr (setFee tx newFee)"
    by (simp add: deserializeTransaction_def deserializeFromReader_whole [OF v])
  have f: "fee (feeCondition (auth (setFee tx newFee))) = newFee"
    by (cases "auth tx") (simp_all add: setFee_def feeCondition_def withFee_fee)
  have o: "hashMode (spendingCondition (auth (setFee tx newFee))) = hashMode (spendingCondition (auth tx))"
    "nonce (spendingCondition (auth (setFee tx newFee))) = nonce (spendingCondition (auth tx))"
    "authType (auth (setFee tx newFee)) = authType (auth tx)"
    "withFee 0 (spendingCondition (auth (setFee tx newFee))) = withFee 0 (spendingCondition (auth tx))"
    "withFee 0 (feeCondition (auth (setFee tx newFee))) = withFee 0 (feeCondition (auth tx))"
    by (cases "auth tx", simp_all add: setFee_def feeCondition_def authType_def withFee_others)+
  have r: "setFee (setFee tx newFee) (fee (feeCondition (auth tx))) = tx"
    by (cases "auth tx") (simp_all add: setFee_def feeCondition_def withFee_restore)
  have s: "version (setFee tx newFee) = version tx" "chainId (setFee tx newFee) = chainId tx"
    "anchorMode (setFee tx newFee) = anchorMode tx"
    "postConditionMode (setFee tx newFee) = postConditionMode tx"
    "postConditions (setFee tx newFee) = postConditions tx"
    "payload (setFee tx newFee) = payload tx"
    by (simp_all add: setFee_def)
  show ?thesis
    by (rule exI [of _ "setFee tx newFee"]) (simp only: d f o r s simp_thms)
qed

theorem setFee_changes_the_fee_only_witness:
  "\<exists>tx'. deserializeTransaction (cvLength demo)
            (FromBytes (serializeBytes (setFee demo_signed_tx 123))) = Inr tx' \<and>
         fee (feeCondition (auth tx')) = 123 \<and>
         version tx' = version demo_signed_tx \<and> chainId tx' = chainId demo_signed_tx \<and>
         authType (auth tx') = authType (auth demo_signed_tx) \<and>
         hashMode (spendingCondition (auth tx'))
           = hashMode (spendingCondition (auth demo_signed_tx)) \<and>
         nonce (spendingCondition (auth tx')) = nonce (spendingCondition (auth demo_signed_tx)) \<and>
         anchorMode tx' = anchorMode demo_signed_tx \<and>
         postConditionMode tx' = postConditionMode demo_signed_tx \<and>
         postConditions tx' = postConditions demo_signed_tx \<and>
         payload tx' = payload demo_signed_tx \<and>
         withFee 0 (spendingCondition (auth tx'))
           = withFee 0 (spendingCondition (auth demo_signed_tx)) \<and>
         withFee 0 (feeCondition (auth tx')) = withFee 0 (feeCondition (auth demo_signed_tx)) \<and>
         setFee tx' (fee (feeCondition (auth demo_signed_tx))) = demo_signed_tx"
proof (rule setFee_changes_the_fee_only)
  show "validTransaction (cvLength demo) demo_signed_tx"
    by (simp add: demo_signed_tx_def valid_simps)
  show "(123 :: nat) < 2 ^ 64" by simp
qed

subsection \<open>The order of the authorization fields\<close>

lemma setOrigin_valid:
  "validTransaction cvLen tx \<Longrightarrow> validSpendingCondition sc \<Longrightarrow>
     validTransaction cvLen (setOrigin tx sc)"
  by (cases "auth tx") (simp_all add: validTransaction_def validAuthorization_def setOrigin_def)

lemma origin_valid:
  "validTransaction cvLen tx \<Longrightarrow> validSpendingCondition (spendingCondition (auth tx))"
  by (cases "auth tx") (simp_all add: validTransaction_def validAuthorization_def)

text \<open>
  Claim C3. On a valid envelope whose origin is a multi-sig condition requiring 2
  signatures and holding no field yet, \<^verbatim>\<open>signOrigin\<close> with key A, \<^verbatim>\<open>signOrigin\<close> with key B
  and \<^verbatim>\<open>appendOrigin\<close> with the public key C succeed when the two keys sign with 65-byte
  signatures, C has the size of a key and the keys respect the compression rule of the
  hash mode; serializing and deserializing the result gives exactly three fields, in that
  order: the signature of A over the envelope without fields, the signature of B over the
  envelope with the first field, the key C; their kinds read signature, signature, public
  key.
\<close>

theorem sign_sign_append_decodes_in_order:
  assumes v: "validTransaction (cvLength c) tx0"
    and sc: "spendingCondition (auth tx0) = MultiSigSpendingCondition m s n f [] 2"
    and a: "\<forall>h. \<exists>sig. signWithKey c keyA h = Inr sig \<and> length sig = 65"
    and b: "\<forall>h. \<exists>sig. signWithKey c keyB h = Inr sig \<and> length sig = 65"
    and k: "length pubC = 33 \<or> length pubC = 65"
    and r: "requiresCompressedKeys m \<longrightarrow>
              privateKeyEncoding keyA = Compressed \<and> privateKeyEncoding keyB = Compressed \<and>
              publicKeyIsCompressed pubC"
  shows "\<exists>tx1 tx2 tx3 tx' sigA sigB.
           signOrigin c tx0 keyA = Inr tx1 \<and> signOrigin c tx1 keyB = Inr tx2 \<and>
           appendOrigin tx2 pubC = Inr tx3 \<and>
           signWithKey c keyA (sigHashOf c (serializeBytes tx0)) = Inr sigA \<and>
           signWithKey c keyB (sigHashOf c (serializeBytes tx1)) = Inr sigB \<and>
           deserializeTransaction (cvLength c) (FromBytes (serializeBytes tx3)) = Inr tx' \<and>
           SpendingCondition.fields (spendingCondition (auth tx')) =
             [MessageSignatureField (privateKeyEncoding keyA) sigA,
              MessageSignatureField (privateKeyEncoding keyB) sigB,
              PublicKeyField (publicKeyEncoding pubC) pubC] \<and>
           map isSignatureField (SpendingCondition.fields (spendingCondition (auth tx'))) =
             [True, True, False] \<and>
           signaturesRequired (spendingCondition (auth tx')) = 2"
proof -
  from a obtain sigA where
    sa: "signWithKey c keyA (sigHashOf c (serializeBytes tx0)) = Inr sigA" "length sigA = 65"
    by blast
  define fA where "fA = MessageSignatureField (privateKeyEncoding keyA) sigA"
  define tx1 where "tx1 = setOrigin tx0 (MultiSigSpendingCondition m s n f [fA] 2)"
  have s1: "signOrigin c tx0 keyA = Inr tx1"
    by (simp add: signOrigin_def sa sc tx1_def fA_def)
  have sc1: "spendingCondition (auth tx1) = MultiSigSpendingCondition m s n f [fA] 2"
    by (simp add: tx1_def)
  from b obtain sigB where
    sb: "signWithKey c keyB (sigHashOf c (serializeBytes tx1)) = Inr sigB" "length sigB = 65"
    by blast
  define fB where "fB = MessageSignatureField (privateKeyEncoding keyB) sigB"
  define tx2 where "tx2 = setOrigin tx1 (MultiSigSpendingCondition m s n f [fA, fB] 2)"
  have s2: "signOrigin c tx1 keyB = Inr tx2"
    by (simp add: signOrigin_def sb sc1 tx2_def fB_def)
  have sc2: "spendingCondition (auth tx2) = MultiSigSpendingCondition m s n f [fA, fB] 2"
    by (simp add: tx2_def)
  define fC where "fC = PublicKeyField (publicKeyEncoding pubC) pubC"
  define tx3 where "tx3 = setOrigin tx2 (MultiSigSpendingCondition m s n f [fA, fB, fC] 2)"
  have s3: "appendOrigin tx2 pubC = Inr tx3"
    by (simp add: appendOrigin_def sc2 tx3_def fC_def)
  have sc3: "spendingCondition (auth tx3) = MultiSigSpendingCondition m s n f [fA, fB, fC] 2"
    by (simp add: tx3_def)
  have w0: "wellSized (MultiSigSpendingCondition m s n f [] 2)"
    using origin_valid [OF v] by (simp add: sc validSpendingCondition_def)
  have vf: "validAuthField fA" "validAuthField fB" "validAuthField fC"
    using sa(2) sb(2) k
    by (auto simp: validAuthField_def fA_def fB_def fC_def publicKeyEncoding_def
        publicKeyIsCompressed_def)
  have enc: "fieldEncoding fA = privateKeyEncoding keyA" "fieldEncoding fB = privateKeyEncoding keyB"
    "fieldEncoding fC = publicKeyEncoding pubC"
    by (simp_all add: fieldEncoding_def fA_def fB_def fC_def)
  have cr: "\<not> (haveUncompressed [fA, fB, fC] \<and> requiresCompressedKeys m)"
    using r by (auto simp: haveUncompressed_def enc publicKeyEncoding_def)
  have "wellSized (MultiSigSpendingCondition m s n f [fA] 2)"
    "wellSized (MultiSigSpendingCondition m s n f [fA, fB] 2)"
    "wellSized (MultiSigSpendingCondition m s n f [fA, fB, fC] 2)"
    using w0 vf by (simp_all add: wellSized_def)
  moreover have "compressionRule (MultiSigSpendingCondition m s n f [fA] 2)"
    "compressionRule (MultiSigSpendingCondition m s n f [fA, fB] 2)"
    "compressionRule (MultiSigSpendingCondition m s n f [fA, fB, fC] 2)"
    using cr by (auto simp: compressionRule_def haveUncompressed_def)
  ultimately have v3: "validTransaction (cvLength c) tx3"
    unfolding tx3_def tx2_def tx1_def
    by (intro setOrigin_valid v) (simp_all add: validSpendingCondition_def)
  have d: "deserializeTransaction (cvLength c) (FromBytes (serializeBytes tx3)) = Inr tx3"
    by (simp add: deserializeTransaction_def deserializeFromReader_whole [OF v3])
  have fs: "SpendingCondition.fields (spendingCondition (auth tx3)) =
              [MessageSignatureField (privateKeyEncoding keyA) sigA,
               MessageSignatureField (privateKeyEncoding keyB) sigB,
               PublicKeyField (publicKeyEncoding pubC) pubC]"
    by (simp add: sc3 fA_def fB_def fC_def)
  have tags: "map isSignatureField (SpendingCondition.fields (spendingCondition (auth tx3))) =
                [True, True, False]"
    by (simp add: fs isSignatureField_def)
  have req: "signaturesRequired (spendingCondition (auth tx3)) = 2" by (simp add: sc3)
  show ?thesis
    apply (rule exI [of _ tx1], rule exI [of _ tx2], rule exI [of _ tx3], rule exI [of _ tx3])
    apply (rule exI [of _ sigA], rule exI [of _ sigB])
    apply (intro conjI s1 s2 s3 sa(1) sb(1) d fs tags req)
    done
qed

theorem sign_sign_append_decodes_in_order_witness:
  "\<exists>tx1 tx2 tx3 tx' sigA sigB.
     signOrigin demo demo_envelope
       ''6d430bb91222408e7706c9001cfaeb91b08c2be6d5ac95779ab52c6b431950e001'' = Inr tx1 \<and>
     signOrigin demo tx1
       ''2a584d899fed1d24e26b524f202763c8ab30260167429f157f1c119f550fa6af01'' = Inr tx2 \<and>
     appendOrigin tx2 (replicate 33 3) = Inr tx3 \<and>
     signWithKey demo ''6d430bb91222408e7706c9001cfaeb91b08c2be6d5ac95779ab52c6b431950e001''
       (sigHashOf demo (serializeBytes demo_envelope)) = Inr sigA \<and>
     signWithKey demo ''2a584d899fed1d24e26b524f202763c8ab30260167429f157f1c119f550fa6af01''
       (sigHashOf demo (serializeBytes tx1)) = Inr sigB \<and>
     deserializeTransaction (cvLength demo) (FromBytes (serializeBytes tx3)) = Inr tx' \<and>
     SpendingCondition.fields (spendingCondition (auth tx')) =
       [MessageSignatureField
          (privateKeyEncoding
             ''6d430bb91222408e7706c9001cfaeb91b08c2be6d5ac95779ab52c6b431950e001'') sigA,
        MessageSignatureField
          (privateKeyEncoding
             ''2a584d899fed1d24e26b524f202763c8ab30260167429f157f1c119f550fa6af01'') sigB,
        PublicKeyField (publicKeyEncoding (replicate 33 3)) (replicate 33 3)] \<and>
     map isSignatureField (SpendingCondition.fields (spendingCondition (auth tx'))) =
       [True, True, False] \<and>
     signaturesRequired (spendingCondition (auth tx')) = 2"
proof (rule sign_sign_append_decodes_in_order)
  show "validTransaction (cvLength demo) demo_envelope"
    by (simp add: demo_envelope_def valid_simps)
  show "spendingCondition (auth demo_envelope)
          = MultiSigSpendingCondition SerializeP2SH (replicate 20 17) 0 0 [] 2"
    by (simp add: demo_envelope_def)
  show "\<forall>h. \<exists>sig. signWithKey demo
          ''6d430bb91222408e7706c9001cfaeb91b08c2be6d5ac95779ab52c6b431950e001'' h = Inr sig \<and>
          length sig = 65"
    by (simp add: demo_def)
  show "\<forall>h. \<exists>sig. signWithKey demo
          ''2a584d899fed1d24e26b524f202763c8ab30260167429f157f1c119f550fa6af01'' h = Inr sig \<and>
          length sig = 65"
    by (simp add: demo_def)
  show "length (replicate 33 (3 :: byte)) = 33 \<or> length (replicate 33 (3 :: byte)) = 65"
    by simp
  show "requiresCompressedKeys SerializeP2SH \<longrightarrow>
          privateKeyEncoding
            ''6d430bb91222408e7706c9001cfaeb91b08c2be6d5ac95779ab52c6b431950e001'' = Compressed \<and>
          privateKeyEncoding
            ''2a584d899fed1d24e26b524f202763c8ab30260167429f157f1c119f550fa6af01'' = Compressed \<and>
          publicKeyIsCompressed (replicate 33 3)"
    by (simp add: requiresCompressedKeys_def)
qed

subsection \<open>Uncompressed keys and segwit hash modes\<close>

lemma recoverKeys_uncompressed:
  "requiresCompressedKeys m \<Longrightarrow> haveUncompressed fs \<Longrightarrow> recoverable c pre before fs \<Longrightarrow>
     recoverKeys c m pre before fs = Inl (UncompressedKeyNotAllowedError uncompressedNotAllowed)"
proof (induction fs arbitrary: before)
  case Nil
  then show ?case by (simp add: haveUncompressed_def)
next
  case (Cons x fs)
  show ?case
  proof (cases "fieldEncoding x = Uncompressed")
    case True
    with Cons.prems show ?thesis
      by (cases x) (auto split: sum.splits)
  next
    case False
    with Cons.prems have "haveUncompressed fs" "recoverable c pre (before @ [x]) fs"
      by (simp_all add: haveUncompressed_def)
    with Cons.IH [of "before @ [x]"] Cons.prems(1)
    have "recoverKeys c m pre (before @ [x]) fs
            = Inl (UncompressedKeyNotAllowedError uncompressedNotAllowed)" by simp
    with Cons.prems False show ?thesis
      by (cases x) (auto split: sum.splits)
  qed
qed

lemma deserializeSpendingCondition_uncompressed:
  assumes "wellSized (MultiSigSpendingCondition m s n f fs req)"
    and "haveUncompressed fs" "requiresCompressedKeys m"
  shows "deserializeSpendingCondition
           \<lparr>remaining = serializeSpendingCondition (MultiSigSpendingCondition m s n f fs req) @ rest,
              consumed = k\<rparr>
         = Inl (UncompressedKeyNotAllowedError uncompressedNotAllowed)"
proof -
  from assms have v: "\<not> isSingleSigHashMode m" "length s = 20" "n < 2 ^ 64" "f < 2 ^ 64"
    "list_all validAuthField fs" "length fs < 2 ^ 32" "req < 2 ^ 16"
    by (simp_all add: wellSized_def)
  have l: "\<And>rest k. deserializeLPList deserializeAuthField
             \<lparr>remaining = serializeLPList serializeAuthField fs @ rest, consumed = k\<rparr>
           = Inr (fs, \<lparr>remaining = rest,
                consumed = k + length (serializeLPList serializeAuthField fs)\<rparr>)"
    using v(5,6) by (intro deserializeLPList_append deserializeAuthField_append)
      (simp_all add: list_all_iff)
  show ?thesis
    using v(1-4,7) assms(2,3)
    by (simp add: deserializeSpendingCondition_def serializeSpendingCondition_def readTag_cons l)
qed

lemma deserializeFromReader_uncompressed:
  assumes "spendingCondition (auth tx) = MultiSigSpendingCondition m s n f fs req"
    and "wellSized (spendingCondition (auth tx))" and "chainId tx < 2 ^ 32"
    and "haveUncompressed fs" "requiresCompressedKeys m"
  shows "deserializeFromReader cvLen \<lparr>remaining = serializeBytes tx, consumed = 0\<rparr>
           = Inl (UncompressedKeyNotAllowedError uncompressedNotAllowed)"
proof -
  have w: "wellSized (MultiSigSpendingCondition m s n f fs req)" using assms(1,2) by simp
  note e = deserializeSpendingCondition_uncompressed [OF w assms(4,5)]
  have "\<And>rest k. deserializeAuthorization \<lparr>remaining = serializeAuthorization (auth tx) @ rest,
             consumed = k\<rparr> = Inl (UncompressedKeyNotAllowedError uncompressedNotAllowed)"
    using assms(1)
    by (cases "auth tx")
       (simp_all add: deserializeAuthorization_def serializeAuthorization_def authTypeTag_def e)
  then show ?thesis
    using assms(3)
    by (simp add: deserializeFromReader_def serializeBytes_def readTag_cons)
qed

text \<open>
  Claim C4. With a hash mode that requires compressed keys, \<^verbatim>\<open>createMultiSigSpendingCondition\<close>
  on a key set that holds an uncompressed key fails with \<open>UncompressedKeyNotAllowedError\<close>;
  and on an envelope whose multi-sig origin has such a hash mode and an uncompressed field
  (as when the hash mode was replaced after construction), \<^verbatim>\<open>verifyOrigin\<close> fails with
  \<open>UncompressedKeyNotAllowedError\<close> when its signatures can be recovered, and so does
  \<^verbatim>\<open>deserializeTransaction\<close> on its serialization, text or bytes. The message differs:
  the one of construction is \<open>compressedForSegwit\<close>, the one of verification and decoding
  \<open>uncompressedNotAllowed\<close>.
\<close>

theorem segwit_hash_mode_rejects_uncompressed_keys:
  assumes "requiresCompressedKeys mode"
    and "mapE (createStacksPublicKey c) pubKeys = Inr keys"
    and "\<not> list_all publicKeyIsCompressed keys"
    and "spendingCondition (auth tx) = MultiSigSpendingCondition mode s n f fs req"
    and "haveUncompressed fs"
    and "signaturesRecoverable c tx"
    and "wellSized (spendingCondition (auth tx))" and "chainId tx < 2 ^ 32"
  shows "createMultiSigSpendingCondition c mode numSigs pubKeys nonce0 fee0
           = Inl (UncompressedKeyNotAllowedError compressedForSegwit) \<and>
         verifyOrigin c tx = Inl (UncompressedKeyNotAllowedError uncompressedNotAllowed) \<and>
         deserializeTransaction (cvLength c) (FromHex (serialize tx))
           = Inl (UncompressedKeyNotAllowedError uncompressedNotAllowed) \<and>
         deserializeTransaction (cvLength c) (FromBytes (serializeBytes tx))
           = Inl (UncompressedKeyNotAllowedError uncompressedNotAllowed)"
proof -
  have 1: "createMultiSigSpendingCondition c mode numSigs pubKeys nonce0 fee0
             = Inl (UncompressedKeyNotAllowedError compressedForSegwit)"
    using assms(1-3) by (simp add: createMultiSigSpendingCondition_def)
  have "recoverable c
          (\<lambda>before. serializeBytes (setOrigin tx (MultiSigSpendingCondition mode s n f before req)))
          [] fs"
    using assms(6) by (simp add: signaturesRecoverable_def assms(4))
  from recoverKeys_uncompressed [OF assms(1,5) this]
  have 2: "verifyOrigin c tx = Inl (UncompressedKeyNotAllowedError uncompressedNotAllowed)"
    by (simp add: verifyOrigin_def assms(4))
  note e = deserializeFromReader_uncompressed [OF assms(4,7,8,5,1)]
  have 3: "deserializeTransaction (cvLength c) (FromHex (serialize tx))
             = Inl (UncompressedKeyNotAllowedError uncompressedNotAllowed)"
    by (simp add: deserializeTransaction_def serialize_def hexToBytes_bytesToHex e)
  have 4: "deserializeTransaction (cvLength c) (FromBytes (serializeBytes tx))
             = Inl (UncompressedKeyNotAllowedError uncompressedNotAllowed)"
    by (simp add: deserializeTransaction_def e)
  show ?thesis using 1 2 3 4 by blast
qed

theorem segwit_hash_mode_rejects_uncompressed_keys_witness:
  "createMultiSigSpendingCondition demo SerializeP2WSH 2
     [replicate 65 (CHR ''a''), replicate 33 (CHR ''b''), replicate 33 (CHR ''c'')] 0 0
     = Inl (UncompressedKeyNotAllowedError compressedForSegwit) \<and>
   verifyOrigin demo demo_segwit_tx
     = Inl (UncompressedKeyNotAllowedError uncompressedNotAllowed) \<and>
   deserializeTransaction (cvLength demo) (FromHex (serialize demo_segwit_tx))
     = Inl (UncompressedKeyNotAllowedError uncompressedNotAllowed) \<and>
   deserializeTransaction (cvLength demo) (FromBytes (serializeBytes demo_segwit_tx))
     = Inl (UncompressedKeyNotAllowedError uncompressedNotAllowed)"
proof (rule segwit_hash_mode_rejects_uncompressed_keys)
  show "requiresCompressedKeys SerializeP2WSH" by (simp add: requiresCompressedKeys_def)
  show "mapE (createStacksPublicKey demo)
          [replicate 65 (CHR ''a''), replicate 33 (CHR ''b''), replicate 33 (CHR ''c'')]
        = Inr [replicate 65 97, replicate 33 98, replicate 33 99]"
    by (simp add: demo_def demo_keys_def)
  show "\<not> list_all publicKeyIsCompressed
            [replicate 65 (97 :: byte), replicate 33 98, replicate 33 99]"
    by (simp add: publicKeyIsCompressed_def)
  show "spendingCondition (auth demo_segwit_tx)
          = MultiSigSpendingCondition SerializeP2WSH (replicate 20 17) 0 0
              [MessageSignatureField Uncompressed (replicate 65 1),
               MessageSignatureField Uncompressed (replicate 65 2),
               PublicKeyField Uncompressed (replicate 65 3)] 2"
    by (simp add: demo_segwit_tx_def)
  show "haveUncompressed [MessageSignatureField Uncompressed (replicate 65 1),
               MessageSignatureField Uncompressed (replicate 65 2),
               PublicKeyField Uncompressed (replicate 65 3)]"
    by (simp add: haveUncompressed_def fieldEncoding_def)
  show "signaturesRecoverable demo demo_segwit_tx"
    by (simp add: signaturesRecoverable_def demo_segwit_tx_def demo_def)
  show "wellSized (spendingCondition (auth demo_segwit_tx))"
    by (simp add: demo_segwit_tx_def valid_simps)
  show "chainId demo_segwit_tx < 2 ^ 32" by (simp add: demo_segwit_tx_def)
qed


end
